theory Spec2Isabelle
  imports Main
begin

section \<open>Python values used by enigma.py\<close>

text \<open>
  A Python \<open>str\<close> is a sequence of Unicode code points; a character is a \<open>str\<close> of
  length one. Python integers are unbounded, so indices, positions and ring offsets are
  \<open>int\<close>. Every exception the interpreter can raise in enigma.py is a value of \<open>error\<close>,
  and a function that can raise returns \<open>error + 'a\<close>. A method that changes its object
  returns the object after the call. When a call raises, the result is the exception
  alone: the state in which the exception leaves the object is not modelled.
\<close>

type_synonym pystr = "nat list"

datatype error = ValueError | KeyError | IndexError | TypeError

definition andthen :: "error + 'a \<Rightarrow> ('a \<Rightarrow> error + 'b) \<Rightarrow> error + 'b" where
  "andthen r f = (case r of Inl e \<Rightarrow> Inl e | Inr x \<Rightarrow> f x)"

abbreviation str :: "string \<Rightarrow> pystr" where
  "str s \<equiv> map of_char s"

text \<open>
  Subscription \<open>xs[i]\<close> of a list or a str: a negative index counts from the end, and an
  index outside \<open>-len .. len - 1\<close> raises IndexError. Subscripting a str yields a str of
  length one.
\<close>

definition getitem :: "'a list \<Rightarrow> int \<Rightarrow> error + 'a" where
  "getitem xs i =
     (if 0 \<le> i \<and> i < int (length xs) then Inr (xs ! nat i)
      else if i < 0 \<and> - int (length xs) \<le> i then Inr (xs ! nat (i + int (length xs)))
      else Inl IndexError)"

definition setitem :: "'a list \<Rightarrow> int \<Rightarrow> 'a \<Rightarrow> error + 'a list" where
  "setitem xs i v =
     (if 0 \<le> i \<and> i < int (length xs) then Inr (xs[nat i := v])
      else if i < 0 \<and> - int (length xs) \<le> i then Inr (xs[nat (i + int (length xs)) := v])
      else Inl IndexError)"

definition str_getitem :: "pystr \<Rightarrow> int \<Rightarrow> error + pystr" where
  "str_getitem s i = andthen (getitem s i) (\<lambda>c. Inr [c])"

text \<open>
  \<open>str.upper\<close> and \<open>str.isalpha\<close> on one code point, from the Unicode character database
  (version 14.0.0, as CPython 3.11 has it); \<open>str.upper\<close> on a string upper-cases each
  character by itself. Below 256 (ASCII and Latin-1) the letters are A-Z, a-z, the
  ordinal indicators 170 and 186, the micro sign 181, and 192 to 255 without the
  multiplication and division signs 215 and 247; upper-casing maps a-z and the lower-case
  Latin-1 letters 32 down, the micro sign to GREEK CAPITAL LETTER MU (924), the sharp s
  (223) to the two letters SS, and 255 to 376.
  From 256 on the database is given as tables: \<open>alpha_ranges\<close> lists the 641 intervals of
  alphabetic code points, \<open>upper_table\<close> the 1466 code points that upper-casing changes,
  each with the one to three code points it becomes. Both tables are in ascending order
  and cut into pieces by code point, so that a lookup reads one piece only.
\<close>

definition alpha_ranges_1 :: "(nat \<times> nat) list" where
  "alpha_ranges_1 =
     [
      (256, 705), (710, 721), (736, 740), (748, 748), (750, 750), (880, 884), (886, 887),
      (890, 893), (895, 895), (902, 902), (904, 906), (908, 908), (910, 929), (931, 1013),
      (1015, 1153), (1162, 1327), (1329, 1366), (1369, 1369), (1376, 1416), (1488, 1514),
      (1519, 1522), (1568, 1610), (1646, 1647), (1649, 1747), (1749, 1749), (1765, 1766),
      (1774, 1775), (1786, 1788), (1791, 1791), (1808, 1808), (1810, 1839), (1869, 1957),
      (1969, 1969), (1994, 2026), (2036, 2037), (2042, 2042), (2048, 2069), (2074, 2074),
      (2084, 2084), (2088, 2088), (2112, 2136), (2144, 2154), (2160, 2183), (2185, 2190),
      (2208, 2249), (2308, 2361), (2365, 2365), (2384, 2384), (2392, 2401), (2417, 2432),
      (2437, 2444), (2447, 2448), (2451, 2472), (2474, 2480), (2482, 2482), (2486, 2489),
      (2493, 2493), (2510, 2510), (2524, 2525), (2527, 2529), (2544, 2545), (2556, 2556),
      (2565, 2570), (2575, 2576), (2579, 2600), (2602, 2608), (2610, 2611), (2613, 2614),
      (2616, 2617), (2649, 2652), (2654, 2654), (2674, 2676), (2693, 2701), (2703, 2705),
      (2707, 2728), (2730, 2736), (2738, 2739), (2741, 2745), (2749, 2749), (2768, 2768),
      (2784, 2785), (2809, 2809), (2821, 2828), (2831, 2832), (2835, 2856), (2858, 2864),
      (2866, 2867), (2869, 2873), (2877, 2877), (2908, 2909), (2911, 2913), (2929, 2929),
      (2947, 2947), (2949, 2954), (2958, 2960), (2962, 2965), (2969, 2970), (2972, 2972),
      (2974, 2975), (2979, 2980), (2984, 2986), (2990, 3001), (3024, 3024), (3077, 3084),
      (3086, 3088), (3090, 3112), (3114, 3129)]"

definition alpha_ranges_2 :: "(nat \<times> nat) list" where
  "alpha_ranges_2 =
     [
      (3133, 3133), (3160, 3162), (3165, 3165), (3168, 3169), (3200, 3200), (3205, 3212),
      (3214, 3216), (3218, 3240), (3242, 3251), (3253, 3257), (3261, 3261), (3293, 3294),
      (3296, 3297), (3313, 3314), (3332, 3340), (3342, 3344), (3346, 3386), (3389, 3389),
      (3406, 3406), (3412, 3414), (3423, 3425), (3450, 3455), (3461, 3478), (3482, 3505),
      (3507, 3515), (3517, 3517), (3520, 3526), (3585, 3632), (3634, 3635), (3648, 3654),
      (3713, 3714), (3716, 3716), (3718, 3722), (3724, 3747), (3749, 3749), (3751, 3760),
      (3762, 3763), (3773, 3773), (3776, 3780), (3782, 3782), (3804, 3807), (3840, 3840),
      (3904, 3911), (3913, 3948), (3976, 3980), (4096, 4138), (4159, 4159), (4176, 4181),
      (4186, 4189), (4193, 4193), (4197, 4198), (4206, 4208), (4213, 4225), (4238, 4238),
      (4256, 4293), (4295, 4295), (4301, 4301), (4304, 4346), (4348, 4680), (4682, 4685),
      (4688, 4694), (4696, 4696), (4698, 4701), (4704, 4744), (4746, 4749), (4752, 4784),
      (4786, 4789), (4792, 4798), (4800, 4800), (4802, 4805), (4808, 4822), (4824, 4880),
      (4882, 4885), (4888, 4954), (4992, 5007), (5024, 5109), (5112, 5117), (5121, 5740),
      (5743, 5759), (5761, 5786), (5792, 5866), (5873, 5880), (5888, 5905), (5919, 5937),
      (5952, 5969), (5984, 5996), (5998, 6000), (6016, 6067), (6103, 6103), (6108, 6108),
      (6176, 6264), (6272, 6276), (6279, 6312), (6314, 6314), (6320, 6389), (6400, 6430),
      (6480, 6509), (6512, 6516), (6528, 6571), (6576, 6601), (6656, 6678), (6688, 6740),
      (6823, 6823), (6917, 6963), (6981, 6988), (7043, 7072), (7086, 7087)]"

definition alpha_ranges_3 :: "(nat \<times> nat) list" where
  "alpha_ranges_3 =
     [
      (7098, 7141), (7168, 7203), (7245, 7247), (7258, 7293), (7296, 7304), (7312, 7354),
      (7357, 7359), (7401, 7404), (7406, 7411), (7413, 7414), (7418, 7418), (7424, 7615),
      (7680, 7957), (7960, 7965), (7968, 8005), (8008, 8013), (8016, 8023), (8025, 8025),
      (8027, 8027), (8029, 8029), (8031, 8061), (8064, 8116), (8118, 8124), (8126, 8126),
      (8130, 8132), (8134, 8140), (8144, 8147), (8150, 8155), (8160, 8172), (8178, 8180),
      (8182, 8188), (8305, 8305), (8319, 8319), (8336, 8348), (8450, 8450), (8455, 8455),
      (8458, 8467), (8469, 8469), (8473, 8477), (8484, 8484), (8486, 8486), (8488, 8488),
      (8490, 8493), (8495, 8505), (8508, 8511), (8517, 8521), (8526, 8526), (8579, 8580),
      (11264, 11492), (11499, 11502), (11506, 11507), (11520, 11557), (11559, 11559),
      (11565, 11565), (11568, 11623), (11631, 11631), (11648, 11670), (11680, 11686),
      (11688, 11694), (11696, 11702), (11704, 11710), (11712, 11718), (11720, 11726),
      (11728, 11734), (11736, 11742), (11823, 11823), (12293, 12294), (12337, 12341),
      (12347, 12348), (12353, 12438), (12445, 12447), (12449, 12538), (12540, 12543),
      (12549, 12591), (12593, 12686), (12704, 12735), (12784, 12799), (13312, 19903),
      (19968, 42124), (42192, 42237), (42240, 42508), (42512, 42527), (42538, 42539),
      (42560, 42606), (42623, 42653), (42656, 42725), (42775, 42783), (42786, 42888),
      (42891, 42954), (42960, 42961), (42963, 42963), (42965, 42969), (42994, 43009),
      (43011, 43013), (43015, 43018), (43020, 43042), (43072, 43123), (43138, 43187),
      (43250, 43255), (43259, 43259), (43261, 43262), (43274, 43301), (43312, 43334),
      (43360, 43388), (43396, 43442), (43471, 43471), (43488, 43492)]"

definition alpha_ranges_4 :: "(nat \<times> nat) list" where
  "alpha_ranges_4 =
     [
      (43494, 43503), (43514, 43518), (43520, 43560), (43584, 43586), (43588, 43595),
      (43616, 43638), (43642, 43642), (43646, 43695), (43697, 43697), (43701, 43702),
      (43705, 43709), (43712, 43712), (43714, 43714), (43739, 43741), (43744, 43754),
      (43762, 43764), (43777, 43782), (43785, 43790), (43793, 43798), (43808, 43814),
      (43816, 43822), (43824, 43866), (43868, 43881), (43888, 44002), (44032, 55203),
      (55216, 55238), (55243, 55291), (63744, 64109), (64112, 64217), (64256, 64262),
      (64275, 64279), (64285, 64285), (64287, 64296), (64298, 64310), (64312, 64316),
      (64318, 64318), (64320, 64321), (64323, 64324), (64326, 64433), (64467, 64829),
      (64848, 64911), (64914, 64967), (65008, 65019), (65136, 65140), (65142, 65276),
      (65313, 65338), (65345, 65370), (65382, 65470), (65474, 65479), (65482, 65487),
      (65490, 65495), (65498, 65500), (65536, 65547), (65549, 65574), (65576, 65594),
      (65596, 65597), (65599, 65613), (65616, 65629), (65664, 65786), (66176, 66204),
      (66208, 66256), (66304, 66335), (66349, 66368), (66370, 66377), (66384, 66421),
      (66432, 66461), (66464, 66499), (66504, 66511), (66560, 66717), (66736, 66771),
      (66776, 66811), (66816, 66855), (66864, 66915), (66928, 66938), (66940, 66954),
      (66956, 66962), (66964, 66965), (66967, 66977), (66979, 66993), (66995, 67001),
      (67003, 67004), (67072, 67382), (67392, 67413), (67424, 67431), (67456, 67461),
      (67463, 67504), (67506, 67514), (67584, 67589), (67592, 67592), (67594, 67637),
      (67639, 67640), (67644, 67644), (67647, 67669), (67680, 67702), (67712, 67742),
      (67808, 67826), (67828, 67829), (67840, 67861), (67872, 67897), (67968, 68023),
      (68030, 68031), (68096, 68096), (68112, 68115), (68117, 68119), (68121, 68149),
      (68192, 68220), (68224, 68252)]"

definition alpha_ranges_5 :: "(nat \<times> nat) list" where
  "alpha_ranges_5 =
     [
      (68288, 68295), (68297, 68324), (68352, 68405), (68416, 68437), (68448, 68466),
      (68480, 68497), (68608, 68680), (68736, 68786), (68800, 68850), (68864, 68899),
      (69248, 69289), (69296, 69297), (69376, 69404), (69415, 69415), (69424, 69445),
      (69488, 69505), (69552, 69572), (69600, 69622), (69635, 69687), (69745, 69746),
      (69749, 69749), (69763, 69807), (69840, 69864), (69891, 69926), (69956, 69956),
      (69959, 69959), (69968, 70002), (70006, 70006), (70019, 70066), (70081, 70084),
      (70106, 70106), (70108, 70108), (70144, 70161), (70163, 70187), (70272, 70278),
      (70280, 70280), (70282, 70285), (70287, 70301), (70303, 70312), (70320, 70366),
      (70405, 70412), (70415, 70416), (70419, 70440), (70442, 70448), (70450, 70451),
      (70453, 70457), (70461, 70461), (70480, 70480), (70493, 70497), (70656, 70708),
      (70727, 70730), (70751, 70753), (70784, 70831), (70852, 70853), (70855, 70855),
      (71040, 71086), (71128, 71131), (71168, 71215), (71236, 71236), (71296, 71338),
      (71352, 71352), (71424, 71450), (71488, 71494), (71680, 71723), (71840, 71903),
      (71935, 71942), (71945, 71945), (71948, 71955), (71957, 71958), (71960, 71983),
      (71999, 71999), (72001, 72001), (72096, 72103), (72106, 72144), (72161, 72161),
      (72163, 72163), (72192, 72192), (72203, 72242), (72250, 72250), (72272, 72272),
      (72284, 72329), (72349, 72349), (72368, 72440), (72704, 72712), (72714, 72750),
      (72768, 72768), (72818, 72847), (72960, 72966), (72968, 72969), (72971, 73008),
      (73030, 73030), (73056, 73061), (73063, 73064), (73066, 73097), (73112, 73112),
      (73440, 73458), (73648, 73648), (73728, 74649), (74880, 75075), (77712, 77808),
      (77824, 78894), (82944, 83526), (92160, 92728), (92736, 92766), (92784, 92862),
      (92880, 92909), (92928, 92975)]"

definition alpha_ranges_6 :: "(nat \<times> nat) list" where
  "alpha_ranges_6 =
     [
      (92992, 92995), (93027, 93047), (93053, 93071), (93760, 93823), (93952, 94026),
      (94032, 94032), (94099, 94111), (94176, 94177), (94179, 94179), (94208, 100343),
      (100352, 101589), (101632, 101640), (110576, 110579), (110581, 110587), (110589, 110590),
      (110592, 110882), (110928, 110930), (110948, 110951), (110960, 111355), (113664, 113770),
      (113776, 113788), (113792, 113800), (113808, 113817), (119808, 119892), (119894, 119964),
      (119966, 119967), (119970, 119970), (119973, 119974), (119977, 119980), (119982, 119993),
      (119995, 119995), (119997, 120003), (120005, 120069), (120071, 120074), (120077, 120084),
      (120086, 120092), (120094, 120121), (120123, 120126), (120128, 120132), (120134, 120134),
      (120138, 120144), (120146, 120485), (120488, 120512), (120514, 120538), (120540, 120570),
      (120572, 120596), (120598, 120628), (120630, 120654), (120656, 120686), (120688, 120712),
      (120714, 120744), (120746, 120770), (120772, 120779), (122624, 122654), (123136, 123180),
      (123191, 123197), (123214, 123214), (123536, 123565), (123584, 123627), (124896, 124902),
      (124904, 124907), (124909, 124910), (124912, 124926), (124928, 125124), (125184, 125251),
      (125259, 125259), (126464, 126467), (126469, 126495), (126497, 126498), (126500, 126500),
      (126503, 126503), (126505, 126514), (126516, 126519), (126521, 126521), (126523, 126523),
      (126530, 126530), (126535, 126535), (126537, 126537), (126539, 126539), (126541, 126543),
      (126545, 126546), (126548, 126548), (126551, 126551), (126553, 126553), (126555, 126555),
      (126557, 126557), (126559, 126559), (126561, 126562), (126564, 126564), (126567, 126570),
      (126572, 126578), (126580, 126583), (126585, 126588), (126590, 126590), (126592, 126601),
      (126603, 126619), (126625, 126627), (126629, 126633), (126635, 126651), (131072, 173791),
      (173824, 177976), (177984, 178205), (178208, 183969), (183984, 191456), (194560, 195101),
      (196608, 201546)]"

definition alpha_ranges :: "nat \<Rightarrow> (nat \<times> nat) list" where
  "alpha_ranges c =
     (if c < 3133 then alpha_ranges_1
      else if c < 7098 then alpha_ranges_2
      else if c < 43494 then alpha_ranges_3
      else if c < 68288 then alpha_ranges_4
      else if c < 92992 then alpha_ranges_5
      else alpha_ranges_6)"

definition upper_table_1 :: "(nat \<times> nat list) list" where
  "upper_table_1 =
     [
      (257, [256]), (259, [258]), (261, [260]), (263, [262]), (265, [264]), (267, [266]),
      (269, [268]), (271, [270]), (273, [272]), (275, [274]), (277, [276]), (279, [278]),
      (281, [280]), (283, [282]), (285, [284]), (287, [286]), (289, [288]), (291, [290]),
      (293, [292]), (295, [294]), (297, [296]), (299, [298]), (301, [300]), (303, [302]),
      (305, [73]), (307, [306]), (309, [308]), (311, [310]), (314, [313]), (316, [315]),
      (318, [317]), (320, [319]), (322, [321]), (324, [323]), (326, [325]), (328, [327]),
      (329, [700, 78]), (331, [330]), (333, [332]), (335, [334]), (337, [336]), (339, [338]),
      (341, [340]), (343, [342]), (345, [344]), (347, [346]), (349, [348]), (351, [350]),
      (353, [352]), (355, [354]), (357, [356]), (359, [358]), (361, [360]), (363, [362]),
      (365, [364]), (367, [366]), (369, [368]), (371, [370]), (373, [372]), (375, [374]),
      (378, [377]), (380, [379]), (382, [381]), (383, [83]), (384, [579]), (387, [386]),
      (389, [388]), (392, [391]), (396, [395]), (402, [401]), (405, [502]), (409, [408]),
      (410, [573]), (414, [544]), (417, [416]), (419, [418]), (421, [420]), (424, [423]),
      (429, [428]), (432, [431]), (436, [435]), (438, [437]), (441, [440]), (445, [444]),
      (447, [503]), (453, [452]), (454, [452]), (456, [455]), (457, [455]), (459, [458]),
      (460, [458]), (462, [461])]"

definition upper_table_2 :: "(nat \<times> nat list) list" where
  "upper_table_2 =
     [
      (464, [463]), (466, [465]), (468, [467]), (470, [469]), (472, [471]), (474, [473]),
      (476, [475]), (477, [398]), (479, [478]), (481, [480]), (483, [482]), (485, [484]),
      (487, [486]), (489, [488]), (491, [490]), (493, [492]), (495, [494]), (496, [74, 780]),
      (498, [497]), (499, [497]), (501, [500]), (505, [504]), (507, [506]), (509, [508]),
      (511, [510]), (513, [512]), (515, [514]), (517, [516]), (519, [518]), (521, [520]),
      (523, [522]), (525, [524]), (527, [526]), (529, [528]), (531, [530]), (533, [532]),
      (535, [534]), (537, [536]), (539, [538]), (541, [540]), (543, [542]), (547, [546]),
      (549, [548]), (551, [550]), (553, [552]), (555, [554]), (557, [556]), (559, [558]),
      (561, [560]), (563, [562]), (572, [571]), (575, [11390]), (576, [11391]), (578, [577]),
      (583, [582]), (585, [584]), (587, [586]), (589, [588]), (591, [590]), (592, [11375]),
      (593, [11373]), (594, [11376]), (595, [385]), (596, [390]), (598, [393]), (599, [394]),
      (601, [399]), (603, [400]), (604, [42923]), (608, [403]), (609, [42924]), (611, [404]),
      (613, [42893]), (614, [42922]), (616, [407]), (617, [406]), (618, [42926]),
      (619, [11362]), (620, [42925]), (623, [412]), (625, [11374]), (626, [413]), (629, [415]),
      (637, [11364]), (640, [422]), (642, [42949]), (643, [425]), (647, [42929]), (648, [430]),
      (649, [580]), (650, [433]), (651, [434])]"

definition upper_table_3 :: "(nat \<times> nat list) list" where
  "upper_table_3 =
     [
      (652, [581]), (658, [439]), (669, [42930]), (670, [42928]), (837, [921]), (881, [880]),
      (883, [882]), (887, [886]), (891, [1021]), (892, [1022]), (893, [1023]),
      (912, [921, 776, 769]), (940, [902]), (941, [904]), (942, [905]), (943, [906]),
      (944, [933, 776, 769]), (945, [913]), (946, [914]), (947, [915]), (948, [916]),
      (949, [917]), (950, [918]), (951, [919]), (952, [920]), (953, [921]), (954, [922]),
      (955, [923]), (956, [924]), (957, [925]), (958, [926]), (959, [927]), (960, [928]),
      (961, [929]), (962, [931]), (963, [931]), (964, [932]), (965, [933]), (966, [934]),
      (967, [935]), (968, [936]), (969, [937]), (970, [938]), (971, [939]), (972, [908]),
      (973, [910]), (974, [911]), (976, [914]), (977, [920]), (981, [934]), (982, [928]),
      (983, [975]), (985, [984]), (987, [986]), (989, [988]), (991, [990]), (993, [992]),
      (995, [994]), (997, [996]), (999, [998]), (1001, [1000]), (1003, [1002]), (1005, [1004]),
      (1007, [1006]), (1008, [922]), (1009, [929]), (1010, [1017]), (1011, [895]),
      (1013, [917]), (1016, [1015]), (1019, [1018]), (1072, [1040]), (1073, [1041]),
      (1074, [1042]), (1075, [1043]), (1076, [1044]), (1077, [1045]), (1078, [1046]),
      (1079, [1047]), (1080, [1048]), (1081, [1049]), (1082, [1050]), (1083, [1051]),
      (1084, [1052]), (1085, [1053]), (1086, [1054]), (1087, [1055]), (1088, [1056]),
      (1089, [1057]), (1090, [1058]), (1091, [1059]), (1092, [1060])]"

definition upper_table_4 :: "(nat \<times> nat list) list" where
  "upper_table_4 =
     [
      (1093, [1061]), (1094, [1062]), (1095, [1063]), (1096, [1064]), (1097, [1065]),
      (1098, [1066]), (1099, [1067]), (1100, [1068]), (1101, [1069]), (1102, [1070]),
      (1103, [1071]), (1104, [1024]), (1105, [1025]), (1106, [1026]), (1107, [1027]),
      (1108, [1028]), (1109, [1029]), (1110, [1030]), (1111, [1031]), (1112, [1032]),
      (1113, [1033]), (1114, [1034]), (1115, [1035]), (1116, [1036]), (1117, [1037]),
      (1118, [1038]), (1119, [1039]), (1121, [1120]), (1123, [1122]), (1125, [1124]),
      (1127, [1126]), (1129, [1128]), (1131, [1130]), (1133, [1132]), (1135, [1134]),
      (1137, [1136]), (1139, [1138]), (1141, [1140]), (1143, [1142]), (1145, [1144]),
      (1147, [1146]), (1149, [1148]), (1151, [1150]), (1153, [1152]), (1163, [1162]),
      (1165, [1164]), (1167, [1166]), (1169, [1168]), (1171, [1170]), (1173, [1172]),
      (1175, [1174]), (1177, [1176]), (1179, [1178]), (1181, [1180]), (1183, [1182]),
      (1185, [1184]), (1187, [1186]), (1189, [1188]), (1191, [1190]), (1193, [1192]),
      (1195, [1194]), (1197, [1196]), (1199, [1198]), (1201, [1200]), (1203, [1202]),
      (1205, [1204]), (1207, [1206]), (1209, [1208]), (1211, [1210]), (1213, [1212]),
      (1215, [1214]), (1218, [1217]), (1220, [1219]), (1222, [1221]), (1224, [1223]),
      (1226, [1225]), (1228, [1227]), (1230, [1229]), (1231, [1216]), (1233, [1232]),
      (1235, [1234]), (1237, [1236]), (1239, [1238]), (1241, [1240]), (1243, [1242]),
      (1245, [1244]), (1247, [1246]), (1249, [1248]), (1251, [1250]), (1253, [1252]),
      (1255, [1254]), (1257, [1256])]"

definition upper_table_5 :: "(nat \<times> nat list) list" where
  "upper_table_5 =
     [
      (1259, [1258]), (1261, [1260]), (1263, [1262]), (1265, [1264]), (1267, [1266]),
      (1269, [1268]), (1271, [1270]), (1273, [1272]), (1275, [1274]), (1277, [1276]),
      (1279, [1278]), (1281, [1280]), (1283, [1282]), (1285, [1284]), (1287, [1286]),
      (1289, [1288]), (1291, [1290]), (1293, [1292]), (1295, [1294]), (1297, [1296]),
      (1299, [1298]), (1301, [1300]), (1303, [1302]), (1305, [1304]), (1307, [1306]),
      (1309, [1308]), (1311, [1310]), (1313, [1312]), (1315, [1314]), (1317, [1316]),
      (1319, [1318]), (1321, [1320]), (1323, [1322]), (1325, [1324]), (1327, [1326]),
      (1377, [1329]), (1378, [1330]), (1379, [1331]), (1380, [1332]), (1381, [1333]),
      (1382, [1334]), (1383, [1335]), (1384, [1336]), (1385, [1337]), (1386, [1338]),
      (1387, [1339]), (1388, [1340]), (1389, [1341]), (1390, [1342]), (1391, [1343]),
      (1392, [1344]), (1393, [1345]), (1394, [1346]), (1395, [1347]), (1396, [1348]),
      (1397, [1349]), (1398, [1350]), (1399, [1351]), (1400, [1352]), (1401, [1353]),
      (1402, [1354]), (1403, [1355]), (1404, [1356]), (1405, [1357]), (1406, [1358]),
      (1407, [1359]), (1408, [1360]), (1409, [1361]), (1410, [1362]), (1411, [1363]),
      (1412, [1364]), (1413, [1365]), (1414, [1366]), (1415, [1333, 1362]), (4304, [7312]),
      (4305, [7313]), (4306, [7314]), (4307, [7315]), (4308, [7316]), (4309, [7317]),
      (4310, [7318]), (4311, [7319]), (4312, [7320]), (4313, [7321]), (4314, [7322]),
      (4315, [7323]), (4316, [7324]), (4317, [7325]), (4318, [7326]), (4319, [7327]),
      (4320, [7328]), (4321, [7329])]"

definition upper_table_6 :: "(nat \<times> nat list) list" where
  "upper_table_6 =
     [
      (4322, [7330]), (4323, [7331]), (4324, [7332]), (4325, [7333]), (4326, [7334]),
      (4327, [7335]), (4328, [7336]), (4329, [7337]), (4330, [7338]), (4331, [7339]),
      (4332, [7340]), (4333, [7341]), (4334, [7342]), (4335, [7343]), (4336, [7344]),
      (4337, [7345]), (4338, [7346]), (4339, [7347]), (4340, [7348]), (4341, [7349]),
      (4342, [7350]), (4343, [7351]), (4344, [7352]), (4345, [7353]), (4346, [7354]),
      (4349, [7357]), (4350, [7358]), (4351, [7359]), (5112, [5104]), (5113, [5105]),
      (5114, [5106]), (5115, [5107]), (5116, [5108]), (5117, [5109]), (7296, [1042]),
      (7297, [1044]), (7298, [1054]), (7299, [1057]), (7300, [1058]), (7301, [1058]),
      (7302, [1066]), (7303, [1122]), (7304, [42570]), (7545, [42877]), (7549, [11363]),
      (7566, [42950]), (7681, [7680]), (7683, [7682]), (7685, [7684]), (7687, [7686]),
      (7689, [7688]), (7691, [7690]), (7693, [7692]), (7695, [7694]), (7697, [7696]),
      (7699, [7698]), (7701, [7700]), (7703, [7702]), (7705, [7704]), (7707, [7706]),
      (7709, [7708]), (7711, [7710]), (7713, [7712]), (7715, [7714]), (7717, [7716]),
      (7719, [7718]), (7721, [7720]), (7723, [7722]), (7725, [7724]), (7727, [7726]),
      (7729, [7728]), (7731, [7730]), (7733, [7732]), (7735, [7734]), (7737, [7736]),
      (7739, [7738]), (7741, [7740]), (7743, [7742]), (7745, [7744]), (7747, [7746]),
      (7749, [7748]), (7751, [7750]), (7753, [7752]), (7755, [7754]), (7757, [7756]),
      (7759, [7758]), (7761, [7760]), (7763, [7762]), (7765, [7764]), (7767, [7766]),
      (7769, [7768]), (7771, [7770])]"

definition upper_table_7 :: "(nat \<times> nat list) list" where
  "upper_table_7 =
     [
      (7773, [7772]), (7775, [7774]), (7777, [7776]), (7779, [7778]), (7781, [7780]),
      (7783, [7782]), (7785, [7784]), (7787, [7786]), (7789, [7788]), (7791, [7790]),
      (7793, [7792]), (7795, [7794]), (7797, [7796]), (7799, [7798]), (7801, [7800]),
      (7803, [7802]), (7805, [7804]), (7807, [7806]), (7809, [7808]), (7811, [7810]),
      (7813, [7812]), (7815, [7814]), (7817, [7816]), (7819, [7818]), (7821, [7820]),
      (7823, [7822]), (7825, [7824]), (7827, [7826]), (7829, [7828]), (7830, [72, 817]),
      (7831, [84, 776]), (7832, [87, 778]), (7833, [89, 778]), (7834, [65, 702]),
      (7835, [7776]), (7841, [7840]), (7843, [7842]), (7845, [7844]), (7847, [7846]),
      (7849, [7848]), (7851, [7850]), (7853, [7852]), (7855, [7854]), (7857, [7856]),
      (7859, [7858]), (7861, [7860]), (7863, [7862]), (7865, [7864]), (7867, [7866]),
      (7869, [7868]), (7871, [7870]), (7873, [7872]), (7875, [7874]), (7877, [7876]),
      (7879, [7878]), (7881, [7880]), (7883, [7882]), (7885, [7884]), (7887, [7886]),
      (7889, [7888]), (7891, [7890]), (7893, [7892]), (7895, [7894]), (7897, [7896]),
      (7899, [7898]), (7901, [7900]), (7903, [7902]), (7905, [7904]), (7907, [7906]),
      (7909, [7908]), (7911, [7910]), (7913, [7912]), (7915, [7914]), (7917, [7916]),
      (7919, [7918]), (7921, [7920]), (7923, [7922]), (7925, [7924]), (7927, [7926]),
      (7929, [7928]), (7931, [7930]), (7933, [7932]), (7935, [7934]), (7936, [7944]),
      (7937, [7945]), (7938, [7946]), (7939, [7947]), (7940, [7948]), (7941, [7949]),
      (7942, [7950]), (7943, [7951]), (7952, [7960])]"

definition upper_table_8 :: "(nat \<times> nat list) list" where
  "upper_table_8 =
     [
      (7953, [7961]), (7954, [7962]), (7955, [7963]), (7956, [7964]), (7957, [7965]),
      (7968, [7976]), (7969, [7977]), (7970, [7978]), (7971, [7979]), (7972, [7980]),
      (7973, [7981]), (7974, [7982]), (7975, [7983]), (7984, [7992]), (7985, [7993]),
      (7986, [7994]), (7987, [7995]), (7988, [7996]), (7989, [7997]), (7990, [7998]),
      (7991, [7999]), (8000, [8008]), (8001, [8009]), (8002, [8010]), (8003, [8011]),
      (8004, [8012]), (8005, [8013]), (8016, [933, 787]), (8017, [8025]),
      (8018, [933, 787, 768]), (8019, [8027]), (8020, [933, 787, 769]), (8021, [8029]),
      (8022, [933, 787, 834]), (8023, [8031]), (8032, [8040]), (8033, [8041]), (8034, [8042]),
      (8035, [8043]), (8036, [8044]), (8037, [8045]), (8038, [8046]), (8039, [8047]),
      (8048, [8122]), (8049, [8123]), (8050, [8136]), (8051, [8137]), (8052, [8138]),
      (8053, [8139]), (8054, [8154]), (8055, [8155]), (8056, [8184]), (8057, [8185]),
      (8058, [8170]), (8059, [8171]), (8060, [8186]), (8061, [8187]), (8064, [7944, 921]),
      (8065, [7945, 921]), (8066, [7946, 921]), (8067, [7947, 921]), (8068, [7948, 921]),
      (8069, [7949, 921]), (8070, [7950, 921]), (8071, [7951, 921]), (8072, [7944, 921]),
      (8073, [7945, 921]), (8074, [7946, 921]), (8075, [7947, 921]), (8076, [7948, 921]),
      (8077, [7949, 921]), (8078, [7950, 921]), (8079, [7951, 921]), (8080, [7976, 921]),
      (8081, [7977, 921]), (8082, [7978, 921]), (8083, [7979, 921]), (8084, [7980, 921]),
      (8085, [7981, 921]), (8086, [7982, 921]), (8087, [7983, 921]), (8088, [7976, 921]),
      (8089, [7977, 921]), (8090, [7978, 921]), (8091, [7979, 921]), (8092, [7980, 921]),
      (8093, [7981, 921]), (8094, [7982, 921]), (8095, [7983, 921]), (8096, [8040, 921]),
      (8097, [8041, 921]), (8098, [8042, 921])]"

definition upper_table_9 :: "(nat \<times> nat list) list" where
  "upper_table_9 =
     [
      (8099, [8043, 921]), (8100, [8044, 921]), (8101, [8045, 921]), (8102, [8046, 921]),
      (8103, [8047, 921]), (8104, [8040, 921]), (8105, [8041, 921]), (8106, [8042, 921]),
      (8107, [8043, 921]), (8108, [8044, 921]), (8109, [8045, 921]), (8110, [8046, 921]),
      (8111, [8047, 921]), (8112, [8120]), (8113, [8121]), (8114, [8122, 921]),
      (8115, [913, 921]), (8116, [902, 921]), (8118, [913, 834]), (8119, [913, 834, 921]),
      (8124, [913, 921]), (8126, [921]), (8130, [8138, 921]), (8131, [919, 921]),
      (8132, [905, 921]), (8134, [919, 834]), (8135, [919, 834, 921]), (8140, [919, 921]),
      (8144, [8152]), (8145, [8153]), (8146, [921, 776, 768]), (8147, [921, 776, 769]),
      (8150, [921, 834]), (8151, [921, 776, 834]), (8160, [8168]), (8161, [8169]),
      (8162, [933, 776, 768]), (8163, [933, 776, 769]), (8164, [929, 787]), (8165, [8172]),
      (8166, [933, 834]), (8167, [933, 776, 834]), (8178, [8186, 921]), (8179, [937, 921]),
      (8180, [911, 921]), (8182, [937, 834]), (8183, [937, 834, 921]), (8188, [937, 921]),
      (8526, [8498]), (8560, [8544]), (8561, [8545]), (8562, [8546]), (8563, [8547]),
      (8564, [8548]), (8565, [8549]), (8566, [8550]), (8567, [8551]), (8568, [8552]),
      (8569, [8553]), (8570, [8554]), (8571, [8555]), (8572, [8556]), (8573, [8557]),
      (8574, [8558]), (8575, [8559]), (8580, [8579]), (9424, [9398]), (9425, [9399]),
      (9426, [9400]), (9427, [9401]), (9428, [9402]), (9429, [9403]), (9430, [9404]),
      (9431, [9405]), (9432, [9406]), (9433, [9407]), (9434, [9408]), (9435, [9409]),
      (9436, [9410]), (9437, [9411]), (9438, [9412]), (9439, [9413]), (9440, [9414]),
      (9441, [9415]), (9442, [9416]), (9443, [9417]), (9444, [9418]), (9445, [9419]),
      (9446, [9420]), (9447, [9421]), (9448, [9422]), (9449, [9423])]"

definition upper_table_10 :: "(nat \<times> nat list) list" where
  "upper_table_10 =
     [
      (11312, [11264]), (11313, [11265]), (11314, [11266]), (11315, [11267]), (11316, [11268]),
      (11317, [11269]), (11318, [11270]), (11319, [11271]), (11320, [11272]), (11321, [11273]),
      (11322, [11274]), (11323, [11275]), (11324, [11276]), (11325, [11277]), (11326, [11278]),
      (11327, [11279]), (11328, [11280]), (11329, [11281]), (11330, [11282]), (11331, [11283]),
      (11332, [11284]), (11333, [11285]), (11334, [11286]), (11335, [11287]), (11336, [11288]),
      (11337, [11289]), (11338, [11290]), (11339, [11291]), (11340, [11292]), (11341, [11293]),
      (11342, [11294]), (11343, [11295]), (11344, [11296]), (11345, [11297]), (11346, [11298]),
      (11347, [11299]), (11348, [11300]), (11349, [11301]), (11350, [11302]), (11351, [11303]),
      (11352, [11304]), (11353, [11305]), (11354, [11306]), (11355, [11307]), (11356, [11308]),
      (11357, [11309]), (11358, [11310]), (11359, [11311]), (11361, [11360]), (11365, [570]),
      (11366, [574]), (11368, [11367]), (11370, [11369]), (11372, [11371]), (11379, [11378]),
      (11382, [11381]), (11393, [11392]), (11395, [11394]), (11397, [11396]), (11399, [11398]),
      (11401, [11400]), (11403, [11402]), (11405, [11404]), (11407, [11406]), (11409, [11408]),
      (11411, [11410]), (11413, [11412]), (11415, [11414]), (11417, [11416]), (11419, [11418]),
      (11421, [11420]), (11423, [11422]), (11425, [11424]), (11427, [11426]), (11429, [11428]),
      (11431, [11430]), (11433, [11432]), (11435, [11434]), (11437, [11436]), (11439, [11438]),
      (11441, [11440]), (11443, [11442]), (11445, [11444]), (11447, [11446]), (11449, [11448]),
      (11451, [11450]), (11453, [11452]), (11455, [11454]), (11457, [11456]), (11459, [11458]),
      (11461, [11460]), (11463, [11462])]"

definition upper_table_11 :: "(nat \<times> nat list) list" where
  "upper_table_11 =
     [
      (11465, [11464]), (11467, [11466]), (11469, [11468]), (11471, [11470]), (11473, [11472]),
      (11475, [11474]), (11477, [11476]), (11479, [11478]), (11481, [11480]), (11483, [11482]),
      (11485, [11484]), (11487, [11486]), (11489, [11488]), (11491, [11490]), (11500, [11499]),
      (11502, [11501]), (11507, [11506]), (11520, [4256]), (11521, [4257]), (11522, [4258]),
      (11523, [4259]), (11524, [4260]), (11525, [4261]), (11526, [4262]), (11527, [4263]),
      (11528, [4264]), (11529, [4265]), (11530, [4266]), (11531, [4267]), (11532, [4268]),
      (11533, [4269]), (11534, [4270]), (11535, [4271]), (11536, [4272]), (11537, [4273]),
      (11538, [4274]), (11539, [4275]), (11540, [4276]), (11541, [4277]), (11542, [4278]),
      (11543, [4279]), (11544, [4280]), (11545, [4281]), (11546, [4282]), (11547, [4283]),
      (11548, [4284]), (11549, [4285]), (11550, [4286]), (11551, [4287]), (11552, [4288]),
      (11553, [4289]), (11554, [4290]), (11555, [4291]), (11556, [4292]), (11557, [4293]),
      (11559, [4295]), (11565, [4301]), (42561, [42560]), (42563, [42562]), (42565, [42564]),
      (42567, [42566]), (42569, [42568]), (42571, [42570]), (42573, [42572]), (42575, [42574]),
      (42577, [42576]), (42579, [42578]), (42581, [42580]), (42583, [42582]), (42585, [42584]),
      (42587, [42586]), (42589, [42588]), (42591, [42590]), (42593, [42592]), (42595, [42594]),
      (42597, [42596]), (42599, [42598]), (42601, [42600]), (42603, [42602]), (42605, [42604]),
      (42625, [42624]), (42627, [42626]), (42629, [42628]), (42631, [42630]), (42633, [42632]),
      (42635, [42634]), (42637, [42636]), (42639, [42638]), (42641, [42640]), (42643, [42642]),
      (42645, [42644]), (42647, [42646])]"

definition upper_table_12 :: "(nat \<times> nat list) list" where
  "upper_table_12 =
     [
      (42649, [42648]), (42651, [42650]), (42787, [42786]), (42789, [42788]), (42791, [42790]),
      (42793, [42792]), (42795, [42794]), (42797, [42796]), (42799, [42798]), (42803, [42802]),
      (42805, [42804]), (42807, [42806]), (42809, [42808]), (42811, [42810]), (42813, [42812]),
      (42815, [42814]), (42817, [42816]), (42819, [42818]), (42821, [42820]), (42823, [42822]),
      (42825, [42824]), (42827, [42826]), (42829, [42828]), (42831, [42830]), (42833, [42832]),
      (42835, [42834]), (42837, [42836]), (42839, [42838]), (42841, [42840]), (42843, [42842]),
      (42845, [42844]), (42847, [42846]), (42849, [42848]), (42851, [42850]), (42853, [42852]),
      (42855, [42854]), (42857, [42856]), (42859, [42858]), (42861, [42860]), (42863, [42862]),
      (42874, [42873]), (42876, [42875]), (42879, [42878]), (42881, [42880]), (42883, [42882]),
      (42885, [42884]), (42887, [42886]), (42892, [42891]), (42897, [42896]), (42899, [42898]),
      (42900, [42948]), (42903, [42902]), (42905, [42904]), (42907, [42906]), (42909, [42908]),
      (42911, [42910]), (42913, [42912]), (42915, [42914]), (42917, [42916]), (42919, [42918]),
      (42921, [42920]), (42933, [42932]), (42935, [42934]), (42937, [42936]), (42939, [42938]),
      (42941, [42940]), (42943, [42942]), (42945, [42944]), (42947, [42946]), (42952, [42951]),
      (42954, [42953]), (42961, [42960]), (42967, [42966]), (42969, [42968]), (42998, [42997]),
      (43859, [42931]), (43888, [5024]), (43889, [5025]), (43890, [5026]), (43891, [5027]),
      (43892, [5028]), (43893, [5029]), (43894, [5030]), (43895, [5031]), (43896, [5032]),
      (43897, [5033]), (43898, [5034]), (43899, [5035]), (43900, [5036]), (43901, [5037]),
      (43902, [5038]), (43903, [5039])]"

definition upper_table_13 :: "(nat \<times> nat list) list" where
  "upper_table_13 =
     [
      (43904, [5040]), (43905, [5041]), (43906, [5042]), (43907, [5043]), (43908, [5044]),
      (43909, [5045]), (43910, [5046]), (43911, [5047]), (43912, [5048]), (43913, [5049]),
      (43914, [5050]), (43915, [5051]), (43916, [5052]), (43917, [5053]), (43918, [5054]),
      (43919, [5055]), (43920, [5056]), (43921, [5057]), (43922, [5058]), (43923, [5059]),
      (43924, [5060]), (43925, [5061]), (43926, [5062]), (43927, [5063]), (43928, [5064]),
      (43929, [5065]), (43930, [5066]), (43931, [5067]), (43932, [5068]), (43933, [5069]),
      (43934, [5070]), (43935, [5071]), (43936, [5072]), (43937, [5073]), (43938, [5074]),
      (43939, [5075]), (43940, [5076]), (43941, [5077]), (43942, [5078]), (43943, [5079]),
      (43944, [5080]), (43945, [5081]), (43946, [5082]), (43947, [5083]), (43948, [5084]),
      (43949, [5085]), (43950, [5086]), (43951, [5087]), (43952, [5088]), (43953, [5089]),
      (43954, [5090]), (43955, [5091]), (43956, [5092]), (43957, [5093]), (43958, [5094]),
      (43959, [5095]), (43960, [5096]), (43961, [5097]), (43962, [5098]), (43963, [5099]),
      (43964, [5100]), (43965, [5101]), (43966, [5102]), (43967, [5103]), (64256, [70, 70]),
      (64257, [70, 73]), (64258, [70, 76]), (64259, [70, 70, 73]), (64260, [70, 70, 76]),
      (64261, [83, 84]), (64262, [83, 84]), (64275, [1348, 1350]), (64276, [1348, 1333]),
      (64277, [1348, 1339]), (64278, [1358, 1350]), (64279, [1348, 1341]), (65345, [65313]),
      (65346, [65314]), (65347, [65315]), (65348, [65316]), (65349, [65317]), (65350, [65318]),
      (65351, [65319]), (65352, [65320]), (65353, [65321]), (65354, [65322]), (65355, [65323]),
      (65356, [65324]), (65357, [65325]), (65358, [65326]), (65359, [65327]), (65360, [65328])]"

definition upper_table_14 :: "(nat \<times> nat list) list" where
  "upper_table_14 =
     [
      (65361, [65329]), (65362, [65330]), (65363, [65331]), (65364, [65332]), (65365, [65333]),
      (65366, [65334]), (65367, [65335]), (65368, [65336]), (65369, [65337]), (65370, [65338]),
      (66600, [66560]), (66601, [66561]), (66602, [66562]), (66603, [66563]), (66604, [66564]),
      (66605, [66565]), (66606, [66566]), (66607, [66567]), (66608, [66568]), (66609, [66569]),
      (66610, [66570]), (66611, [66571]), (66612, [66572]), (66613, [66573]), (66614, [66574]),
      (66615, [66575]), (66616, [66576]), (66617, [66577]), (66618, [66578]), (66619, [66579]),
      (66620, [66580]), (66621, [66581]), (66622, [66582]), (66623, [66583]), (66624, [66584]),
      (66625, [66585]), (66626, [66586]), (66627, [66587]), (66628, [66588]), (66629, [66589]),
      (66630, [66590]), (66631, [66591]), (66632, [66592]), (66633, [66593]), (66634, [66594]),
      (66635, [66595]), (66636, [66596]), (66637, [66597]), (66638, [66598]), (66639, [66599]),
      (66776, [66736]), (66777, [66737]), (66778, [66738]), (66779, [66739]), (66780, [66740]),
      (66781, [66741]), (66782, [66742]), (66783, [66743]), (66784, [66744]), (66785, [66745]),
      (66786, [66746]), (66787, [66747]), (66788, [66748]), (66789, [66749]), (66790, [66750]),
      (66791, [66751]), (66792, [66752]), (66793, [66753]), (66794, [66754]), (66795, [66755]),
      (66796, [66756]), (66797, [66757]), (66798, [66758]), (66799, [66759]), (66800, [66760]),
      (66801, [66761]), (66802, [66762]), (66803, [66763]), (66804, [66764]), (66805, [66765]),
      (66806, [66766]), (66807, [66767]), (66808, [66768]), (66809, [66769]), (66810, [66770]),
      (66811, [66771]), (66967, [66928]), (66968, [66929]), (66969, [66930]), (66970, [66931]),
      (66971, [66932]), (66972, [66933])]"

definition upper_table_15 :: "(nat \<times> nat list) list" where
  "upper_table_15 =
     [
      (66973, [66934]), (66974, [66935]), (66975, [66936]), (66976, [66937]), (66977, [66938]),
      (66979, [66940]), (66980, [66941]), (66981, [66942]), (66982, [66943]), (66983, [66944]),
      (66984, [66945]), (66985, [66946]), (66986, [66947]), (66987, [66948]), (66988, [66949]),
      (66989, [66950]), (66990, [66951]), (66991, [66952]), (66992, [66953]), (66993, [66954]),
      (66995, [66956]), (66996, [66957]), (66997, [66958]), (66998, [66959]), (66999, [66960]),
      (67000, [66961]), (67001, [66962]), (67003, [66964]), (67004, [66965]), (68800, [68736]),
      (68801, [68737]), (68802, [68738]), (68803, [68739]), (68804, [68740]), (68805, [68741]),
      (68806, [68742]), (68807, [68743]), (68808, [68744]), (68809, [68745]), (68810, [68746]),
      (68811, [68747]), (68812, [68748]), (68813, [68749]), (68814, [68750]), (68815, [68751]),
      (68816, [68752]), (68817, [68753]), (68818, [68754]), (68819, [68755]), (68820, [68756]),
      (68821, [68757]), (68822, [68758]), (68823, [68759]), (68824, [68760]), (68825, [68761]),
      (68826, [68762]), (68827, [68763]), (68828, [68764]), (68829, [68765]), (68830, [68766]),
      (68831, [68767]), (68832, [68768]), (68833, [68769]), (68834, [68770]), (68835, [68771]),
      (68836, [68772]), (68837, [68773]), (68838, [68774]), (68839, [68775]), (68840, [68776]),
      (68841, [68777]), (68842, [68778]), (68843, [68779]), (68844, [68780]), (68845, [68781]),
      (68846, [68782]), (68847, [68783]), (68848, [68784]), (68849, [68785]), (68850, [68786]),
      (71872, [71840]), (71873, [71841]), (71874, [71842]), (71875, [71843]), (71876, [71844]),
      (71877, [71845]), (71878, [71846]), (71879, [71847]), (71880, [71848]), (71881, [71849]),
      (71882, [71850]), (71883, [71851])]"

definition upper_table_16 :: "(nat \<times> nat list) list" where
  "upper_table_16 =
     [
      (71884, [71852]), (71885, [71853]), (71886, [71854]), (71887, [71855]), (71888, [71856]),
      (71889, [71857]), (71890, [71858]), (71891, [71859]), (71892, [71860]), (71893, [71861]),
      (71894, [71862]), (71895, [71863]), (71896, [71864]), (71897, [71865]), (71898, [71866]),
      (71899, [71867]), (71900, [71868]), (71901, [71869]), (71902, [71870]), (71903, [71871]),
      (93792, [93760]), (93793, [93761]), (93794, [93762]), (93795, [93763]), (93796, [93764]),
      (93797, [93765]), (93798, [93766]), (93799, [93767]), (93800, [93768]), (93801, [93769]),
      (93802, [93770]), (93803, [93771]), (93804, [93772]), (93805, [93773]), (93806, [93774]),
      (93807, [93775]), (93808, [93776]), (93809, [93777]), (93810, [93778]), (93811, [93779]),
      (93812, [93780]), (93813, [93781]), (93814, [93782]), (93815, [93783]), (93816, [93784]),
      (93817, [93785]), (93818, [93786]), (93819, [93787]), (93820, [93788]), (93821, [93789]),
      (93822, [93790]), (93823, [93791]), (125218, [125184]), (125219, [125185]),
      (125220, [125186]), (125221, [125187]), (125222, [125188]), (125223, [125189]),
      (125224, [125190]), (125225, [125191]), (125226, [125192]), (125227, [125193]),
      (125228, [125194]), (125229, [125195]), (125230, [125196]), (125231, [125197]),
      (125232, [125198]), (125233, [125199]), (125234, [125200]), (125235, [125201]),
      (125236, [125202]), (125237, [125203]), (125238, [125204]), (125239, [125205]),
      (125240, [125206]), (125241, [125207]), (125242, [125208]), (125243, [125209]),
      (125244, [125210]), (125245, [125211]), (125246, [125212]), (125247, [125213]),
      (125248, [125214]), (125249, [125215]), (125250, [125216]), (125251, [125217])]"

definition upper_table :: "nat \<Rightarrow> (nat \<times> nat list) list" where
  "upper_table c =
     (if c < 464 then upper_table_1
      else if c < 652 then upper_table_2
      else if c < 1093 then upper_table_3
      else if c < 1259 then upper_table_4
      else if c < 4322 then upper_table_5
      else if c < 7773 then upper_table_6
      else if c < 7953 then upper_table_7
      else if c < 8099 then upper_table_8
      else if c < 11312 then upper_table_9
      else if c < 11465 then upper_table_10
      else if c < 42649 then upper_table_11
      else if c < 43904 then upper_table_12
      else if c < 65361 then upper_table_13
      else if c < 66973 then upper_table_14
      else if c < 71884 then upper_table_15
      else upper_table_16)"

definition py_upper :: "nat \<Rightarrow> pystr" where
  "py_upper c =
     (if 97 \<le> c \<and> c \<le> 122 then [c - 32]
      else if c = 181 then [924]
      else if c = 223 then [83, 83]
      else if 224 \<le> c \<and> c \<le> 254 \<and> c \<noteq> 247 then [c - 32]
      else if c = 255 then [376]
      else if c < 256 then [c]
      else case List.find (\<lambda>e. fst e = c) (upper_table c) of
             None \<Rightarrow> [c]
           | Some e \<Rightarrow> snd e)"

definition py_isalpha :: "nat \<Rightarrow> bool" where
  "py_isalpha c =
     ((65 \<le> c \<and> c \<le> 90) \<or> (97 \<le> c \<and> c \<le> 122) \<or> c = 170 \<or> c = 181 \<or> c = 186 \<or>
      (192 \<le> c \<and> c < 256 \<and> c \<noteq> 215 \<and> c \<noteq> 247) \<or>
      (256 \<le> c \<and> list_ex (\<lambda>r. fst r \<le> c \<and> c \<le> snd r) (alpha_ranges c)))"

definition str_upper :: "pystr \<Rightarrow> pystr" where
  "str_upper s = concat (map py_upper s)"

text \<open>\<open>ord\<close> raises TypeError unless its argument has length one.\<close>

definition ord :: "pystr \<Rightarrow> error + int" where
  "ord s = (case s of [c] \<Rightarrow> Inr (int c) | _ \<Rightarrow> Inl TypeError)"

section \<open>Constant tables\<close>

definition ROTOR_WIRINGS :: "pystr \<Rightarrow> (pystr \<times> pystr) option" where
  "ROTOR_WIRINGS = map_of
     [(str ''I'',   (str ''EKMFLGDQVZNTOWYHXUSPAIBRCJ'', str ''Q'')),
      (str ''II'',  (str ''AJDKSIRUXBLHWTMCQGZNPYFVOE'', str ''E'')),
      (str ''III'', (str ''BDFHJLCPRTXVZNYEIWGAKMUSQO'', str ''V'')),
      (str ''IV'',  (str ''ESOVPZJAYQUIRHXLNFTGKDCMWB'', str ''J'')),
      (str ''V'',   (str ''VZBRGITYUPSDNHLXAWMJQOFECK'', str ''Z''))]"

definition REFLECTORS :: "pystr \<Rightarrow> pystr option" where
  "REFLECTORS = map_of
     [(str ''B'', str ''YRUHQSLDPXNGOKMIEBFZCWVJAT''),
      (str ''C'', str ''FVPJIAOYEDRZXWGCTKUQSBNMHL'')]"

definition ALPHABET :: pystr where
  "ALPHABET = str ''ABCDEFGHIJKLMNOPQRSTUVWXYZ''"

section \<open>Helper utilities\<close>

definition char_to_idx :: "pystr \<Rightarrow> error + int" where
  "char_to_idx c = andthen (ord (str_upper c)) (\<lambda>n. Inr (n - 65))"

definition idx_to_char :: "int \<Rightarrow> error + pystr" where
  "idx_to_char i = str_getitem ALPHABET (i mod 26)"

section \<open>Plugboard\<close>

record Plugboard =
  plug_wiring :: "pystr list"

text \<open>
  One turn of the constructor's loop over the pairs: the state is the wiring list and
  the set \<open>used\<close>.
\<close>

definition plug_pair :: "pystr \<times> pystr \<Rightarrow> pystr list \<times> pystr set \<Rightarrow> error + pystr list \<times> pystr set" where
  "plug_pair p st =
     (let a = str_upper (fst p); b = str_upper (snd p); wiring = fst st; used = snd st in
      if a = b then Inl ValueError
      else if a \<in> used \<or> b \<in> used then Inl ValueError
      else andthen (char_to_idx a) (\<lambda>i.
           andthen (setitem wiring i b) (\<lambda>w1.
           andthen (char_to_idx b) (\<lambda>j.
           andthen (setitem w1 j a) (\<lambda>w2.
           Inr (w2, insert a (insert b used)))))))"

fun plug_pairs :: "(pystr \<times> pystr) list \<Rightarrow> pystr list \<times> pystr set \<Rightarrow> error + pystr list \<times> pystr set" where
  "plug_pairs [] st = Inr st"
| "plug_pairs (p # ps) st =
     (case plug_pair p st of Inl e \<Rightarrow> Inl e | Inr st' \<Rightarrow> plug_pairs ps st')"

definition Plugboard_init :: "(pystr \<times> pystr) list \<Rightarrow> error + Plugboard" where
  "Plugboard_init pairs =
     andthen (plug_pairs pairs (map (\<lambda>c. [c]) ALPHABET, {}))
       (\<lambda>st. Inr \<lparr>plug_wiring = fst st\<rparr>)"

definition plug_forward :: "Plugboard \<Rightarrow> pystr \<Rightarrow> error + pystr" where
  "plug_forward pb c = andthen (char_to_idx c) (\<lambda>i. getitem (plug_wiring pb) i)"

section \<open>Rotor\<close>

record Rotor =
  name :: pystr
  wiring :: pystr
  reverse :: pystr
  notch :: pystr
  position :: int
  ring :: int

text \<open>
  \<open>Rotor._invert\<close>: the loop over \<open>enumerate(wiring)\<close>, with the index \<open>i\<close> and the list
  \<open>inv\<close> (here \<open>invl\<close>) as its state; the right-hand side \<open>ALPHABET[i]\<close> is evaluated before the target.
\<close>

fun invert_loop :: "nat \<Rightarrow> pystr \<Rightarrow> pystr list \<Rightarrow> error + pystr list" where
  "invert_loop i [] invl = Inr invl"
| "invert_loop i (c # cs) invl =
     (case andthen (str_getitem ALPHABET (int i)) (\<lambda>a.
           andthen (char_to_idx [c]) (\<lambda>k. setitem invl k a)) of
        Inl e \<Rightarrow> Inl e
      | Inr invl' \<Rightarrow> invert_loop (Suc i) cs invl')"

definition invert :: "pystr \<Rightarrow> error + pystr" where
  "invert w = andthen (invert_loop 0 w (replicate 26 [])) (\<lambda>invl. Inr (concat invl))"

definition Rotor_init :: "pystr \<Rightarrow> pystr \<Rightarrow> pystr \<Rightarrow> error + Rotor" where
  "Rotor_init nm pos rng =
     (case ROTOR_WIRINGS nm of
        None \<Rightarrow> Inl KeyError
      | Some wn \<Rightarrow>
          andthen (invert (fst wn)) (\<lambda>rv.
          andthen (char_to_idx pos) (\<lambda>p.
          andthen (char_to_idx rng) (\<lambda>r.
          Inr \<lparr>name = nm, wiring = fst wn, reverse = rv, notch = snd wn,
               position = p, ring = r\<rparr>))))"

definition is_at_notch :: "Rotor \<Rightarrow> error + bool" where
  "is_at_notch r = andthen (str_getitem ALPHABET (position r)) (\<lambda>c. Inr (c = notch r))"

definition step :: "Rotor \<Rightarrow> Rotor" where
  "step r = r\<lparr>position := (position r + 1) mod 26\<rparr>"

definition encode :: "Rotor \<Rightarrow> pystr \<Rightarrow> int \<Rightarrow> error + int" where
  "encode r w signal =
     (let offset = position r - ring r;
          shifted_in = (signal + offset) mod 26
      in andthen (str_getitem w shifted_in) (\<lambda>output_char.
         andthen (char_to_idx output_char) (\<lambda>k.
         Inr ((k - offset) mod 26))))"

definition forward :: "Rotor \<Rightarrow> int \<Rightarrow> error + int" where
  "forward r signal = encode r (wiring r) signal"

definition backward :: "Rotor \<Rightarrow> int \<Rightarrow> error + int" where
  "backward r signal = encode r (reverse r) signal"

section \<open>Reflector\<close>

record Reflector =
  refl_wiring :: pystr

definition Reflector_init :: "pystr \<Rightarrow> error + Reflector" where
  "Reflector_init nm =
     (case REFLECTORS nm of None \<Rightarrow> Inl KeyError | Some w \<Rightarrow> Inr \<lparr>refl_wiring = w\<rparr>)"

definition reflect :: "Reflector \<Rightarrow> int \<Rightarrow> error + int" where
  "reflect rf signal = andthen (str_getitem (refl_wiring rf) signal) char_to_idx"

section \<open>The Enigma machine\<close>

record EnigmaMachine =
  rotors :: "Rotor list"
  plugboard :: Plugboard
  reflector :: Reflector

text \<open>
  The list comprehension of the constructor builds one rotor per element of
  \<open>zip(rotor_names, positions, ring_settings)\<close>, left to right, and stops at the first
  exception. \<open>zip\<close> ends with its shortest argument.
\<close>

fun make_rotors :: "(pystr \<times> pystr \<times> pystr) list \<Rightarrow> error + Rotor list" where
  "make_rotors [] = Inr []"
| "make_rotors (x # xs) =
     (case Rotor_init (fst x) (fst (snd x)) (snd (snd x)) of
        Inl e \<Rightarrow> Inl e
      | Inr r \<Rightarrow> (case make_rotors xs of Inl e \<Rightarrow> Inl e | Inr rs \<Rightarrow> Inr (r # rs)))"

definition EnigmaMachine_init ::
  "pystr list \<Rightarrow> pystr list \<Rightarrow> pystr list \<Rightarrow> (pystr \<times> pystr) list \<Rightarrow> pystr \<Rightarrow> error + EnigmaMachine" where
  "EnigmaMachine_init rotor_names positions ring_settings pairs reflector_name =
     (if length rotor_names \<noteq> 3 then Inl ValueError
      else andthen (make_rotors (zip rotor_names (zip positions ring_settings))) (\<lambda>rs.
           andthen (Plugboard_init pairs) (\<lambda>pb.
           andthen (Reflector_init reflector_name) (\<lambda>rf.
           Inr \<lparr>rotors = rs, plugboard = pb, reflector = rf\<rparr>))))"

text \<open>
  \<open>_step_rotors\<close>: unpacking \<open>left, mid, right = self.rotors\<close> raises ValueError unless
  the list has three elements. The right rotor's notch is read only when the middle
  rotor is not at its own.
\<close>

definition step_rotors :: "EnigmaMachine \<Rightarrow> error + EnigmaMachine" where
  "step_rotors m =
     (case rotors m of
        [left, mid, right] \<Rightarrow>
          andthen (is_at_notch mid) (\<lambda>mid_at_notch.
            if mid_at_notch then Inr (m\<lparr>rotors := [step left, step mid, step right]\<rparr>)
            else andthen (is_at_notch right) (\<lambda>right_at_notch.
              if right_at_notch then Inr (m\<lparr>rotors := [left, step mid, step right]\<rparr>)
              else Inr (m\<lparr>rotors := [left, mid, step right]\<rparr>)))
      | _ \<Rightarrow> Inl ValueError)"

fun pass_forward :: "Rotor list \<Rightarrow> int \<Rightarrow> error + int" where
  "pass_forward [] signal = Inr signal"
| "pass_forward (r # rs) signal = andthen (forward r signal) (pass_forward rs)"

fun pass_backward :: "Rotor list \<Rightarrow> int \<Rightarrow> error + int" where
  "pass_backward [] signal = Inr signal"
| "pass_backward (r # rs) signal = andthen (backward r signal) (pass_backward rs)"

definition encrypt_char :: "EnigmaMachine \<Rightarrow> pystr \<Rightarrow> error + pystr \<times> EnigmaMachine" where
  "encrypt_char m c =
     andthen (step_rotors m) (\<lambda>m1.
     andthen (plug_forward (plugboard m1) c) (\<lambda>p.
     andthen (char_to_idx p) (\<lambda>s0.
     andthen (pass_forward (rev (rotors m1)) s0) (\<lambda>s1.
     andthen (reflect (reflector m1) s1) (\<lambda>s2.
     andthen (pass_backward (rotors m1) s2) (\<lambda>s3.
     andthen (idx_to_char s3) (\<lambda>l.
     andthen (plug_forward (plugboard m1) l) (\<lambda>out.
     Inr (out, m1)))))))))"

text \<open>
  \<open>encrypt\<close>: the loop over the characters of \<open>text.upper()\<close>. The result pairs the list
  \<open>result\<close> with the machine after the loop; \<open>encrypt\<close> joins the list.
\<close>

fun encrypt_loop :: "EnigmaMachine \<Rightarrow> pystr \<Rightarrow> error + pystr list \<times> EnigmaMachine" where
  "encrypt_loop m [] = Inr ([], m)"
| "encrypt_loop m (c # cs) =
     (if py_isalpha c then
        (case encrypt_char m [c] of
           Inl e \<Rightarrow> Inl e
         | Inr xm \<Rightarrow>
             (case encrypt_loop (snd xm) cs of
                Inl e \<Rightarrow> Inl e
              | Inr rm \<Rightarrow> Inr (fst xm # fst rm, snd rm)))
      else
        (case encrypt_loop m cs of
           Inl e \<Rightarrow> Inl e
         | Inr rm \<Rightarrow> Inr ([c] # fst rm, snd rm)))"

definition encrypt :: "EnigmaMachine \<Rightarrow> pystr \<Rightarrow> error + pystr \<times> EnigmaMachine" where
  "encrypt m text =
     andthen (encrypt_loop m (str_upper text)) (\<lambda>rm. Inr (concat (fst rm), snd rm))"

text \<open>
  \<open>reset\<close>: the loop over \<open>zip(self.rotors, positions)\<close>; rotors beyond the end of
  \<open>positions\<close> keep their position.
\<close>

fun reset_loop :: "Rotor list \<Rightarrow> pystr list \<Rightarrow> error + Rotor list" where
  "reset_loop [] ps = Inr []"
| "reset_loop (r # rs) [] = Inr (r # rs)"
| "reset_loop (r # rs) (p # ps) =
     (case char_to_idx p of
        Inl e \<Rightarrow> Inl e
      | Inr k \<Rightarrow>
          (case reset_loop rs ps of
             Inl e \<Rightarrow> Inl e
           | Inr rs' \<Rightarrow> Inr (r\<lparr>position := k\<rparr> # rs')))"

definition reset :: "EnigmaMachine \<Rightarrow> pystr list \<Rightarrow> error + EnigmaMachine" where
  "reset m positions =
     andthen (reset_loop (rotors m) positions) (\<lambda>rs. Inr (m\<lparr>rotors := rs\<rparr>))"

text \<open>
  The demo script reads the rotor windows after each key press with the list
  comprehension \<open>[ALPHABET[rot.position] for rot in enigma.rotors]\<close>.
\<close>

fun window_letters :: "Rotor list \<Rightarrow> error + pystr list" where
  "window_letters [] = Inr []"
| "window_letters (rot # rots) =
     (case str_getitem ALPHABET (position rot) of
        Inl e \<Rightarrow> Inl e
      | Inr c \<Rightarrow> (case window_letters rots of Inl e \<Rightarrow> Inl e | Inr cs \<Rightarrow> Inr (c # cs)))"

section \<open>Specification predicates\<close>

text \<open>
  The letters A-Z as code points, a 26-letter table read as a function on the indices
  0 to 25, and what it means for two tables to be inverse to each other.
\<close>

definition is_AZ :: "nat \<Rightarrow> bool" where
  "is_AZ c \<longleftrightarrow> 65 \<le> c \<and> c \<le> 90"

definition is_letter :: "pystr \<Rightarrow> bool" where
  "is_letter s = (case s of [c] \<Rightarrow> is_AZ c \<or> (97 \<le> c \<and> c \<le> 122) | _ \<Rightarrow> False)"

definition letters26 :: "pystr \<Rightarrow> bool" where
  "letters26 w \<longleftrightarrow> length w = 26 \<and> list_all is_AZ w"

definition tbl :: "pystr \<Rightarrow> int \<Rightarrow> int" where
  "tbl w k = int (w ! nat k) - 65"

definition inverse_tables :: "pystr \<Rightarrow> pystr \<Rightarrow> bool" where
  "inverse_tables w v \<longleftrightarrow>
     letters26 w \<and> letters26 v \<and>
     list_all (\<lambda>k. tbl v (tbl w k) = k \<and> tbl w (tbl v k) = k) [0..25]"

definition no_fixed_point :: "pystr \<Rightarrow> bool" where
  "no_fixed_point w \<longleftrightarrow> list_all (\<lambda>k. tbl w k \<noteq> k) [0..25]"

text \<open>
  A plugboard wiring list is well formed when it has 26 one-letter entries that swap
  indices in pairs. A pair list is valid when its entries are single letters (of either
  case) and no letter, after upper-casing, occurs twice in it.
\<close>

definition plug_ok :: "pystr list \<Rightarrow> bool" where
  "plug_ok wl \<longleftrightarrow> length wl = 26 \<and> (\<forall>i<26. \<exists>j<26. wl ! i = [65 + j] \<and> wl ! j = [65 + i])"

definition pair_letters :: "(pystr \<times> pystr) list \<Rightarrow> pystr list" where
  "pair_letters pairs = concat (map (\<lambda>p. [str_upper (fst p), str_upper (snd p)]) pairs)"

definition valid_pairs :: "(pystr \<times> pystr) list \<Rightarrow> bool" where
  "valid_pairs pairs \<longleftrightarrow>
     list_all (\<lambda>p. is_letter (fst p) \<and> is_letter (snd p)) pairs \<and> distinct (pair_letters pairs)"

text \<open>
  A rotor is well formed when its two tables are inverse to each other and its position
  is in 0..25; a machine, when it has three well-formed rotors, a well-formed plugboard
  and a reflector table that is its own inverse. \<open>at_notch\<close> is the test of
  \<open>is_at_notch\<close> for a position in range.
\<close>

definition wf_rotor :: "Rotor \<Rightarrow> bool" where
  "wf_rotor r \<longleftrightarrow> inverse_tables (wiring r) (reverse r) \<and> 0 \<le> position r \<and> position r < 26"

definition wf_machine :: "EnigmaMachine \<Rightarrow> bool" where
  "wf_machine m \<longleftrightarrow>
     length (rotors m) = 3 \<and> list_all wf_rotor (rotors m) \<and>
     plug_ok (plug_wiring (plugboard m)) \<and>
     inverse_tables (refl_wiring (reflector m)) (refl_wiring (reflector m))"

definition at_notch :: "Rotor \<Rightarrow> bool" where
  "at_notch r \<longleftrightarrow> [nat (position r + 65)] = notch r"

text \<open>
  Two machines have the same key when they differ at most in the positions of their
  rotors. \<open>set_at ps rs\<close>: the rotors \<open>rs\<close> stand at the window letters \<open>ps\<close>.
  \<open>built_from r x\<close>: the rotor \<open>r\<close> has the catalog wiring and notch, the position and the
  ring offset that the triple \<open>x\<close> of name, window letter and ring letter asks for.
\<close>

definition same_key :: "EnigmaMachine \<Rightarrow> EnigmaMachine \<Rightarrow> bool" where
  "same_key m m' \<longleftrightarrow>
     plugboard m' = plugboard m \<and> reflector m' = reflector m \<and>
     map (\<lambda>r. r\<lparr>position := 0\<rparr>) (rotors m') = map (\<lambda>r. r\<lparr>position := 0\<rparr>) (rotors m)"

definition set_at :: "pystr list \<Rightarrow> Rotor list \<Rightarrow> bool" where
  "set_at ps rs \<longleftrightarrow> list_all2 (\<lambda>r p. char_to_idx p = Inr (position r)) rs ps"

definition built_from :: "Rotor \<Rightarrow> pystr \<times> pystr \<times> pystr \<Rightarrow> bool" where
  "built_from r x \<longleftrightarrow>
     name r = fst x \<and> ROTOR_WIRINGS (fst x) = Some (wiring r, notch r) \<and>
     char_to_idx (fst (snd x)) = Inr (position r) \<and> char_to_idx (snd (snd x)) = Inr (ring r)"

text \<open>
  A valid configuration: three rotor names of the catalog, three window letters, three
  ring letters, a valid pair list and a reflector name of the catalog. A text has its
  letters in A-Z when every character of the upper-cased text that \<open>isalpha\<close> holds of is
  one of A-Z.
\<close>

definition valid_rotor_spec :: "pystr \<times> pystr \<times> pystr \<Rightarrow> bool" where
  "valid_rotor_spec x \<longleftrightarrow>
     ROTOR_WIRINGS (fst x) \<noteq> None \<and> is_letter (fst (snd x)) \<and> is_letter (snd (snd x))"

definition valid_config ::
  "pystr list \<Rightarrow> pystr list \<Rightarrow> pystr list \<Rightarrow> (pystr \<times> pystr) list \<Rightarrow> pystr \<Rightarrow> bool" where
  "valid_config rotor_names positions ring_settings pairs reflector_name \<longleftrightarrow>
     length rotor_names = 3 \<and> list_all (\<lambda>n. ROTOR_WIRINGS n \<noteq> None) rotor_names \<and>
     length positions = 3 \<and> list_all is_letter positions \<and>
     length ring_settings = 3 \<and> list_all is_letter ring_settings \<and>
     valid_pairs pairs \<and> REFLECTORS reflector_name \<noteq> None"

definition letters_AZ_only :: "pystr \<Rightarrow> bool" where
  "letters_AZ_only text \<longleftrightarrow> list_all (\<lambda>c. \<not> py_isalpha c \<or> is_AZ c) (str_upper text)"

text \<open>
  The machine holds rotors I, II and III (known by their notches Q, E, V), in this order,
  at the given three positions.
\<close>

definition rotors_I_II_III_at :: "EnigmaMachine \<Rightarrow> int \<Rightarrow> int \<Rightarrow> int \<Rightarrow> bool" where
  "rotors_I_II_III_at m p1 p2 p3 \<longleftrightarrow>
     (\<exists>l mi r. rotors m = [l, mi, r] \<and>
        notch l = str ''Q'' \<and> notch mi = str ''E'' \<and> notch r = str ''V'' \<and>
        position l = p1 \<and> position mi = p2 \<and> position r = p3)"

section \<open>Basic facts\<close>

lemma andthen_Inr [simp]: "andthen (Inr x) f = f x"
  by (simp add: andthen_def)

lemma andthen_Inl [simp]: "andthen (Inl e) f = Inl e"
  by (simp add: andthen_def)

lemma andthen_eq_Inr: "andthen r f = Inr y \<longleftrightarrow> (\<exists>x. r = Inr x \<and> f x = Inr y)"
  by (cases r) simp_all

lemma getitem_in: "0 \<le> i \<Longrightarrow> i < int (length xs) \<Longrightarrow> getitem xs i = Inr (xs ! nat i)"
  by (simp add: getitem_def)

lemma str_getitem_in: "0 \<le> i \<Longrightarrow> i < int (length w) \<Longrightarrow> str_getitem w i = Inr [w ! nat i]"
  by (simp add: str_getitem_def getitem_in)

lemma py_upper_AZ: "is_AZ c \<Longrightarrow> py_upper c = [c]"
  by (simp add: py_upper_def is_AZ_def)

lemma char_to_idx_AZ: "is_AZ c \<Longrightarrow> char_to_idx [c] = Inr (int c - 65)"
  by (simp add: char_to_idx_def str_upper_def ord_def py_upper_AZ)

lemma letters26_nth: "letters26 w \<Longrightarrow> 0 \<le> k \<Longrightarrow> k < 26 \<Longrightarrow> is_AZ (w ! nat k)"
  by (simp add: letters26_def list_all_length)

lemma tbl_range: "letters26 w \<Longrightarrow> 0 \<le> k \<Longrightarrow> k < 26 \<Longrightarrow> 0 \<le> tbl w k \<and> tbl w k < 26"
  using letters26_nth [of w k] by (simp add: tbl_def is_AZ_def)

lemma lookup_tbl:
  "letters26 w \<Longrightarrow> 0 \<le> k \<Longrightarrow> k < 26 \<Longrightarrow>
   andthen (str_getitem w k) char_to_idx = Inr (tbl w k)"
  using letters26_nth [of w k]
  by (simp add: str_getitem_in letters26_def char_to_idx_AZ tbl_def)

lemma upto_0_25: "set [0..25] = {k. 0 \<le> k \<and> k \<le> (25::int)}"
  by auto

lemma inverse_tables_left: "inverse_tables w v \<Longrightarrow> 0 \<le> k \<Longrightarrow> k < 26 \<Longrightarrow> tbl v (tbl w k) = k"
  by (simp add: inverse_tables_def list_all_iff)

lemma inverse_tables_right: "inverse_tables w v \<Longrightarrow> 0 \<le> k \<Longrightarrow> k < 26 \<Longrightarrow> tbl w (tbl v k) = k"
  by (simp add: inverse_tables_def list_all_iff)

lemma no_fixed_pointD: "no_fixed_point w \<Longrightarrow> 0 \<le> k \<Longrightarrow> k < 26 \<Longrightarrow> tbl w k \<noteq> k"
  by (simp add: no_fixed_point_def list_all_iff)

lemma reflector_B_tables:
  "inverse_tables (str ''YRUHQSLDPXNGOKMIEBFZCWVJAT'') (str ''YRUHQSLDPXNGOKMIEBFZCWVJAT'')"
  "no_fixed_point (str ''YRUHQSLDPXNGOKMIEBFZCWVJAT'')"
  by code_simp+

lemma reflector_C_tables:
  "inverse_tables (str ''FVPJIAOYEDRZXWGCTKUQSBNMHL'') (str ''FVPJIAOYEDRZXWGCTKUQSBNMHL'')"
  "no_fixed_point (str ''FVPJIAOYEDRZXWGCTKUQSBNMHL'')"
  by code_simp+

lemma REFLECTORS_tables:
  "REFLECTORS nm = Some w \<Longrightarrow> inverse_tables w w \<and> no_fixed_point w"
  using reflector_B_tables reflector_C_tables
  by (auto simp: REFLECTORS_def split: if_splits)

lemma reflect_tbl:
  "letters26 (refl_wiring rf) \<Longrightarrow> 0 \<le> k \<Longrightarrow> k < 26 \<Longrightarrow> reflect rf k = Inr (tbl (refl_wiring rf) k)"
  by (simp add: reflect_def lookup_tbl)

text \<open>
  C5: for each reflector of the catalog (B and C) and each index \<open>i\<close> from 0 to 25,
  \<open>reflect\<close> returns an index other than \<open>i\<close>, and reflecting that index returns \<open>i\<close>.
\<close>

theorem reflector_involution_no_fixed_point:
  "\<forall>nm\<in>dom REFLECTORS. \<exists>rf. Reflector_init nm = Inr rf \<and>
     (\<forall>i\<in>{0..25}. \<exists>j. reflect rf i = Inr j \<and> j \<noteq> i \<and> reflect rf j = Inr i)"
proof
  fix nm assume "nm \<in> dom REFLECTORS"
  then obtain w where w: "REFLECTORS nm = Some w" by auto
  let ?rf = "\<lparr>refl_wiring = w\<rparr>"
  have init: "Reflector_init nm = Inr ?rf" by (simp add: Reflector_init_def w)
  have inv: "inverse_tables w w" and nf: "no_fixed_point w"
    using REFLECTORS_tables [OF w] by simp_all
  have l26: "letters26 w" using inv by (simp add: inverse_tables_def)
  have "\<exists>j. reflect ?rf i = Inr j \<and> j \<noteq> i \<and> reflect ?rf j = Inr i" if "i \<in> {0..25}" for i
  proof -
    from that have r: "0 \<le> i" "i < 26" by simp_all
    have 1: "reflect ?rf i = Inr (tbl w i)" using l26 r by (simp add: reflect_tbl)
    have 2: "tbl w i \<noteq> i" using nf r by (rule no_fixed_pointD)
    have 3: "0 \<le> tbl w i \<and> tbl w i < 26" using l26 r by (rule tbl_range)
    have 4: "reflect ?rf (tbl w i) = Inr (tbl w (tbl w i))" using l26 3 by (simp add: reflect_tbl)
    have 5: "tbl w (tbl w i) = i" using inv r by (rule inverse_tables_left)
    show ?thesis using 1 2 4 5 by simp
  qed
  with init show "\<exists>rf. Reflector_init nm = Inr rf \<and>
     (\<forall>i\<in>{0..25}. \<exists>j. reflect rf i = Inr j \<and> j \<noteq> i \<and> reflect rf j = Inr i)" by blast
qed

theorem reflector_involution_no_fixed_point_witness:
  "str ''B'' \<in> dom REFLECTORS \<and> (\<exists>rf. Reflector_init (str ''B'') = Inr rf \<and>
     (\<exists>j. reflect rf 0 = Inr j \<and> j \<noteq> 0 \<and> reflect rf j = Inr 0))"
proof -
  have d: "str ''B'' \<in> dom REFLECTORS" by (simp add: REFLECTORS_def)
  have z: "(0::int) \<in> {0..25}" by simp
  from reflector_involution_no_fixed_point d obtain rf where
    "Reflector_init (str ''B'') = Inr rf"
    "\<forall>i\<in>{0..25}. \<exists>j. reflect rf i = Inr j \<and> j \<noteq> i \<and> reflect rf j = Inr i" by blast
  with z d show ?thesis by blast
qed

section \<open>Rotor tables\<close>

lemma char_to_idx_az: "97 \<le> c \<Longrightarrow> c \<le> 122 \<Longrightarrow> char_to_idx [c] = Inr (int c - 97)"
  by (simp add: char_to_idx_def str_upper_def ord_def py_upper_def)

lemma char_to_idx_letter:
  assumes "is_letter s"
  shows "\<exists>k. char_to_idx s = Inr k \<and> 0 \<le> k \<and> k < 26"
proof -
  from assms obtain c where s: "s = [c]" and c: "is_AZ c \<or> (97 \<le> c \<and> c \<le> 122)"
    by (auto simp: is_letter_def split: list.splits)
  from c show ?thesis
  proof
    assume "is_AZ c"
    then show ?thesis by (simp add: s char_to_idx_AZ) (simp add: is_AZ_def)
  next
    assume "97 \<le> c \<and> c \<le> 122"
    then show ?thesis by (simp add: s char_to_idx_az)
  qed
qed

lemma inverse_tables_sym: "inverse_tables w v \<Longrightarrow> inverse_tables v w"
  by (auto simp: inverse_tables_def list_all_iff)

lemma inverse_tables_letters: "inverse_tables w v \<Longrightarrow> letters26 w \<and> letters26 v"
  by (simp add: inverse_tables_def)

lemma encode_tbl:
  assumes "letters26 w"
  shows "encode r w s =
    Inr ((tbl w ((s + (position r - ring r)) mod 26) - (position r - ring r)) mod 26)"
proof -
  let ?k = "(s + (position r - ring r)) mod 26"
  have k: "0 \<le> ?k" "?k < 26" by simp_all
  have "andthen (str_getitem w ?k) char_to_idx = Inr (tbl w ?k)"
    using assms k by (rule lookup_tbl)
  then obtain c where "str_getitem w ?k = Inr c" "char_to_idx c = Inr (tbl w ?k)"
    by (auto simp: andthen_eq_Inr)
  then show ?thesis by (simp add: encode_def Let_def)
qed

lemma shift_back: "0 \<le> x \<Longrightarrow> x < 26 \<Longrightarrow> ((x - d) mod 26 + d) mod 26 = (x::int)"
  by (simp add: mod_add_left_eq)

lemma unshift: "0 \<le> s \<Longrightarrow> s < 26 \<Longrightarrow> ((s + d) mod 26 - d) mod 26 = (s::int)"
  by (simp add: mod_diff_left_eq)

lemma encode_inverse:
  assumes inv: "inverse_tables w v" and s: "0 \<le> s" "s < 26"
  shows "\<exists>j. encode r w s = Inr j \<and> 0 \<le> j \<and> j < 26 \<and> encode r v j = Inr s"
proof -
  let ?d = "position r - ring r"
  let ?k = "(s + ?d) mod 26"
  let ?x = "tbl w ?k"
  let ?j = "(?x - ?d) mod 26"
  have lw: "letters26 w" and lv: "letters26 v" using inv by (simp_all add: inverse_tables_def)
  have k: "0 \<le> ?k" "?k < 26" by simp_all
  have x: "0 \<le> ?x \<and> ?x < 26" using lw k by (rule tbl_range)
  have 1: "encode r w s = Inr ?j" using lw by (rule encode_tbl)
  have 2: "encode r v ?j = Inr ((tbl v ((?j + ?d) mod 26) - ?d) mod 26)"
    using lv by (rule encode_tbl)
  have 3: "(?j + ?d) mod 26 = ?x" using x by (simp add: shift_back)
  have 4: "tbl v ?x = ?k" using inv k by (rule inverse_tables_left)
  have 5: "(?k - ?d) mod 26 = s" using s by (rule unshift)
  have "encode r v ?j = Inr s" using 2 3 4 5 by simp
  moreover have "0 \<le> ?j" "?j < 26" by simp_all
  ultimately show ?thesis using 1 by blast
qed

lemma rotor_I_tables:
  "invert (str ''EKMFLGDQVZNTOWYHXUSPAIBRCJ'') = Inr (str ''UWYGADFPVZBECKMTHXSLRINQOJ'')"
  "inverse_tables (str ''EKMFLGDQVZNTOWYHXUSPAIBRCJ'') (str ''UWYGADFPVZBECKMTHXSLRINQOJ'')"
  by code_simp+

lemma rotor_II_tables:
  "invert (str ''AJDKSIRUXBLHWTMCQGZNPYFVOE'') = Inr (str ''AJPCZWRLFBDKOTYUQGENHXMIVS'')"
  "inverse_tables (str ''AJDKSIRUXBLHWTMCQGZNPYFVOE'') (str ''AJPCZWRLFBDKOTYUQGENHXMIVS'')"
  by code_simp+

lemma rotor_III_tables:
  "invert (str ''BDFHJLCPRTXVZNYEIWGAKMUSQO'') = Inr (str ''TAGBPCSDQEUFVNZHYIXJWLRKOM'')"
  "inverse_tables (str ''BDFHJLCPRTXVZNYEIWGAKMUSQO'') (str ''TAGBPCSDQEUFVNZHYIXJWLRKOM'')"
  by code_simp+

lemma rotor_IV_tables:
  "invert (str ''ESOVPZJAYQUIRHXLNFTGKDCMWB'') = Inr (str ''HZWVARTNLGUPXQCEJMBSKDYOIF'')"
  "inverse_tables (str ''ESOVPZJAYQUIRHXLNFTGKDCMWB'') (str ''HZWVARTNLGUPXQCEJMBSKDYOIF'')"
  by code_simp+

lemma rotor_V_tables:
  "invert (str ''VZBRGITYUPSDNHLXAWMJQOFECK'') = Inr (str ''QCYLXWENFTZOSMVJUDKGIARPHB'')"
  "inverse_tables (str ''VZBRGITYUPSDNHLXAWMJQOFECK'') (str ''QCYLXWENFTZOSMVJUDKGIARPHB'')"
  by code_simp+

lemma ROTOR_WIRINGS_tables:
  "ROTOR_WIRINGS nm = Some wn \<Longrightarrow> \<exists>v. invert (fst wn) = Inr v \<and> inverse_tables (fst wn) v"
  using rotor_I_tables rotor_II_tables rotor_III_tables rotor_IV_tables rotor_V_tables
  by (auto simp: ROTOR_WIRINGS_def split: if_splits)

lemma Rotor_init_ok:
  assumes "ROTOR_WIRINGS nm = Some wn" "is_letter pos" "is_letter rng"
  shows "\<exists>v p q. invert (fst wn) = Inr v \<and> inverse_tables (fst wn) v \<and>
           char_to_idx pos = Inr p \<and> 0 \<le> p \<and> p < 26 \<and>
           char_to_idx rng = Inr q \<and> 0 \<le> q \<and> q < 26 \<and>
           Rotor_init nm pos rng =
             Inr \<lparr>name = nm, wiring = fst wn, reverse = v, notch = snd wn, position = p, ring = q\<rparr>"
proof -
  from ROTOR_WIRINGS_tables [OF assms(1)] obtain v where
    v: "invert (fst wn) = Inr v" "inverse_tables (fst wn) v" by blast
  from char_to_idx_letter [OF assms(2)] obtain p where
    p: "char_to_idx pos = Inr p" "0 \<le> p" "p < 26" by blast
  from char_to_idx_letter [OF assms(3)] obtain q where
    q: "char_to_idx rng = Inr q" "0 \<le> q" "q < 26" by blast
  have "Rotor_init nm pos rng =
     Inr \<lparr>name = nm, wiring = fst wn, reverse = v, notch = snd wn, position = p, ring = q\<rparr>"
    by (simp add: Rotor_init_def assms(1) v p q)
  with v p q show ?thesis by blast
qed

lemma ALPHABET_upt: "ALPHABET = [65..<91]"
  by (simp add: ALPHABET_def upt_rec)

lemma ALPHABET_length: "length ALPHABET = 26"
  by (simp add: ALPHABET_def)

lemma ALPHABET_nth: "k < 26 \<Longrightarrow> ALPHABET ! k = 65 + k"
proof -
  assume "k < 26"
  then have "65 + k < 91" by simp
  then have "[65..<91] ! k = 65 + k" by (rule nth_upt)
  then show ?thesis by (simp only: ALPHABET_upt)
qed

lemma ALPHABET_getitem: "0 \<le> i \<Longrightarrow> i < 26 \<Longrightarrow> str_getitem ALPHABET i = Inr [nat (i + 65)]"
  by (simp add: str_getitem_in ALPHABET_length ALPHABET_nth nat_add_distrib)

lemma idx_to_char_eq: "idx_to_char s = Inr [nat (s mod 26 + 65)]"
  by (simp add: idx_to_char_def ALPHABET_getitem)

lemma inverse_lookup:
  assumes inv: "inverse_tables w v" and i: "0 \<le> i" "i < 26"
  shows "andthen (str_getitem w i) (\<lambda>c. andthen (char_to_idx c) (str_getitem v))
         = str_getitem ALPHABET i"
proof -
  have lw: "letters26 w" and lv: "letters26 v" using inv by (simp_all add: inverse_tables_def)
  have az: "is_AZ (w ! nat i)" using lw i by (rule letters26_nth)
  have x: "0 \<le> tbl w i \<and> tbl w i < 26" using lw i by (rule tbl_range)
  have 1: "str_getitem w i = Inr [w ! nat i]" using lw i by (simp add: str_getitem_in letters26_def)
  have 2: "char_to_idx [w ! nat i] = Inr (tbl w i)" using az by (simp add: char_to_idx_AZ tbl_def)
  have 3: "str_getitem v (tbl w i) = Inr [v ! nat (tbl w i)]"
    using lv x by (simp add: str_getitem_in letters26_def)
  have "tbl v (tbl w i) = i" using inv i by (rule inverse_tables_left)
  then have 4: "v ! nat (tbl w i) = nat (i + 65)" by (simp add: tbl_def)
  show ?thesis using 1 2 3 4 i by (simp add: ALPHABET_getitem)
qed

text \<open>
  C7: for each rotor of the catalog, built with any window letter and ring letter, and
  then at any position and ring offset whatever, \<open>backward\<close> undoes \<open>forward\<close> on every
  index from 0 to 25; and the table computed by \<open>_invert\<close> satisfies
  \<open>reverse[char_to_idx(wiring[i])] = ALPHABET[i]\<close> for each such index.
\<close>

theorem rotor_backward_forward:
  assumes "nm \<in> dom ROTOR_WIRINGS" "is_letter pos" "is_letter rng"
  shows "\<exists>r. Rotor_init nm pos rng = Inr r \<and>
    (\<forall>p q. \<forall>i\<in>{0..25}. \<exists>j. forward (r\<lparr>position := p, ring := q\<rparr>) i = Inr j \<and>
                                backward (r\<lparr>position := p, ring := q\<rparr>) j = Inr i) \<and>
    (\<forall>i\<in>{0..25}. andthen (str_getitem (wiring r) i)
                      (\<lambda>c. andthen (char_to_idx c) (str_getitem (reverse r)))
                    = str_getitem ALPHABET i)"
proof -
  from assms(1) obtain wn where wn: "ROTOR_WIRINGS nm = Some wn" by auto
  from Rotor_init_ok [OF wn assms(2,3)] obtain v p0 q0 where
    inv: "inverse_tables (fst wn) v" and
    init: "Rotor_init nm pos rng =
       Inr \<lparr>name = nm, wiring = fst wn, reverse = v, notch = snd wn, position = p0, ring = q0\<rparr>"
    by blast
  let ?r = "\<lparr>name = nm, wiring = fst wn, reverse = v, notch = snd wn, position = p0, ring = q0\<rparr>"
  have a: "\<exists>j. forward (?r\<lparr>position := p, ring := q\<rparr>) i = Inr j \<and>
               backward (?r\<lparr>position := p, ring := q\<rparr>) j = Inr i"
    if "i \<in> {0..25}" for p q i
  proof -
    from that have i: "0 \<le> i" "i < 26" by simp_all
    from encode_inverse [OF inv i, of "?r\<lparr>position := p, ring := q\<rparr>"]
    show ?thesis by (auto simp: forward_def backward_def)
  qed
  have b: "andthen (str_getitem (wiring ?r) i)
             (\<lambda>c. andthen (char_to_idx c) (str_getitem (reverse ?r))) = str_getitem ALPHABET i"
    if "i \<in> {0..25}" for i
  proof -
    from that have i: "0 \<le> i" "i < 26" by simp_all
    from inverse_lookup [OF inv i] show ?thesis by simp
  qed
  from init a b show ?thesis by blast
qed

theorem rotor_backward_forward_witness:
  "str ''III'' \<in> dom ROTOR_WIRINGS \<and> is_letter (str ''K'') \<and> is_letter (str ''C'') \<and>
   (\<exists>r j. Rotor_init (str ''III'') (str ''K'') (str ''C'') = Inr r \<and>
          forward r 7 = Inr j \<and> backward r j = Inr 7)"
proof -
  have d: "str ''III'' \<in> dom ROTOR_WIRINGS" by (simp add: ROTOR_WIRINGS_def)
  have l: "is_letter (str ''K'')" "is_letter (str ''C'')" by (simp_all add: is_letter_def is_AZ_def)
  have s: "(7::int) \<in> {0..25}" by simp
  from rotor_backward_forward [OF d l] obtain r where
    i: "Rotor_init (str ''III'') (str ''K'') (str ''C'') = Inr r" and
    fb: "\<forall>p q. \<forall>i\<in>{0..25}. \<exists>j. forward (r\<lparr>position := p, ring := q\<rparr>) i = Inr j \<and>
                                backward (r\<lparr>position := p, ring := q\<rparr>) j = Inr i"
    by blast
  from fb s have "\<exists>j. forward (r\<lparr>position := position r, ring := ring r\<rparr>) 7 = Inr j \<and>
                      backward (r\<lparr>position := position r, ring := ring r\<rparr>) j = Inr 7"
    by blast
  then have "\<exists>j. forward r 7 = Inr j \<and> backward r j = Inr 7" by simp
  with d l i show ?thesis by blast
qed

section \<open>Plugboard facts\<close>

lemma setitem_in: "0 \<le> i \<Longrightarrow> i < int (length xs) \<Longrightarrow> setitem xs i v = Inr (xs[nat i := v])"
  by (simp add: setitem_def)

lemma str_upper_letter:
  assumes "is_letter s"
  shows "\<exists>x<26. str_upper s = [65 + x]"
proof -
  from assms obtain c where s: "s = [c]" and c: "is_AZ c \<or> (97 \<le> c \<and> c \<le> 122)"
    by (auto simp: is_letter_def split: list.splits)
  from c show ?thesis
  proof
    assume az: "is_AZ c"
    then have "c - 65 < 26" "str_upper s = [65 + (c - 65)]"
      by (auto simp: s str_upper_def py_upper_AZ is_AZ_def)
    then show ?thesis by blast
  next
    assume "97 \<le> c \<and> c \<le> 122"
    then have "c - 97 < 26" "str_upper s = [65 + (c - 97)]"
      by (auto simp: s str_upper_def py_upper_def)
    then show ?thesis by blast
  qed
qed

lemma char_to_idx_upper: "x < 26 \<Longrightarrow> char_to_idx [65 + x] = Inr (int x)"
  by (simp add: char_to_idx_AZ is_AZ_def)

lemma plug_pair_ok:
  assumes ok: "plug_ok wl"
    and fresh: "\<forall>i<26. [65 + i] \<notin> used \<longrightarrow> wl ! i = [65 + i]"
    and a: "str_upper (fst p) = [65 + x]" "x < 26" "[65 + x] \<notin> used"
    and b: "str_upper (snd p) = [65 + y]" "y < 26" "[65 + y] \<notin> used"
    and ne: "x \<noteq> y"
  shows "plug_pair p (wl, used) =
           Inr (wl[x := [65 + y], y := [65 + x]], insert [65 + x] (insert [65 + y] used))"
    and "plug_ok (wl[x := [65 + y], y := [65 + x]])"
    and "\<forall>i<26. [65 + i] \<notin> insert [65 + x] (insert [65 + y] used) \<longrightarrow>
           (wl[x := [65 + y], y := [65 + x]]) ! i = [65 + i]"
proof -
  have len: "length wl = 26" using ok by (simp add: plug_ok_def)
  have wx: "wl ! x = [65 + x]" and wy: "wl ! y = [65 + y]" using fresh a b by simp_all
  show "plug_pair p (wl, used) =
           Inr (wl[x := [65 + y], y := [65 + x]], insert [65 + x] (insert [65 + y] used))"
    using a b ne len
    by (simp add: plug_pair_def Let_def char_to_idx_upper setitem_in)
  show "plug_ok (wl[x := [65 + y], y := [65 + x]])"
    unfolding plug_ok_def
  proof (intro conjI allI impI)
    show "length (wl[x := [65 + y], y := [65 + x]]) = 26" using len by simp
  next
    fix i :: nat assume i: "i < 26"
    let ?w = "wl[x := [65 + y], y := [65 + x]]"
    consider "i = x" | "i = y" | "i \<noteq> x" "i \<noteq> y" by blast
    then show "\<exists>j<26. ?w ! i = [65 + j] \<and> ?w ! j = [65 + i]"
    proof cases
      case 1
      then have "?w ! i = [65 + y] \<and> ?w ! y = [65 + i]" using a b ne len by simp
      then show ?thesis using b by blast
    next
      case 2
      then have "?w ! i = [65 + x] \<and> ?w ! x = [65 + i]" using a b ne len by simp
      then show ?thesis using a by blast
    next
      case 3
      from ok i obtain j where j: "j < 26" "wl ! i = [65 + j]" "wl ! j = [65 + i]"
        by (auto simp: plug_ok_def)
      have "j \<noteq> x" using j wx 3 by auto
      moreover have "j \<noteq> y" using j wy 3 by auto
      ultimately have "?w ! i = [65 + j] \<and> ?w ! j = [65 + i]" using 3 j by simp
      then show ?thesis using j by blast
    qed
  qed
  show "\<forall>i<26. [65 + i] \<notin> insert [65 + x] (insert [65 + y] used) \<longrightarrow>
           (wl[x := [65 + y], y := [65 + x]]) ! i = [65 + i]"
    using fresh by auto
qed

lemma plug_pairs_ok:
  assumes "list_all (\<lambda>p. is_letter (fst p) \<and> is_letter (snd p)) pairs"
    and "distinct (pair_letters pairs)"
    and "set (pair_letters pairs) \<inter> used = {}"
    and "plug_ok wl"
    and "\<forall>i<26. [65 + i] \<notin> used \<longrightarrow> wl ! i = [65 + i]"
  shows "\<exists>wl' used'. plug_pairs pairs (wl, used) = Inr (wl', used') \<and> plug_ok wl' \<and>
           (\<forall>i<26. [65 + i] \<notin> used \<union> set (pair_letters pairs) \<longrightarrow> wl' ! i = [65 + i])"
  using assms
proof (induction pairs arbitrary: wl used)
  case Nil
  then show ?case by (simp add: pair_letters_def)
next
  case (Cons p ps)
  from Cons.prems(1) have lp: "is_letter (fst p)" "is_letter (snd p)" and
    lps: "list_all (\<lambda>p. is_letter (fst p) \<and> is_letter (snd p)) ps" by simp_all
  from str_upper_letter [OF lp(1)] obtain x where x: "x < 26" "str_upper (fst p) = [65 + x]" by blast
  from str_upper_letter [OF lp(2)] obtain y where y: "y < 26" "str_upper (snd p) = [65 + y]" by blast
  have pl: "pair_letters (p # ps) = [65 + x] # [65 + y] # pair_letters ps"
    by (simp add: pair_letters_def x y)
  from Cons.prems(2) pl have ne: "x \<noteq> y" and
    nin: "[65 + x] \<notin> set (pair_letters ps)" "[65 + y] \<notin> set (pair_letters ps)" and
    dps: "distinct (pair_letters ps)" by auto
  from Cons.prems(3) pl have fx: "[65 + x] \<notin> used" and fy: "[65 + y] \<notin> used" and
    disj: "set (pair_letters ps) \<inter> used = {}" by auto
  let ?wl = "wl[x := [65 + y], y := [65 + x]]"
  let ?used = "insert [65 + x] (insert [65 + y] used)"
  note step = plug_pair_ok [OF Cons.prems(4,5) x(2,1) fx y(2,1) fy ne]
  have disj': "set (pair_letters ps) \<inter> ?used = {}" using disj nin by auto
  from Cons.IH [OF lps dps disj' step(2,3)] obtain wl' used' where
    r: "plug_pairs ps (?wl, ?used) = Inr (wl', used')" "plug_ok wl'"
       "\<forall>i<26. [65 + i] \<notin> ?used \<union> set (pair_letters ps) \<longrightarrow> wl' ! i = [65 + i]" by blast
  have "plug_pairs (p # ps) (wl, used) = Inr (wl', used')" using step(1) r(1) by simp
  moreover have "\<forall>i<26. [65 + i] \<notin> used \<union> set (pair_letters (p # ps)) \<longrightarrow> wl' ! i = [65 + i]"
    using r(3) pl by auto
  ultimately show ?case using r(2) by blast
qed

lemma plug_ok_identity: "plug_ok (map (\<lambda>c. [c]) ALPHABET)"
  by (simp add: plug_ok_def ALPHABET_length ALPHABET_nth)

lemma Plugboard_init_ok:
  assumes "valid_pairs pairs"
  shows "\<exists>pb. Plugboard_init pairs = Inr pb \<and> plug_ok (plug_wiring pb) \<and>
           (\<forall>i<26. [65 + i] \<notin> set (pair_letters pairs) \<longrightarrow> plug_wiring pb ! i = [65 + i])"
proof -
  have id: "\<forall>i<26. [65 + i] \<notin> ({}::pystr set) \<longrightarrow> map (\<lambda>c. [c]) ALPHABET ! i = [65 + i]"
    by (simp add: ALPHABET_length ALPHABET_nth)
  from assms have v: "list_all (\<lambda>p. is_letter (fst p) \<and> is_letter (snd p)) pairs"
    "distinct (pair_letters pairs)" by (simp_all add: valid_pairs_def)
  from plug_pairs_ok [OF v _ plug_ok_identity id] obtain wl' used' where
    "plug_pairs pairs (map (\<lambda>c. [c]) ALPHABET, {}) = Inr (wl', used')" "plug_ok wl'"
    "\<forall>i<26. [65 + i] \<notin> {} \<union> set (pair_letters pairs) \<longrightarrow> wl' ! i = [65 + i]" by auto
  then show ?thesis by (simp add: Plugboard_init_def)
qed

lemma plug_forward_ok:
  assumes "plug_ok (plug_wiring pb)" "i < 26"
  shows "\<exists>j<26. plug_forward pb [65 + i] = Inr [65 + j] \<and> plug_forward pb [65 + j] = Inr [65 + i] \<and>
           plug_wiring pb ! i = [65 + j]"
proof -
  from assms obtain j where j: "j < 26" "plug_wiring pb ! i = [65 + j]" "plug_wiring pb ! j = [65 + i]"
    by (auto simp: plug_ok_def)
  have len: "length (plug_wiring pb) = 26" using assms by (simp add: plug_ok_def)
  have "plug_forward pb [65 + i] = Inr [65 + j]"
    using assms(2) j len by (simp add: plug_forward_def char_to_idx_upper getitem_in)
  moreover have "plug_forward pb [65 + j] = Inr [65 + i]"
    using j len by (simp add: plug_forward_def char_to_idx_upper getitem_in)
  ultimately show ?thesis using j by blast
qed

text \<open>
  C6: for a valid pair list the constructor succeeds, and on the plugboard it builds
  \<open>forward\<close> maps every letter A-Z to a letter A-Z that \<open>forward\<close> maps back; a letter
  that is in no pair is mapped to itself.
\<close>

theorem plugboard_involution:
  assumes "valid_pairs pairs"
  shows "\<exists>pb. Plugboard_init pairs = Inr pb \<and>
     (\<forall>c. is_AZ c \<longrightarrow> (\<exists>d. is_AZ d \<and> plug_forward pb [c] = Inr [d] \<and> plug_forward pb [d] = Inr [c])) \<and>
     (\<forall>c. is_AZ c \<and> [c] \<notin> set (pair_letters pairs) \<longrightarrow> plug_forward pb [c] = Inr [c])"
proof -
  from Plugboard_init_ok [OF assms] obtain pb where
    pb: "Plugboard_init pairs = Inr pb" "plug_ok (plug_wiring pb)"
        "\<forall>i<26. [65 + i] \<notin> set (pair_letters pairs) \<longrightarrow> plug_wiring pb ! i = [65 + i]" by blast
  have inv: "\<exists>d. is_AZ d \<and> plug_forward pb [c] = Inr [d] \<and> plug_forward pb [d] = Inr [c]"
    if "is_AZ c" for c
  proof -
    from that have c: "c - 65 < 26" "c = 65 + (c - 65)" by (auto simp: is_AZ_def)
    from plug_forward_ok [OF pb(2) c(1)] obtain j where
      j: "j < 26" "plug_forward pb [65 + (c - 65)] = Inr [65 + j]"
         "plug_forward pb [65 + j] = Inr [65 + (c - 65)]" by blast
    have "is_AZ (65 + j)" using j(1) by (simp add: is_AZ_def)
    with j c(2) show ?thesis by metis
  qed
  have unp: "plug_forward pb [c] = Inr [c]" if "is_AZ c \<and> [c] \<notin> set (pair_letters pairs)" for c
  proof -
    from that have c: "c - 65 < 26" "c = 65 + (c - 65)" by (auto simp: is_AZ_def)
    from plug_forward_ok [OF pb(2) c(1)] obtain j where
      j: "plug_forward pb [65 + (c - 65)] = Inr [65 + j]" "plug_wiring pb ! (c - 65) = [65 + j]" by blast
    have "plug_wiring pb ! (c - 65) = [65 + (c - 65)]" using pb(3) c that by metis
    with j c(2) show ?thesis by metis
  qed
  from pb(1) inv unp show ?thesis by blast
qed

theorem plugboard_involution_witness:
  "valid_pairs [(str ''A'', str ''Z''), (str ''b'', str ''Y'')] \<and>
   (\<exists>pb d. Plugboard_init [(str ''A'', str ''Z''), (str ''b'', str ''Y'')] = Inr pb \<and>
      plug_forward pb (str ''B'') = Inr [d] \<and> plug_forward pb [d] = Inr (str ''B'') \<and>
      plug_forward pb (str ''C'') = Inr (str ''C''))"
proof -
  have v: "valid_pairs [(str ''A'', str ''Z''), (str ''b'', str ''Y'')]"
    by (simp add: valid_pairs_def pair_letters_def is_letter_def is_AZ_def str_upper_def py_upper_def)
  have b: "is_AZ 66" by (simp add: is_AZ_def)
  have c: "is_AZ 67 \<and> [67] \<notin> set (pair_letters [(str ''A'', str ''Z''), (str ''b'', str ''Y'')])"
    by (simp add: is_AZ_def pair_letters_def str_upper_def py_upper_def)
  from plugboard_involution [OF v] obtain pb where
    pb: "Plugboard_init [(str ''A'', str ''Z''), (str ''b'', str ''Y'')] = Inr pb"
      "\<forall>c. is_AZ c \<longrightarrow> (\<exists>d. is_AZ d \<and> plug_forward pb [c] = Inr [d] \<and> plug_forward pb [d] = Inr [c])"
      "\<forall>c. is_AZ c \<and> [c] \<notin> set (pair_letters [(str ''A'', str ''Z''), (str ''b'', str ''Y'')]) \<longrightarrow>
          plug_forward pb [c] = Inr [c]" by blast
  from pb(2) b obtain d where "plug_forward pb [66] = Inr [d]" "plug_forward pb [d] = Inr [66]" by blast
  moreover from pb(3) c have "plug_forward pb [67] = Inr [67]" by blast
  ultimately show ?thesis using v pb(1) by auto
qed

section \<open>Stepping and the signal path\<close>

lemma is_at_notch_eq:
  "0 \<le> position r \<Longrightarrow> position r < 26 \<Longrightarrow> is_at_notch r = Inr (at_notch r)"
  by (simp add: is_at_notch_def ALPHABET_getitem at_notch_def)

lemma wf_rotor_step: "wf_rotor r \<Longrightarrow> wf_rotor (step r)"
  by (simp add: wf_rotor_def step_def)

lemma step_rotors_eq:
  assumes "rotors m = [left, mid, right]"
    "0 \<le> position mid" "position mid < 26" "0 \<le> position right" "position right < 26"
  shows "step_rotors m =
     Inr (m\<lparr>rotors := [if at_notch mid then step left else left,
                        if at_notch mid \<or> at_notch right then step mid else mid,
                        step right]\<rparr>)"
  using assms by (simp add: step_rotors_def is_at_notch_eq)

lemma step_rotors_wf:
  assumes "wf_machine m"
  shows "\<exists>m'. step_rotors m = Inr m' \<and> wf_machine m' \<and>
               plugboard m' = plugboard m \<and> reflector m' = reflector m"
proof -
  from assms obtain l mi r where rs: "rotors m = [l, mi, r]"
    by (auto simp: wf_machine_def length_Suc_conv numeral_3_eq_3)
  from assms rs have wf: "wf_rotor l" "wf_rotor mi" "wf_rotor r" by (simp_all add: wf_machine_def)
  then have pos: "0 \<le> position mi" "position mi < 26" "0 \<le> position r" "position r < 26"
    by (simp_all add: wf_rotor_def)
  let ?m' = "m\<lparr>rotors := [if at_notch mi then step l else l,
                        if at_notch mi \<or> at_notch r then step mi else mi, step r]\<rparr>"
  have "step_rotors m = Inr ?m'" using rs pos by (rule step_rotors_eq)
  moreover have "wf_machine ?m'" using assms wf by (simp add: wf_machine_def wf_rotor_step)
  ultimately show ?thesis by force
qed

lemma pass_forward_append:
  "pass_forward (xs @ ys) s = andthen (pass_forward xs s) (pass_forward ys)"
proof (induction xs arbitrary: s)
  case Nil
  show ?case by simp
next
  case (Cons r rs)
  show ?case by (cases "forward r s") (simp_all add: Cons.IH)
qed

lemma pass_backward_append:
  "pass_backward (xs @ ys) s = andthen (pass_backward xs s) (pass_backward ys)"
proof (induction xs arbitrary: s)
  case Nil
  show ?case by simp
next
  case (Cons r rs)
  show ?case by (cases "backward r s") (simp_all add: Cons.IH)
qed

lemma pass_forward_inverse:
  assumes "list_all wf_rotor rs" "0 \<le> s" "s < 26"
  shows "\<exists>t. 0 \<le> t \<and> t < 26 \<and> pass_forward rs s = Inr t \<and> pass_backward (rev rs) t = Inr s"
  using assms
proof (induction rs arbitrary: s)
  case Nil
  then show ?case by simp
next
  case (Cons r rs)
  from Cons.prems have wr: "wf_rotor r" and rest: "list_all wf_rotor rs" by simp_all
  from wr have inv: "inverse_tables (wiring r) (reverse r)" by (simp add: wf_rotor_def)
  from encode_inverse [OF inv Cons.prems(2,3), of r] obtain j where
    j: "forward r s = Inr j" "0 \<le> j" "j < 26" "backward r j = Inr s"
    by (auto simp: forward_def backward_def)
  from Cons.IH [OF rest j(2,3)] obtain t where
    t: "0 \<le> t" "t < 26" "pass_forward rs j = Inr t" "pass_backward (rev rs) t = Inr j" by blast
  have "pass_forward (r # rs) s = Inr t" using j t by simp
  moreover have "pass_backward (rev (r # rs)) t = Inr s"
    using j t by (simp add: pass_backward_append)
  ultimately show ?case using t by blast
qed

lemma pass_backward_inverse:
  assumes "list_all wf_rotor rs" "0 \<le> s" "s < 26"
  shows "\<exists>t. 0 \<le> t \<and> t < 26 \<and> pass_backward rs s = Inr t \<and> pass_forward (rev rs) t = Inr s"
  using assms
proof (induction rs arbitrary: s)
  case Nil
  then show ?case by simp
next
  case (Cons r rs)
  from Cons.prems have wr: "wf_rotor r" and rest: "list_all wf_rotor rs" by simp_all
  from wr have inv: "inverse_tables (reverse r) (wiring r)"
    by (simp add: wf_rotor_def inverse_tables_sym)
  from encode_inverse [OF inv Cons.prems(2,3), of r] obtain j where
    j: "backward r s = Inr j" "0 \<le> j" "j < 26" "forward r j = Inr s"
    by (auto simp: forward_def backward_def)
  from Cons.IH [OF rest j(2,3)] obtain t where
    t: "0 \<le> t" "t < 26" "pass_backward rs j = Inr t" "pass_forward (rev rs) t = Inr j" by blast
  have "pass_backward (r # rs) s = Inr t" using j t by simp
  moreover have "pass_forward (rev (r # rs)) t = Inr s"
    using j t by (simp add: pass_forward_append)
  ultimately show ?case using t by blast
qed

lemma idx_to_char_upper: "0 \<le> s \<Longrightarrow> s < 26 \<Longrightarrow> idx_to_char s = Inr [65 + nat s]"
  by (simp add: idx_to_char_eq nat_add_distrib)

lemma encrypt_char_wf:
  assumes wf: "wf_machine m" and c: "is_AZ c"
  shows "\<exists>d m'. is_AZ d \<and> step_rotors m = Inr m' \<and> wf_machine m' \<and>
           plugboard m' = plugboard m \<and> reflector m' = reflector m \<and>
           encrypt_char m [c] = Inr ([d], m') \<and> encrypt_char m [d] = Inr ([c], m')"
proof -
  from step_rotors_wf [OF wf] obtain m' where
    m': "step_rotors m = Inr m'" "wf_machine m'"
        "plugboard m' = plugboard m" "reflector m' = reflector m" by blast
  let ?rs = "rotors m'" and ?pb = "plugboard m'" and ?rf = "reflector m'"
  from m'(2) have rs: "list_all wf_rotor ?rs" "list_all wf_rotor (rev ?rs)"
    and pb: "plug_ok (plug_wiring ?pb)"
    and rf: "inverse_tables (refl_wiring ?rf) (refl_wiring ?rf)"
    by (simp_all add: wf_machine_def)
  have l26: "letters26 (refl_wiring ?rf)" using rf by (simp add: inverse_tables_def)
  from c have ci: "c - 65 < 26" "c = 65 + (c - 65)" by (auto simp: is_AZ_def)
  from plug_forward_ok [OF pb ci(1)] ci(2) obtain j where
    j: "j < 26" "plug_forward ?pb [c] = Inr [65 + j]" "plug_forward ?pb [65 + j] = Inr [c]"
    by metis
  have s0: "char_to_idx [65 + j] = Inr (int j)" using j(1) by (rule char_to_idx_upper)
  have j0: "0 \<le> int j" "int j < 26" using j(1) by simp_all
  from pass_forward_inverse [OF rs(2) j0] obtain s1 where
    s1: "0 \<le> s1" "s1 < 26" "pass_forward (rev ?rs) (int j) = Inr s1"
        "pass_backward ?rs s1 = Inr (int j)" by auto
  let ?s2 = "tbl (refl_wiring ?rf) s1"
  have s2: "0 \<le> ?s2 \<and> ?s2 < 26" using l26 s1(1,2) by (rule tbl_range)
  have r1: "reflect ?rf s1 = Inr ?s2" using l26 s1(1,2) by (rule reflect_tbl)
  have "tbl (refl_wiring ?rf) ?s2 = s1" using rf s1(1,2) by (rule inverse_tables_left)
  then have r2: "reflect ?rf ?s2 = Inr s1" using l26 s2 by (simp add: reflect_tbl)
  from s2 pass_backward_inverse [OF rs(1), of ?s2] obtain s3 where
    s3: "0 \<le> s3" "s3 < 26" "pass_backward ?rs ?s2 = Inr s3"
        "pass_forward (rev ?rs) s3 = Inr ?s2" by auto
  have i3: "idx_to_char s3 = Inr [65 + nat s3]" using s3(1,2) by (rule idx_to_char_upper)
  have n3: "nat s3 < 26" using s3(1,2) by simp
  from plug_forward_ok [OF pb n3] obtain k where
    k: "k < 26" "plug_forward ?pb [65 + nat s3] = Inr [65 + k]"
       "plug_forward ?pb [65 + k] = Inr [65 + nat s3]" by blast
  have c3: "char_to_idx [65 + nat s3] = Inr s3" using n3 s3(1) by (simp add: char_to_idx_upper)
  have i0: "idx_to_char (int j) = Inr [65 + j]" using j0 by (simp add: idx_to_char_upper)
  have e1: "encrypt_char m [c] = Inr ([65 + k], m')"
    by (simp add: encrypt_char_def m'(1) j(2) s0 s1(3) r1 s3(3) i3 k(2))
  have e2: "encrypt_char m [65 + k] = Inr ([c], m')"
    by (simp add: encrypt_char_def m'(1) k(3) c3 s3(4) r2 s1(4) i0 j(3))
  have "is_AZ (65 + k)" using k(1) by (simp add: is_AZ_def)
  with e1 e2 m' show ?thesis by blast
qed

section \<open>Encrypting a text and decrypting it again\<close>

lemma same_key_refl: "same_key m m"
  by (simp add: same_key_def)

lemma same_key_trans: "same_key a b \<Longrightarrow> same_key b c \<Longrightarrow> same_key a c"
  by (simp add: same_key_def)

lemma step_rotors_same_key: "step_rotors m = Inr m' \<Longrightarrow> same_key m m'"
  by (auto simp: step_rotors_def same_key_def step_def andthen_eq_Inr
           split: list.splits if_splits)

lemma encrypt_char_steps: "encrypt_char m c = Inr (x, m') \<Longrightarrow> step_rotors m = Inr m'"
  by (auto simp: encrypt_char_def andthen_eq_Inr)

lemma encrypt_loop_same_key: "encrypt_loop m cs = Inr (res, m') \<Longrightarrow> same_key m m'"
proof (induction cs arbitrary: m res m')
  case Nil
  then show ?case by (simp add: same_key_refl)
next
  case (Cons c cs)
  show ?case
  proof (cases "py_isalpha c")
    case True
    with Cons.prems obtain x m1 r where
      1: "encrypt_char m [c] = Inr (x, m1)" and 2: "encrypt_loop m1 cs = Inr (r, m')"
      by (auto split: sum.splits)
    from 1 have "same_key m m1" by (blast intro: step_rotors_same_key encrypt_char_steps)
    moreover from 2 have "same_key m1 m'" by (rule Cons.IH)
    ultimately show ?thesis by (rule same_key_trans)
  next
    case False
    with Cons.prems obtain r where "encrypt_loop m cs = Inr (r, m')"
      by (auto split: sum.splits)
    then show ?thesis by (rule Cons.IH)
  qed
qed

lemma is_AZ_isalpha: "is_AZ c \<Longrightarrow> py_isalpha c"
  by (simp add: is_AZ_def py_isalpha_def)

lemma encrypt_loop_round:
  assumes "wf_machine m" "list_all (\<lambda>c. \<not> py_isalpha c \<or> is_AZ c) cs"
  shows "\<exists>res m'. encrypt_loop m cs = Inr (res, m') \<and> wf_machine m' \<and>
           list_all (\<lambda>c. is_AZ c \<or> c \<in> set cs) (concat res) \<and>
           encrypt_loop m (concat res) = Inr (map (\<lambda>c. [c]) cs, m')"
  using assms
proof (induction cs arbitrary: m)
  case Nil
  then show ?case by simp
next
  case (Cons c cs)
  from Cons.prems(2) have rest: "list_all (\<lambda>c. \<not> py_isalpha c \<or> is_AZ c) cs"
    and hd: "\<not> py_isalpha c \<or> is_AZ c" by simp_all
  show ?case
  proof (cases "py_isalpha c")
    case True
    with hd have az: "is_AZ c" by simp
    from encrypt_char_wf [OF Cons.prems(1) az] obtain d m1 where
      d: "is_AZ d" "wf_machine m1" "encrypt_char m [c] = Inr ([d], m1)"
         "encrypt_char m [d] = Inr ([c], m1)" by blast
    from Cons.IH [OF d(2) rest] obtain res m' where
      r: "encrypt_loop m1 cs = Inr (res, m')" "wf_machine m'"
         "list_all (\<lambda>c. is_AZ c \<or> c \<in> set cs) (concat res)"
         "encrypt_loop m1 (concat res) = Inr (map (\<lambda>c. [c]) cs, m')" by blast
    have 1: "encrypt_loop m (c # cs) = Inr ([d] # res, m')" using True d(3) r(1) by simp
    have 2: "encrypt_loop m (concat ([d] # res)) = Inr (map (\<lambda>c. [c]) (c # cs), m')"
      using is_AZ_isalpha [OF d(1)] d(4) r(4) by simp
    have 3: "list_all (\<lambda>x. is_AZ x \<or> x \<in> set (c # cs)) (concat ([d] # res))"
      using d(1) r(3) by (auto simp: list_all_iff)
    from 1 2 3 r(2) show ?thesis by blast
  next
    case False
    from Cons.IH [OF Cons.prems(1) rest] obtain res m' where
      r: "encrypt_loop m cs = Inr (res, m')" "wf_machine m'"
         "list_all (\<lambda>c. is_AZ c \<or> c \<in> set cs) (concat res)"
         "encrypt_loop m (concat res) = Inr (map (\<lambda>c. [c]) cs, m')" by blast
    have 1: "encrypt_loop m (c # cs) = Inr ([c] # res, m')" using False r(1) by simp
    have 2: "encrypt_loop m (concat ([c] # res)) = Inr (map (\<lambda>c. [c]) (c # cs), m')"
      using False r(4) by simp
    have 3: "list_all (\<lambda>x. is_AZ x \<or> x \<in> set (c # cs)) (concat ([c] # res))"
      using r(3) by (auto simp: list_all_iff)
    from 1 2 3 r(2) show ?thesis by blast
  qed
qed

lemmas unicode_tables =
  alpha_ranges_def alpha_ranges_1_def alpha_ranges_2_def alpha_ranges_3_def alpha_ranges_4_def
  alpha_ranges_5_def alpha_ranges_6_def upper_table_def upper_table_1_def upper_table_2_def
  upper_table_3_def upper_table_4_def upper_table_5_def upper_table_6_def upper_table_7_def
  upper_table_8_def upper_table_9_def upper_table_10_def upper_table_11_def upper_table_12_def
  upper_table_13_def upper_table_14_def upper_table_15_def upper_table_16_def

lemma upper_table_nonempty: "list_all (\<lambda>e. snd e \<noteq> []) (upper_table c)"
  by (simp add:
        upper_table_def upper_table_1_def upper_table_2_def upper_table_3_def upper_table_4_def
        upper_table_5_def upper_table_6_def upper_table_7_def upper_table_8_def
        upper_table_9_def upper_table_10_def upper_table_11_def upper_table_12_def
        upper_table_13_def upper_table_14_def upper_table_15_def upper_table_16_def)

lemma py_upper_nonempty: "py_upper c \<noteq> []"
proof (cases "List.find (\<lambda>e. fst e = c) (upper_table c)")
  case None
  then show ?thesis by (simp add: py_upper_def)
next
  case (Some e)
  then have "e \<in> set (upper_table c)" by (auto simp: find_Some_iff)
  with upper_table_nonempty [of c] have "snd e \<noteq> []" by (simp add: list_all_iff)
  with Some show ?thesis by (simp add: py_upper_def)
qed

lemma str_upper_length: "length s \<le> length (str_upper s)"
proof (induction s)
  case Nil
  show ?case by (simp add: str_upper_def)
next
  case (Cons c s)
  have "1 \<le> length (py_upper c)" using py_upper_nonempty [of c] by (cases "py_upper c") simp_all
  with Cons show ?case by (simp add: str_upper_def)
qed

lemma str_upper_single: "length (str_upper s) = 1 \<Longrightarrow> length s = 1"
proof -
  assume a: "length (str_upper s) = 1"
  then have "s \<noteq> []" by (auto simp: str_upper_def)
  moreover from a str_upper_length [of s] have "length s \<le> 1" by simp
  ultimately show ?thesis by (cases s) simp_all
qed

lemma py_upper_latin1_image:
  "x < 256 \<Longrightarrow> c \<in> set (py_upper x) \<Longrightarrow> c = 924 \<or> c = 376 \<or> (c < 256 \<and> py_upper c = [c])"
  by (auto simp: py_upper_def split: if_splits)

lemma py_upper_latin1: "x < 256 \<Longrightarrow> c \<in> set (py_upper x) \<Longrightarrow> py_upper c = [c]"
proof -
  assume "x < 256" "c \<in> set (py_upper x)"
  then have "c = 924 \<or> c = 376 \<or> (c < 256 \<and> py_upper c = [c])" by (rule py_upper_latin1_image)
  moreover have "py_upper 924 = [924]" by (simp add: py_upper_def unicode_tables)
  moreover have "py_upper 376 = [376]" by (simp add: py_upper_def unicode_tables)
  ultimately show ?thesis by blast
qed

lemma str_upper_latin1:
  "list_all (\<lambda>c. c < 256) s \<Longrightarrow> list_all (\<lambda>c. py_upper c = [c]) (str_upper s)"
  by (auto simp: str_upper_def list_all_iff dest: py_upper_latin1)

lemma str_upper_fixed: "list_all (\<lambda>c. py_upper c = [c]) s \<Longrightarrow> str_upper s = s"
  by (induction s) (simp_all add: str_upper_def)

lemma reset_loop_back:
  assumes "list_all2 (\<lambda>r p. char_to_idx p = Inr (position r)) rs ps"
    "map (\<lambda>r. r\<lparr>position := 0\<rparr>) rs' = map (\<lambda>r. r\<lparr>position := 0\<rparr>) rs"
  shows "reset_loop rs' ps = Inr rs"
  using assms
proof (induction rs ps arbitrary: rs' rule: list_all2_induct)
  case Nil
  then show ?case by simp
next
  case (Cons r rs p ps)
  from Cons.prems obtain r' rs0 where rs': "rs' = r' # rs0"
    and e: "r'\<lparr>position := 0\<rparr> = r\<lparr>position := 0\<rparr>"
    and rest: "map (\<lambda>r. r\<lparr>position := 0\<rparr>) rs0 = map (\<lambda>r. r\<lparr>position := 0\<rparr>) rs"
    by (cases rs') auto
  have "(r'\<lparr>position := 0\<rparr>)\<lparr>position := position r\<rparr> = (r\<lparr>position := 0\<rparr>)\<lparr>position := position r\<rparr>"
    using e by simp
  then have "r'\<lparr>position := position r\<rparr> = r" by simp
  moreover have "reset_loop rs0 ps = Inr rs" using rest by (rule Cons.IH)
  ultimately show ?case using Cons.hyps(1) by (simp add: rs')
qed

lemma reset_back:
  assumes "set_at ps (rotors m)" "same_key m m'"
  shows "reset m' ps = Inr m"
proof -
  from assms have "reset_loop (rotors m') ps = Inr (rotors m)"
    by (auto simp: set_at_def same_key_def intro: reset_loop_back)
  moreover have "m'\<lparr>rotors := rotors m\<rparr> = m" using assms(2) by (simp add: same_key_def)
  ultimately show ?thesis by (simp add: reset_def)
qed

lemma make_rotors_ok:
  assumes "list_all valid_rotor_spec xs"
  shows "\<exists>rs. make_rotors xs = Inr rs \<and> list_all wf_rotor rs \<and> list_all2 built_from rs xs"
  using assms
proof (induction xs)
  case Nil
  then show ?case by simp
next
  case (Cons x xs)
  from Cons.prems have vx: "valid_rotor_spec x" and rest: "list_all valid_rotor_spec xs" by simp_all
  from vx obtain wn where wn: "ROTOR_WIRINGS (fst x) = Some wn"
    and l: "is_letter (fst (snd x))" "is_letter (snd (snd x))"
    by (auto simp: valid_rotor_spec_def)
  from Rotor_init_ok [OF wn l] obtain v p q where
    r: "inverse_tables (fst wn) v" "char_to_idx (fst (snd x)) = Inr p" "0 \<le> p" "p < 26"
       "char_to_idx (snd (snd x)) = Inr q"
       "Rotor_init (fst x) (fst (snd x)) (snd (snd x)) =
          Inr \<lparr>name = fst x, wiring = fst wn, reverse = v, notch = snd wn, position = p, ring = q\<rparr>"
    by blast
  let ?r = "\<lparr>name = fst x, wiring = fst wn, reverse = v, notch = snd wn, position = p, ring = q\<rparr>"
  from Cons.IH [OF rest] obtain rs where
    rs: "make_rotors xs = Inr rs" "list_all wf_rotor rs" "list_all2 built_from rs xs" by blast
  have "make_rotors (x # xs) = Inr (?r # rs)" using r(6) rs(1) by simp
  moreover have "wf_rotor ?r" using r by (simp add: wf_rotor_def)
  moreover have "built_from ?r x" using r wn by (simp add: built_from_def)
  ultimately show ?case using rs by auto
qed

lemma Reflector_init_ok:
  assumes "REFLECTORS nm \<noteq> None"
  shows "\<exists>rf. Reflector_init nm = Inr rf \<and> inverse_tables (refl_wiring rf) (refl_wiring rf)"
proof -
  from assms obtain w where w: "REFLECTORS nm = Some w" by auto
  from REFLECTORS_tables [OF w] show ?thesis by (simp add: Reflector_init_def w)
qed

lemma EnigmaMachine_init_ok:
  assumes "length rotor_names = 3"
    "list_all valid_rotor_spec (zip rotor_names (zip positions ring_settings))"
    "valid_pairs pairs" "REFLECTORS reflector_name \<noteq> None"
  shows "\<exists>m. EnigmaMachine_init rotor_names positions ring_settings pairs reflector_name = Inr m \<and>
           list_all wf_rotor (rotors m) \<and>
           list_all2 built_from (rotors m) (zip rotor_names (zip positions ring_settings)) \<and>
           plug_ok (plug_wiring (plugboard m)) \<and>
           inverse_tables (refl_wiring (reflector m)) (refl_wiring (reflector m))"
proof -
  from make_rotors_ok [OF assms(2)] obtain rs where
    rs: "make_rotors (zip rotor_names (zip positions ring_settings)) = Inr rs"
        "list_all wf_rotor rs"
        "list_all2 built_from rs (zip rotor_names (zip positions ring_settings))" by blast
  from Plugboard_init_ok [OF assms(3)] obtain pb where
    pb: "Plugboard_init pairs = Inr pb" "plug_ok (plug_wiring pb)" by blast
  from Reflector_init_ok [OF assms(4)] obtain rf where
    rf: "Reflector_init reflector_name = Inr rf"
        "inverse_tables (refl_wiring rf) (refl_wiring rf)" by blast
  have "EnigmaMachine_init rotor_names positions ring_settings pairs reflector_name
          = Inr \<lparr>rotors = rs, plugboard = pb, reflector = rf\<rparr>"
    using assms(1) rs(1) pb(1) rf(1) by (simp add: EnigmaMachine_init_def)
  with rs pb rf show ?thesis by simp
qed

lemma zip3_valid:
  assumes "list_all (\<lambda>n. ROTOR_WIRINGS n \<noteq> None) ns" "list_all is_letter ps" "list_all is_letter qs"
  shows "list_all valid_rotor_spec (zip ns (zip ps qs))"
  using assms
  by (auto simp: list_all_length valid_rotor_spec_def)

lemma built_from_set_at:
  assumes "list_all2 built_from rs (zip ns (zip ps qs))" "length ns = length ps" "length qs = length ps"
  shows "set_at ps rs"
proof -
  from assms(1) have len: "length rs = length ps" using assms(2,3)
    by (auto dest: list_all2_lengthD)
  have "char_to_idx (ps ! i) = Inr (position (rs ! i))" if "i < length rs" for i
  proof -
    from assms(1) that have "built_from (rs ! i) (zip ns (zip ps qs) ! i)"
      by (rule list_all2_nthD)
    moreover have "zip ns (zip ps qs) ! i = (ns ! i, ps ! i, qs ! i)"
      using that len assms(2,3) by simp
    ultimately show ?thesis by (simp add: built_from_def)
  qed
  with len show ?thesis by (simp add: set_at_def list_all2_conv_all_nth)
qed

lemma valid_config_machine:
  assumes "valid_config rotor_names positions ring_settings pairs reflector_name"
  shows "\<exists>m. EnigmaMachine_init rotor_names positions ring_settings pairs reflector_name = Inr m \<and>
           wf_machine m \<and> set_at positions (rotors m) \<and>
           list_all2 built_from (rotors m) (zip rotor_names (zip positions ring_settings))"
proof -
  from assms have len: "length rotor_names = 3" "length positions = 3" "length ring_settings = 3"
    and v: "list_all (\<lambda>n. ROTOR_WIRINGS n \<noteq> None) rotor_names" "list_all is_letter positions"
           "list_all is_letter ring_settings"
    and p: "valid_pairs pairs" and r: "REFLECTORS reflector_name \<noteq> None"
    by (simp_all add: valid_config_def)
  from EnigmaMachine_init_ok [OF len(1) zip3_valid [OF v] p r] obtain m where
    m: "EnigmaMachine_init rotor_names positions ring_settings pairs reflector_name = Inr m"
       "list_all wf_rotor (rotors m)"
       "list_all2 built_from (rotors m) (zip rotor_names (zip positions ring_settings))"
       "plug_ok (plug_wiring (plugboard m))"
       "inverse_tables (refl_wiring (reflector m)) (refl_wiring (reflector m))" by blast
  from m(3) len have l3: "length (rotors m) = 3" by (auto dest: list_all2_lengthD)
  have "set_at positions (rotors m)"
    by (rule built_from_set_at [OF m(3)]) (simp_all add: len)
  moreover have "wf_machine m" using l3 m by (simp add: wf_machine_def)
  ultimately show ?thesis using m(1,3) by blast
qed

lemma encrypt_round:
  assumes wf: "wf_machine m" and az: "letters_AZ_only text"
    and st: "list_all (\<lambda>c. py_upper c = [c]) (str_upper text)"
  shows "\<exists>ct m1. encrypt m text = Inr (ct, m1) \<and> wf_machine m1 \<and> same_key m m1 \<and>
           encrypt m ct = Inr (str_upper text, m1)"
proof -
  let ?cs = "str_upper text"
  from az have "list_all (\<lambda>c. \<not> py_isalpha c \<or> is_AZ c) ?cs" by (simp add: letters_AZ_only_def)
  from encrypt_loop_round [OF wf this] obtain res m1 where
    r: "encrypt_loop m ?cs = Inr (res, m1)" "wf_machine m1"
       "list_all (\<lambda>c. is_AZ c \<or> c \<in> set ?cs) (concat res)"
       "encrypt_loop m (concat res) = Inr (map (\<lambda>c. [c]) ?cs, m1)" by blast
  have 1: "encrypt m text = Inr (concat res, m1)" using r(1) by (simp add: encrypt_def)
  have up1: "py_upper c = [c]" if "is_AZ c \<or> c \<in> set ?cs" for c
    using that py_upper_AZ st by (auto simp: list_all_iff)
  have "list_all (\<lambda>c. py_upper c = [c]) (concat res)"
    by (rule list.pred_mono_strong [OF r(3)]) (rule up1)
  then have up: "str_upper (concat res) = concat res" by (rule str_upper_fixed)
  have cc: "concat (map (\<lambda>c. [c]) ?cs) = ?cs" by (induction ?cs) simp_all
  have 2: "encrypt m (concat res) = Inr (?cs, m1)" using r(4) up cc by (simp add: encrypt_def)
  have 3: "same_key m m1" using r(1) by (rule encrypt_loop_same_key)
  from 1 2 3 r(2) show ?thesis by blast
qed

text \<open>
  The round trip, on the texts that the substitution path can handle. For every valid
  configuration (three catalog rotor names, three window letters, three ring letters, a
  valid pair list, a catalog reflector) and every text whose upper-cased form has no
  alphabetic character other than A-Z and is left as it is by upper-casing it again (as
  is every text over the code points below 256, \<open>str_upper_latin1\<close>): the machine is built,
  encrypting the text returns a ciphertext, resetting to the starting positions gives
  back the machine as built, and encrypting the ciphertext returns the upper-cased text
  (and leaves the machine in the state the first pass left it in).
\<close>

lemma encrypt_round_trip:
  assumes "valid_config rotor_names positions ring_settings pairs reflector_name"
    and "letters_AZ_only text"
    and "list_all (\<lambda>c. py_upper c = [c]) (str_upper text)"
  shows "\<exists>m ct m1.
     EnigmaMachine_init rotor_names positions ring_settings pairs reflector_name = Inr m \<and>
     encrypt m text = Inr (ct, m1) \<and> reset m1 positions = Inr m \<and>
     encrypt m ct = Inr (str_upper text, m1)"
proof -
  from valid_config_machine [OF assms(1)] obtain m where
    m: "EnigmaMachine_init rotor_names positions ring_settings pairs reflector_name = Inr m"
       "wf_machine m" "set_at positions (rotors m)" by blast
  from encrypt_round [OF m(2) assms(2) assms(3)] obtain ct m1 where
    e: "encrypt m text = Inr (ct, m1)" "same_key m m1" "encrypt m ct = Inr (str_upper text, m1)"
    by blast
  have "reset m1 positions = Inr m" using m(3) e(2) by (rule reset_back)
  with m(1) e show ?thesis by blast
qed

section \<open>The stepping mechanism\<close>

lemma at_notch_window:
  "0 \<le> position r \<Longrightarrow> position r < 26 \<Longrightarrow>
   at_notch r \<longleftrightarrow> [ALPHABET ! nat (position r)] = notch r"
  using ALPHABET_nth [of "nat (position r)"]
  by (simp add: at_notch_def nat_add_distrib add.commute)

text \<open>
  C3: one call of \<open>_step_rotors\<close> on a machine with three rotors, the middle and the right
  one at positions in 0..25. A rotor is at its notch when the letter of the alphabet at
  its position is its notch letter, and this is what \<open>is_at_notch\<close> returns. Both tests
  are made on the rotors as they are before the call: if the middle rotor is at its
  notch, the left and the middle rotor advance; otherwise, if the right rotor is at its
  notch, the middle rotor advances; the right rotor always advances; advancing is adding
  one modulo 26 to the position and changes nothing else.
\<close>

theorem step_rotors_rule:
  assumes "rotors m = [left, mid, right]"
    "0 \<le> position mid" "position mid < 26" "0 \<le> position right" "position right < 26"
  shows "is_at_notch mid = Inr ([ALPHABET ! nat (position mid)] = notch mid) \<and>
     is_at_notch right = Inr ([ALPHABET ! nat (position right)] = notch right) \<and>
     step_rotors m =
       Inr (m\<lparr>rotors :=
              [if [ALPHABET ! nat (position mid)] = notch mid then step left else left,
               if [ALPHABET ! nat (position mid)] = notch mid \<or>
                  [ALPHABET ! nat (position right)] = notch right
               then step mid else mid,
               step right]\<rparr>) \<and>
     step left = left\<lparr>position := (position left + 1) mod 26\<rparr> \<and>
     step mid = mid\<lparr>position := (position mid + 1) mod 26\<rparr> \<and>
     step right = right\<lparr>position := (position right + 1) mod 26\<rparr>"
proof -
  have a: "at_notch mid \<longleftrightarrow> [ALPHABET ! nat (position mid)] = notch mid"
    using assms(2,3) by (rule at_notch_window)
  have b: "at_notch right \<longleftrightarrow> [ALPHABET ! nat (position right)] = notch right"
    using assms(4,5) by (rule at_notch_window)
  have 1: "is_at_notch mid = Inr (at_notch mid)" using assms(2,3) by (rule is_at_notch_eq)
  have 2: "is_at_notch right = Inr (at_notch right)" using assms(4,5) by (rule is_at_notch_eq)
  have 3: "step_rotors m =
     Inr (m\<lparr>rotors := [if at_notch mid then step left else left,
                        if at_notch mid \<or> at_notch right then step mid else mid,
                        step right]\<rparr>)"
    using assms by (rule step_rotors_eq)
  from 1 2 3 show ?thesis unfolding a b by (simp add: step_def)
qed

lemma built_I_II_III:
  assumes "list_all2 built_from rs (zip [str ''I'', str ''II'', str ''III''] (zip ps qs))"
    "length ps = 3" "length qs = 3"
  shows "\<exists>l mi r. rs = [l, mi, r] \<and>
           notch l = str ''Q'' \<and> notch mi = str ''E'' \<and> notch r = str ''V'' \<and>
           char_to_idx (ps ! 0) = Inr (position l) \<and> char_to_idx (ps ! 1) = Inr (position mi) \<and>
           char_to_idx (ps ! 2) = Inr (position r)"
proof -
  from assms(2) obtain p1 p2 p3 where ps: "ps = [p1, p2, p3]"
    by (auto simp: length_Suc_conv numeral_3_eq_3)
  from assms(3) obtain q1 q2 q3 where qs: "qs = [q1, q2, q3]"
    by (auto simp: length_Suc_conv numeral_3_eq_3)
  from assms(1) obtain l mi r where rs: "rs = [l, mi, r]"
    and b: "built_from l (str ''I'', p1, q1)" "built_from mi (str ''II'', p2, q2)"
           "built_from r (str ''III'', p3, q3)"
    by (auto simp: ps qs list_all2_Cons2)
  from b(1) have 1: "notch l = str ''Q''" "char_to_idx p1 = Inr (position l)"
    by (simp_all add: built_from_def ROTOR_WIRINGS_def)
  from b(2) have 2: "notch mi = str ''E''" "char_to_idx p2 = Inr (position mi)"
    by (simp_all add: built_from_def ROTOR_WIRINGS_def)
  from b(3) have 3: "notch r = str ''V''" "char_to_idx p3 = Inr (position r)"
    by (simp_all add: built_from_def ROTOR_WIRINGS_def)
  from rs 1 2 3 show ?thesis by (simp add: ps)
qed

lemma encrypt_letter:
  assumes wf: "wf_machine m" and c: "is_letter c"
  shows "\<exists>x m'. encrypt m c = Inr (x, m') \<and> step_rotors m = Inr m' \<and> wf_machine m'"
proof -
  from str_upper_letter [OF c] obtain k where k: "k < 26" "str_upper c = [65 + k]" by blast
  have az: "is_AZ (65 + k)" using k(1) by (simp add: is_AZ_def)
  from encrypt_char_wf [OF wf az] obtain d m' where
    d: "step_rotors m = Inr m'" "wf_machine m'" "encrypt_char m [65 + k] = Inr ([d], m')" by blast
  have "encrypt m c = Inr ([d], m')"
    using d(3) is_AZ_isalpha [OF az] by (simp add: encrypt_def k(2))
  with d show ?thesis by blast
qed

lemma press_I_II_III:
  assumes wf: "wf_machine m" and at: "rotors_I_II_III_at m p1 p2 p3" and c: "is_letter c"
  shows "\<exists>x m'. encrypt m c = Inr (x, m') \<and> wf_machine m' \<and>
           rotors_I_II_III_at m' (if p2 = 4 then (p1 + 1) mod 26 else p1)
                                 (if p2 = 4 \<or> p3 = 21 then (p2 + 1) mod 26 else p2)
                                 ((p3 + 1) mod 26)"
proof -
  from at obtain l mi r where rs: "rotors m = [l, mi, r]"
    and n: "notch l = str ''Q''" "notch mi = str ''E''" "notch r = str ''V''"
    and p: "position l = p1" "position mi = p2" "position r = p3"
    by (auto simp: rotors_I_II_III_at_def)
  from wf rs have "wf_rotor mi" "wf_rotor r" by (simp_all add: wf_machine_def)
  then have pos: "0 \<le> position mi" "position mi < 26" "0 \<le> position r" "position r < 26"
    by (simp_all add: wf_rotor_def)
  have am: "at_notch mi \<longleftrightarrow> p2 = 4" using pos(1) p(2) n(2) by (auto simp: at_notch_def)
  have ar: "at_notch r \<longleftrightarrow> p3 = 21" using pos(3) p(3) n(3) by (auto simp: at_notch_def)
  from encrypt_letter [OF wf c] obtain x m' where
    e: "encrypt m c = Inr (x, m')" "step_rotors m = Inr m'" "wf_machine m'" by blast
  from step_rotors_eq [OF rs pos] e(2) have
    "rotors m' = [if at_notch mi then step l else l,
                  if at_notch mi \<or> at_notch r then step mi else mi, step r]" by auto
  then have "rotors_I_II_III_at m' (if p2 = 4 then (p1 + 1) mod 26 else p1)
                                 (if p2 = 4 \<or> p3 = 21 then (p2 + 1) mod 26 else p2)
                                 ((p3 + 1) mod 26)"
    using n p by (simp add: rotors_I_II_III_at_def am ar step_def)
  with e show ?thesis by blast
qed

lemma windows_I_II_III:
  assumes "rotors_I_II_III_at m p1 p2 p3" "0 \<le> p1" "p1 < 26" "0 \<le> p2" "p2 < 26" "0 \<le> p3" "p3 < 26"
  shows "window_letters (rotors m) = Inr [[nat (p1 + 65)], [nat (p2 + 65)], [nat (p3 + 65)]]"
  using assms by (auto simp: rotors_I_II_III_at_def ALPHABET_getitem)

lemma four_presses:
  assumes cfg: "valid_config [str ''I'', str ''II'', str ''III''] [str ''A'', str ''D'', str ''U'']
                  ring_settings pairs reflector_name"
    and c: "is_letter c1" "is_letter c2" "is_letter c3" "is_letter c4"
  shows "\<exists>m0 x1 m1 x2 m2 x3 m3 x4 m4.
     EnigmaMachine_init [str ''I'', str ''II'', str ''III''] [str ''A'', str ''D'', str ''U'']
        ring_settings pairs reflector_name = Inr m0 \<and>
     encrypt m0 c1 = Inr (x1, m1) \<and> window_letters (rotors m1) = Inr [str ''A'', str ''D'', str ''V''] \<and>
     encrypt m1 c2 = Inr (x2, m2) \<and> window_letters (rotors m2) = Inr [str ''A'', str ''E'', str ''W''] \<and>
     encrypt m2 c3 = Inr (x3, m3) \<and> window_letters (rotors m3) = Inr [str ''B'', str ''F'', str ''X''] \<and>
     encrypt m3 c4 = Inr (x4, m4) \<and> window_letters (rotors m4) = Inr [str ''B'', str ''F'', str ''Y'']"
proof -
  from valid_config_machine [OF cfg] obtain m0 where
    m0: "EnigmaMachine_init [str ''I'', str ''II'', str ''III''] [str ''A'', str ''D'', str ''U'']
           ring_settings pairs reflector_name = Inr m0" "wf_machine m0"
        "list_all2 built_from (rotors m0)
           (zip [str ''I'', str ''II'', str ''III''] (zip [str ''A'', str ''D'', str ''U''] ring_settings))"
    by blast
  from cfg have lq: "length ring_settings = 3" by (simp add: valid_config_def)
  have lp: "length [str ''A'', str ''D'', str ''U''] = 3" by simp
  from built_I_II_III [OF m0(3) lp lq] have a0: "rotors_I_II_III_at m0 0 3 20"
    by (auto simp: rotors_I_II_III_at_def char_to_idx_AZ is_AZ_def)
  from press_I_II_III [OF m0(2) a0 c(1)] obtain x1 m1 where
    1: "encrypt m0 c1 = Inr (x1, m1)" "wf_machine m1" "rotors_I_II_III_at m1 0 3 21" by auto
  from press_I_II_III [OF 1(2,3) c(2)] obtain x2 m2 where
    2: "encrypt m1 c2 = Inr (x2, m2)" "wf_machine m2" "rotors_I_II_III_at m2 0 4 22" by auto
  from press_I_II_III [OF 2(2,3) c(3)] obtain x3 m3 where
    3: "encrypt m2 c3 = Inr (x3, m3)" "wf_machine m3" "rotors_I_II_III_at m3 1 5 23" by auto
  from press_I_II_III [OF 3(2,3) c(4)] obtain x4 m4 where
    4: "encrypt m3 c4 = Inr (x4, m4)" "wf_machine m4" "rotors_I_II_III_at m4 1 5 24" by auto
  have w1: "window_letters (rotors m1) = Inr [str ''A'', str ''D'', str ''V'']"
    using windows_I_II_III [OF 1(3)] by simp
  have w2: "window_letters (rotors m2) = Inr [str ''A'', str ''E'', str ''W'']"
    using windows_I_II_III [OF 2(3)] by simp
  have w3: "window_letters (rotors m3) = Inr [str ''B'', str ''F'', str ''X'']"
    using windows_I_II_III [OF 3(3)] by simp
  have w4: "window_letters (rotors m4) = Inr [str ''B'', str ''F'', str ''Y'']"
    using windows_I_II_III [OF 4(3)] by simp
  from m0(1) 1(1) 2(1) 3(1) 4(1) w1 w2 w3 w4 show ?thesis by blast
qed

section \<open>Texts that raise, and the claims about whole texts\<close>

lemma step_rotors_not3: "length (rotors m) \<noteq> 3 \<Longrightarrow> step_rotors m = Inl ValueError"
  by (auto simp: step_rotors_def split: list.splits)

lemma encrypt_char_not3: "length (rotors m) \<noteq> 3 \<Longrightarrow> encrypt_char m c = Inl ValueError"
  by (simp add: encrypt_char_def step_rotors_not3)

lemma encrypt_char_beyond_Z:
  assumes wf: "wf_machine m" and up: "py_upper c = [c]" and c: "91 \<le> c"
  shows "encrypt_char m [c] = Inl IndexError"
proof -
  from step_rotors_wf [OF wf] obtain m' where
    m': "step_rotors m = Inr m'" "wf_machine m'" by blast
  from m'(2) have len: "length (plug_wiring (plugboard m')) = 26"
    by (simp add: wf_machine_def plug_ok_def)
  have idx: "char_to_idx [c] = Inr (int c - 65)"
    by (simp add: char_to_idx_def str_upper_def up ord_def)
  have "getitem (plug_wiring (plugboard m')) (int c - 65) = Inl IndexError"
    using len c by (simp add: getitem_def)
  then have "plug_forward (plugboard m') [c] = Inl IndexError"
    by (simp add: plug_forward_def idx)
  then show ?thesis by (simp add: encrypt_char_def m'(1))
qed

lemma other_letter_beyond_Z: "py_isalpha c \<Longrightarrow> \<not> is_AZ c \<Longrightarrow> py_upper c = [c] \<Longrightarrow> 91 \<le> c"
  by (cases "c < 256") (auto simp: py_isalpha_def is_AZ_def py_upper_def split: if_splits)

lemma encrypt_loop_raises:
  assumes "wf_machine m" "list_all (\<lambda>c. py_upper c = [c]) cs"
    "list_ex (\<lambda>c. py_isalpha c \<and> \<not> is_AZ c) cs"
  shows "encrypt_loop m cs = Inl IndexError"
  using assms
proof (induction cs arbitrary: m)
  case Nil
  then show ?case by simp
next
  case (Cons c cs)
  from Cons.prems(2) have up: "py_upper c = [c]" and ups: "list_all (\<lambda>c. py_upper c = [c]) cs"
    by simp_all
  show ?case
  proof (cases "py_isalpha c")
    case True
    show ?thesis
    proof (cases "is_AZ c")
      case az: True
      from encrypt_char_wf [OF Cons.prems(1) az] obtain d m1 where
        d: "wf_machine m1" "encrypt_char m [c] = Inr ([d], m1)" by blast
      from Cons.prems(3) az have "list_ex (\<lambda>c. py_isalpha c \<and> \<not> is_AZ c) cs" by simp
      from Cons.IH [OF d(1) ups this] show ?thesis using True d(2) by simp
    next
      case False
      from other_letter_beyond_Z [OF True False up] have "91 \<le> c" .
      from encrypt_char_beyond_Z [OF Cons.prems(1) up this] show ?thesis using True by simp
    qed
  next
    case False
    with Cons.prems(3) have "list_ex (\<lambda>c. py_isalpha c \<and> \<not> is_AZ c) cs" by simp
    from Cons.IH [OF Cons.prems(1) ups this] show ?thesis using False by simp
  qed
qed

lemma valid_defaults:
  "valid_config [str ''I'', str ''II'', str ''III''] [str ''A'', str ''A'', str ''A'']
     [str ''A'', str ''A'', str ''A''] [] (str ''B'')"
  by (simp add: valid_config_def ROTOR_WIRINGS_def REFLECTORS_def is_letter_def is_AZ_def
        valid_pairs_def pair_letters_def)

lemma valid_demo_stepping:
  "valid_config [str ''I'', str ''II'', str ''III''] [str ''A'', str ''D'', str ''U'']
     [str ''A'', str ''A'', str ''A''] [] (str ''B'')"
  by (simp add: valid_config_def ROTOR_WIRINGS_def REFLECTORS_def is_letter_def is_AZ_def
        valid_pairs_def pair_letters_def)

lemma valid_main_settings:
  "valid_config [str ''III'', str ''IV'', str ''II''] [str ''G'', str ''T'', str ''N'']
     [str ''C'', str ''H'', str ''F'']
     [(str ''A'', str ''Z''), (str ''B'', str ''X''), (str ''C'', str ''W''),
      (str ''D'', str ''V''), (str ''E'', str ''U''), (str ''F'', str ''T''),
      (str ''G'', str ''S''), (str ''H'', str ''R''), (str ''I'', str ''Q''),
      (str ''J'', str ''P'')] (str ''B'')"
  by (simp add: valid_config_def ROTOR_WIRINGS_def REFLECTORS_def is_letter_def is_AZ_def
        valid_pairs_def pair_letters_def str_upper_def py_upper_def)

text \<open>
  The module's own example: the text \<open>Attack at dawn!\<close> on the machine with rotors III, IV,
  II at G, T, N, rings C, H, F and ten plugboard pairs comes back in upper case.
\<close>

lemma encrypt_round_trip_example:
  "valid_config [str ''III'', str ''IV'', str ''II''] [str ''G'', str ''T'', str ''N'']
     [str ''C'', str ''H'', str ''F'']
     [(str ''A'', str ''Z''), (str ''B'', str ''X''), (str ''C'', str ''W''),
      (str ''D'', str ''V''), (str ''E'', str ''U''), (str ''F'', str ''T''),
      (str ''G'', str ''S''), (str ''H'', str ''R''), (str ''I'', str ''Q''),
      (str ''J'', str ''P'')] (str ''B'') \<and>
   letters_AZ_only (str ''Attack at dawn!'') \<and>
   (\<exists>m ct m1.
     EnigmaMachine_init [str ''III'', str ''IV'', str ''II''] [str ''G'', str ''T'', str ''N'']
       [str ''C'', str ''H'', str ''F'']
       [(str ''A'', str ''Z''), (str ''B'', str ''X''), (str ''C'', str ''W''),
        (str ''D'', str ''V''), (str ''E'', str ''U''), (str ''F'', str ''T''),
        (str ''G'', str ''S''), (str ''H'', str ''R''), (str ''I'', str ''Q''),
        (str ''J'', str ''P'')] (str ''B'') = Inr m \<and>
     encrypt m (str ''Attack at dawn!'') = Inr (ct, m1) \<and>
     reset m1 [str ''G'', str ''T'', str ''N''] = Inr m \<and>
     encrypt m ct = Inr (str ''ATTACK AT DAWN!'', m1))"
proof -
  have t: "letters_AZ_only (str ''Attack at dawn!'')"
    by (simp add: letters_AZ_only_def str_upper_def py_upper_def py_isalpha_def is_AZ_def)
  have u: "str_upper (str ''Attack at dawn!'') = str ''ATTACK AT DAWN!''"
    by (simp add: str_upper_def py_upper_def)
  have s: "list_all (\<lambda>c. py_upper c = [c]) (str_upper (str ''Attack at dawn!''))"
    by (rule str_upper_latin1) simp
  from encrypt_round_trip [OF valid_main_settings t s] u valid_main_settings t
  show ?thesis by simp
qed

text \<open>
  C1: the failing input. The module's docstring states the round trip for every
  plaintext, \<open>encrypt(encrypt(plaintext, key), key) == plaintext\<close>, and \<open>encrypt\<close> means to
  substitute the 26 letters and to pass every other character through. On the machine
  with the default settings and the text of the single character e with an acute accent
  (code point 233, upper case 201, a letter for \<open>isalpha\<close>) the first encryption raises
  IndexError: there is no ciphertext to decrypt. It is the defect of C4; on the texts it
  does not touch the round trip holds (\<open>encrypt_round_trip\<close>).
\<close>

theorem encrypt_accented_letter_raises:
  "\<exists>m. EnigmaMachine_init [str ''I'', str ''II'', str ''III''] [str ''A'', str ''A'', str ''A'']
          [str ''A'', str ''A'', str ''A''] [] (str ''B'') = Inr m \<and>
        encrypt m [233] = Inl IndexError"
proof -
  from valid_config_machine [OF valid_defaults] obtain m where
    m: "EnigmaMachine_init [str ''I'', str ''II'', str ''III''] [str ''A'', str ''A'', str ''A'']
          [str ''A'', str ''A'', str ''A''] [] (str ''B'') = Inr m" "wf_machine m" by blast
  have u: "str_upper [233] = [201]" by (simp add: str_upper_def py_upper_def)
  have "encrypt_loop m [201] = Inl IndexError"
    by (rule encrypt_loop_raises [OF m(2)]) (simp_all add: py_upper_def py_isalpha_def is_AZ_def)
  then have "encrypt m [233] = Inl IndexError" by (simp add: encrypt_def u)
  with m(1) show ?thesis by blast
qed

text \<open>
  C4: the failing input. The machine of the module's own example (rotors III, IV, II at
  G, T, N, rings C, H, F, ten plugboard pairs, reflector B) encrypts the three letters of
  \<open>caf\<close> and then raises IndexError on the e with an acute accent (code point 233, upper
  case 201): \<open>isalpha\<close> holds of it, and its index 136 is outside the plugboard's list.
\<close>

theorem encrypt_cafe_raises:
  "\<exists>m. EnigmaMachine_init [str ''III'', str ''IV'', str ''II''] [str ''G'', str ''T'', str ''N'']
       [str ''C'', str ''H'', str ''F'']
       [(str ''A'', str ''Z''), (str ''B'', str ''X''), (str ''C'', str ''W''),
        (str ''D'', str ''V''), (str ''E'', str ''U''), (str ''F'', str ''T''),
        (str ''G'', str ''S''), (str ''H'', str ''R''), (str ''I'', str ''Q''),
        (str ''J'', str ''P'')] (str ''B'') = Inr m \<and>
      py_isalpha 233 \<and> str_upper [99, 97, 102, 233] = [67, 65, 70, 201] \<and>
      encrypt m [99, 97, 102, 233] = Inl IndexError"
proof -
  from valid_config_machine [OF valid_main_settings] obtain m where
    m: "EnigmaMachine_init [str ''III'', str ''IV'', str ''II''] [str ''G'', str ''T'', str ''N'']
       [str ''C'', str ''H'', str ''F'']
       [(str ''A'', str ''Z''), (str ''B'', str ''X''), (str ''C'', str ''W''),
        (str ''D'', str ''V''), (str ''E'', str ''U''), (str ''F'', str ''T''),
        (str ''G'', str ''S''), (str ''H'', str ''R''), (str ''I'', str ''Q''),
        (str ''J'', str ''P'')] (str ''B'') = Inr m" "wf_machine m" by blast
  have u: "str_upper [99, 97, 102, 233] = [67, 65, 70, 201]"
    by (simp add: str_upper_def py_upper_def)
  have a: "py_isalpha 233" by (simp add: py_isalpha_def)
  have "encrypt_loop m [67, 65, 70, 201] = Inl IndexError"
    by (rule encrypt_loop_raises [OF m(2)]) (simp_all add: py_upper_def py_isalpha_def is_AZ_def)
  then have "encrypt m [99, 97, 102, 233] = Inl IndexError" by (simp add: encrypt_def u)
  with m(1) u a show ?thesis by blast
qed

text \<open>
  C2, as amended: with rotors I, II, III (notches Q, E, V) built at A, D, U, with any ring
  letters, any valid plugboard and either reflector, four encryptions of one letter each
  leave the windows at A D V, then A E W, then B F X, then B F Y.
\<close>

theorem stepping_sequence_ADU:
  assumes "valid_config [str ''I'', str ''II'', str ''III''] [str ''A'', str ''D'', str ''U'']
             ring_settings pairs reflector_name"
    and "is_letter c1" "is_letter c2" "is_letter c3" "is_letter c4"
  shows "\<exists>m0 x1 m1 x2 m2 x3 m3 x4 m4.
     EnigmaMachine_init [str ''I'', str ''II'', str ''III''] [str ''A'', str ''D'', str ''U'']
        ring_settings pairs reflector_name = Inr m0 \<and>
     encrypt m0 c1 = Inr (x1, m1) \<and> window_letters (rotors m1) = Inr [str ''A'', str ''D'', str ''V''] \<and>
     encrypt m1 c2 = Inr (x2, m2) \<and> window_letters (rotors m2) = Inr [str ''A'', str ''E'', str ''W''] \<and>
     encrypt m2 c3 = Inr (x3, m3) \<and> window_letters (rotors m3) = Inr [str ''B'', str ''F'', str ''X''] \<and>
     encrypt m3 c4 = Inr (x4, m4) \<and> window_letters (rotors m4) = Inr [str ''B'', str ''F'', str ''Y'']"
  using assms by (rule four_presses)

lemma letter_A: "is_letter (str ''A'')"
  by (simp add: is_letter_def is_AZ_def)

theorem stepping_sequence_ADU_witness:
  "valid_config [str ''I'', str ''II'', str ''III''] [str ''A'', str ''D'', str ''U'']
     [str ''A'', str ''A'', str ''A''] [] (str ''B'') \<and> is_letter (str ''A'') \<and>
   (\<exists>m0 x1 m1 x2 m2 x3 m3 x4 m4.
     EnigmaMachine_init [str ''I'', str ''II'', str ''III''] [str ''A'', str ''D'', str ''U'']
        [str ''A'', str ''A'', str ''A''] [] (str ''B'') = Inr m0 \<and>
     encrypt m0 (str ''A'') = Inr (x1, m1) \<and> window_letters (rotors m1) = Inr [str ''A'', str ''D'', str ''V''] \<and>
     encrypt m1 (str ''A'') = Inr (x2, m2) \<and> window_letters (rotors m2) = Inr [str ''A'', str ''E'', str ''W''] \<and>
     encrypt m2 (str ''A'') = Inr (x3, m3) \<and> window_letters (rotors m3) = Inr [str ''B'', str ''F'', str ''X''] \<and>
     encrypt m3 (str ''A'') = Inr (x4, m4) \<and> window_letters (rotors m4) = Inr [str ''B'', str ''F'', str ''Y''])"
  using stepping_sequence_ADU [OF valid_demo_stepping letter_A letter_A letter_A letter_A]
    valid_demo_stepping letter_A
  by blast

text \<open>
  C2 as stated fails at the second key press: the right rotor stands at its notch V after
  the first press, so the second press moves the middle rotor from D to E, and the windows
  read A E W, not A D W.
\<close>

theorem stepping_sequence_ADW_AEX_refuted:
  "\<exists>m0 x1 m1 x2 m2.
     EnigmaMachine_init [str ''I'', str ''II'', str ''III''] [str ''A'', str ''D'', str ''U'']
        [str ''A'', str ''A'', str ''A''] [] (str ''B'') = Inr m0 \<and>
     encrypt m0 (str ''A'') = Inr (x1, m1) \<and> window_letters (rotors m1) = Inr [str ''A'', str ''D'', str ''V''] \<and>
     encrypt m1 (str ''A'') = Inr (x2, m2) \<and> window_letters (rotors m2) = Inr [str ''A'', str ''E'', str ''W''] \<and>
     window_letters (rotors m2) \<noteq> Inr [str ''A'', str ''D'', str ''W'']"
proof -
  from four_presses [OF valid_demo_stepping letter_A letter_A letter_A letter_A]
  obtain m0 x1 m1 x2 m2 where
    "EnigmaMachine_init [str ''I'', str ''II'', str ''III''] [str ''A'', str ''D'', str ''U'']
        [str ''A'', str ''A'', str ''A''] [] (str ''B'') = Inr m0"
    "encrypt m0 (str ''A'') = Inr (x1, m1)"
    "window_letters (rotors m1) = Inr [str ''A'', str ''D'', str ''V'']"
    "encrypt m1 (str ''A'') = Inr (x2, m2)"
    and w: "window_letters (rotors m2) = Inr [str ''A'', str ''E'', str ''W'']"
    by blast
  moreover from w have "window_letters (rotors m2) \<noteq> Inr [str ''A'', str ''D'', str ''W'']"
    by simp
  ultimately show ?thesis by blast
qed

lemma valid_stepping_states:
  "valid_config [str ''I'', str ''II'', str ''III''] [str ''A'', str ''D'', str ''V'']
     [str ''A'', str ''A'', str ''A''] [] (str ''B'')"
  "valid_config [str ''I'', str ''II'', str ''III''] [str ''Z'', str ''E'', str ''Z'']
     [str ''A'', str ''A'', str ''A''] [] (str ''B'')"
  "valid_config [str ''I'', str ''II'', str ''III''] [str ''A'', str ''E'', str ''V'']
     [str ''A'', str ''A'', str ''A''] [] (str ''B'')"
  by (simp_all add: valid_config_def ROTOR_WIRINGS_def REFLECTORS_def is_letter_def is_AZ_def
        valid_pairs_def pair_letters_def)

lemma machine_I_II_III:
  assumes "valid_config [str ''I'', str ''II'', str ''III''] [pa, pb, pc]
             [str ''A'', str ''A'', str ''A''] [] (str ''B'')"
  shows "\<exists>m l mi r.
     EnigmaMachine_init [str ''I'', str ''II'', str ''III''] [pa, pb, pc]
        [str ''A'', str ''A'', str ''A''] [] (str ''B'') = Inr m \<and>
     rotors m = [l, mi, r] \<and> notch mi = str ''E'' \<and> notch r = str ''V'' \<and>
     char_to_idx pa = Inr (position l) \<and> char_to_idx pb = Inr (position mi) \<and>
     char_to_idx pc = Inr (position r)"
proof -
  from valid_config_machine [OF assms] obtain m where
    m: "EnigmaMachine_init [str ''I'', str ''II'', str ''III''] [pa, pb, pc]
        [str ''A'', str ''A'', str ''A''] [] (str ''B'') = Inr m"
       "list_all2 built_from (rotors m)
           (zip [str ''I'', str ''II'', str ''III'']
              (zip [pa, pb, pc] [str ''A'', str ''A'', str ''A'']))"
    by blast
  from built_I_II_III [OF m(2)] obtain l mi r where
    "rotors m = [l, mi, r]" "notch mi = str ''E''" "notch r = str ''V''"
    "char_to_idx pa = Inr (position l)" "char_to_idx pb = Inr (position mi)"
    "char_to_idx pc = Inr (position r)"
    by auto
  with m(1) show ?thesis by blast
qed

text \<open>
  The rule at four states of the rotors I, II, III: at A D U no rotor is at its notch and
  only the right rotor advances; at A D V the right rotor is at its notch V and carries
  the middle rotor; at Z E Z the middle rotor is at its notch E and all three advance, the
  left and the right one from Z (25) round to A (0); at A E V both are at their notches
  and all three advance once.
\<close>

theorem step_rotors_rule_witness:
  "(\<exists>m left mid right.
     EnigmaMachine_init [str ''I'', str ''II'', str ''III''] [str ''A'', str ''D'', str ''U'']
        [str ''A'', str ''A'', str ''A''] [] (str ''B'') = Inr m \<and>
     rotors m = [left, mid, right] \<and>
     0 \<le> position mid \<and> position mid < 26 \<and> 0 \<le> position right \<and> position right < 26 \<and>
     is_at_notch mid = Inr False \<and> is_at_notch right = Inr False \<and>
     step_rotors m = Inr (m\<lparr>rotors := [left, mid, step right]\<rparr>) \<and>
     position (step right) = 21) \<and>
   (\<exists>m left mid right.
     EnigmaMachine_init [str ''I'', str ''II'', str ''III''] [str ''A'', str ''D'', str ''V'']
        [str ''A'', str ''A'', str ''A''] [] (str ''B'') = Inr m \<and>
     rotors m = [left, mid, right] \<and>
     0 \<le> position mid \<and> position mid < 26 \<and> 0 \<le> position right \<and> position right < 26 \<and>
     is_at_notch mid = Inr False \<and> is_at_notch right = Inr True \<and>
     step_rotors m = Inr (m\<lparr>rotors := [left, step mid, step right]\<rparr>) \<and>
     position (step mid) = 4 \<and> position (step right) = 22) \<and>
   (\<exists>m left mid right.
     EnigmaMachine_init [str ''I'', str ''II'', str ''III''] [str ''Z'', str ''E'', str ''Z'']
        [str ''A'', str ''A'', str ''A''] [] (str ''B'') = Inr m \<and>
     rotors m = [left, mid, right] \<and>
     0 \<le> position mid \<and> position mid < 26 \<and> 0 \<le> position right \<and> position right < 26 \<and>
     is_at_notch mid = Inr True \<and> is_at_notch right = Inr False \<and>
     step_rotors m = Inr (m\<lparr>rotors := [step left, step mid, step right]\<rparr>) \<and>
     position (step left) = 0 \<and> position (step mid) = 5 \<and> position (step right) = 0) \<and>
   (\<exists>m left mid right.
     EnigmaMachine_init [str ''I'', str ''II'', str ''III''] [str ''A'', str ''E'', str ''V'']
        [str ''A'', str ''A'', str ''A''] [] (str ''B'') = Inr m \<and>
     rotors m = [left, mid, right] \<and>
     0 \<le> position mid \<and> position mid < 26 \<and> 0 \<le> position right \<and> position right < 26 \<and>
     is_at_notch mid = Inr True \<and> is_at_notch right = Inr True \<and>
     step_rotors m = Inr (m\<lparr>rotors := [step left, step mid, step right]\<rparr>) \<and>
     position (step left) = 1 \<and> position (step mid) = 5 \<and> position (step right) = 22)"
proof (intro conjI)
  from machine_I_II_III [OF valid_demo_stepping] obtain m l mi r where
    m: "EnigmaMachine_init [str ''I'', str ''II'', str ''III''] [str ''A'', str ''D'', str ''U'']
          [str ''A'', str ''A'', str ''A''] [] (str ''B'') = Inr m"
    and rs: "rotors m = [l, mi, r]" and n: "notch mi = str ''E''" "notch r = str ''V''"
    and p: "position l = 0" "position mi = 3" "position r = 20"
    by (auto simp: char_to_idx_AZ is_AZ_def)
  have pos: "0 \<le> position mi" "position mi < 26" "0 \<le> position r" "position r < 26"
    using p by simp_all
  note s = step_rotors_rule [OF rs pos]
  from s p n have a: "is_at_notch mi = Inr False" "is_at_notch r = Inr False"
    "step_rotors m = Inr (m\<lparr>rotors := [l, mi, step r]\<rparr>)" "position (step r) = 21"
    by (simp_all add: ALPHABET_nth)
  from m rs pos a show "\<exists>m left mid right.
     EnigmaMachine_init [str ''I'', str ''II'', str ''III''] [str ''A'', str ''D'', str ''U'']
        [str ''A'', str ''A'', str ''A''] [] (str ''B'') = Inr m \<and>
     rotors m = [left, mid, right] \<and>
     0 \<le> position mid \<and> position mid < 26 \<and> 0 \<le> position right \<and> position right < 26 \<and>
     is_at_notch mid = Inr False \<and> is_at_notch right = Inr False \<and>
     step_rotors m = Inr (m\<lparr>rotors := [left, mid, step right]\<rparr>) \<and>
     position (step right) = 21"
    by simp
next
  from machine_I_II_III [OF valid_stepping_states(1)] obtain m l mi r where
    m: "EnigmaMachine_init [str ''I'', str ''II'', str ''III''] [str ''A'', str ''D'', str ''V'']
          [str ''A'', str ''A'', str ''A''] [] (str ''B'') = Inr m"
    and rs: "rotors m = [l, mi, r]" and n: "notch mi = str ''E''" "notch r = str ''V''"
    and p: "position l = 0" "position mi = 3" "position r = 21"
    by (auto simp: char_to_idx_AZ is_AZ_def)
  have pos: "0 \<le> position mi" "position mi < 26" "0 \<le> position r" "position r < 26"
    using p by simp_all
  note s = step_rotors_rule [OF rs pos]
  from s p n have a: "is_at_notch mi = Inr False" "is_at_notch r = Inr True"
    "step_rotors m = Inr (m\<lparr>rotors := [l, step mi, step r]\<rparr>)"
    "position (step mi) = 4" "position (step r) = 22"
    by (simp_all add: ALPHABET_nth)
  from m rs pos a show "\<exists>m left mid right.
     EnigmaMachine_init [str ''I'', str ''II'', str ''III''] [str ''A'', str ''D'', str ''V'']
        [str ''A'', str ''A'', str ''A''] [] (str ''B'') = Inr m \<and>
     rotors m = [left, mid, right] \<and>
     0 \<le> position mid \<and> position mid < 26 \<and> 0 \<le> position right \<and> position right < 26 \<and>
     is_at_notch mid = Inr False \<and> is_at_notch right = Inr True \<and>
     step_rotors m = Inr (m\<lparr>rotors := [left, step mid, step right]\<rparr>) \<and>
     position (step mid) = 4 \<and> position (step right) = 22"
    by simp
next
  from machine_I_II_III [OF valid_stepping_states(2)] obtain m l mi r where
    m: "EnigmaMachine_init [str ''I'', str ''II'', str ''III''] [str ''Z'', str ''E'', str ''Z'']
          [str ''A'', str ''A'', str ''A''] [] (str ''B'') = Inr m"
    and rs: "rotors m = [l, mi, r]" and n: "notch mi = str ''E''" "notch r = str ''V''"
    and p: "position l = 25" "position mi = 4" "position r = 25"
    by (auto simp: char_to_idx_AZ is_AZ_def)
  have pos: "0 \<le> position mi" "position mi < 26" "0 \<le> position r" "position r < 26"
    using p by simp_all
  note s = step_rotors_rule [OF rs pos]
  from s p n have a: "is_at_notch mi = Inr True" "is_at_notch r = Inr False"
    "step_rotors m = Inr (m\<lparr>rotors := [step l, step mi, step r]\<rparr>)"
    "position (step l) = 0" "position (step mi) = 5" "position (step r) = 0"
    by (simp_all add: ALPHABET_nth)
  from m rs pos a show "\<exists>m left mid right.
     EnigmaMachine_init [str ''I'', str ''II'', str ''III''] [str ''Z'', str ''E'', str ''Z'']
        [str ''A'', str ''A'', str ''A''] [] (str ''B'') = Inr m \<and>
     rotors m = [left, mid, right] \<and>
     0 \<le> position mid \<and> position mid < 26 \<and> 0 \<le> position right \<and> position right < 26 \<and>
     is_at_notch mid = Inr True \<and> is_at_notch right = Inr False \<and>
     step_rotors m = Inr (m\<lparr>rotors := [step left, step mid, step right]\<rparr>) \<and>
     position (step left) = 0 \<and> position (step mid) = 5 \<and> position (step right) = 0"
    by simp
next
  from machine_I_II_III [OF valid_stepping_states(3)] obtain m l mi r where
    m: "EnigmaMachine_init [str ''I'', str ''II'', str ''III''] [str ''A'', str ''E'', str ''V'']
          [str ''A'', str ''A'', str ''A''] [] (str ''B'') = Inr m"
    and rs: "rotors m = [l, mi, r]" and n: "notch mi = str ''E''" "notch r = str ''V''"
    and p: "position l = 0" "position mi = 4" "position r = 21"
    by (auto simp: char_to_idx_AZ is_AZ_def)
  have pos: "0 \<le> position mi" "position mi < 26" "0 \<le> position r" "position r < 26"
    using p by simp_all
  note s = step_rotors_rule [OF rs pos]
  from s p n have a: "is_at_notch mi = Inr True" "is_at_notch r = Inr True"
    "step_rotors m = Inr (m\<lparr>rotors := [step l, step mi, step r]\<rparr>)"
    "position (step l) = 1" "position (step mi) = 5" "position (step r) = 22"
    by (simp_all add: ALPHABET_nth)
  from m rs pos a show "\<exists>m left mid right.
     EnigmaMachine_init [str ''I'', str ''II'', str ''III''] [str ''A'', str ''E'', str ''V'']
        [str ''A'', str ''A'', str ''A''] [] (str ''B'') = Inr m \<and>
     rotors m = [left, mid, right] \<and>
     0 \<le> position mid \<and> position mid < 26 \<and> 0 \<le> position right \<and> position right < 26 \<and>
     is_at_notch mid = Inr True \<and> is_at_notch right = Inr True \<and>
     step_rotors m = Inr (m\<lparr>rotors := [step left, step mid, step right]\<rparr>) \<and>
     position (step left) = 1 \<and> position (step mid) = 5 \<and> position (step right) = 22"
    by simp
qed

section \<open>Pass-through, and lists of the wrong length\<close>

lemma encrypt_loop_skips:
  assumes "encrypt_loop m cs = Inr (res, m')"
  shows "length res = length cs \<and>
         (\<forall>i<length cs. \<not> py_isalpha (cs ! i) \<longrightarrow> res ! i = [cs ! i]) \<and>
         encrypt_loop m (filter py_isalpha cs) =
           Inr (map snd (filter (\<lambda>x. py_isalpha (fst x)) (zip cs res)), m')"
  using assms
proof (induction cs arbitrary: m res)
  case Nil
  then show ?case by auto
next
  case (Cons c cs)
  show ?case
  proof (cases "py_isalpha c")
    case True
    with Cons.prems obtain x m1 r where
      1: "encrypt_char m [c] = Inr (x, m1)" and 2: "encrypt_loop m1 cs = Inr (r, m')"
      and res: "res = x # r"
      by (auto split: sum.splits)
    from Cons.IH [OF 2] have ih: "length r = length cs"
      "\<forall>i<length cs. \<not> py_isalpha (cs ! i) \<longrightarrow> r ! i = [cs ! i]"
      "encrypt_loop m1 (filter py_isalpha cs) =
         Inr (map snd (filter (\<lambda>x. py_isalpha (fst x)) (zip cs r)), m')" by simp_all
    have a: "length res = length (c # cs)" using ih(1) res by simp
    have b: "\<forall>i<length (c # cs). \<not> py_isalpha ((c # cs) ! i) \<longrightarrow> res ! i = [(c # cs) ! i]"
      using ih(2) True res by (auto simp: nth_Cons split: nat.splits)
    have c: "encrypt_loop m (filter py_isalpha (c # cs)) =
           Inr (map snd (filter (\<lambda>x. py_isalpha (fst x)) (zip (c # cs) res)), m')"
      using True 1 ih(3) res by simp
    from a b c show ?thesis by blast
  next
    case False
    with Cons.prems obtain r where
      2: "encrypt_loop m cs = Inr (r, m')" and res: "res = [c] # r"
      by (auto split: sum.splits)
    from Cons.IH [OF 2] have ih: "length r = length cs"
      "\<forall>i<length cs. \<not> py_isalpha (cs ! i) \<longrightarrow> r ! i = [cs ! i]"
      "encrypt_loop m (filter py_isalpha cs) =
         Inr (map snd (filter (\<lambda>x. py_isalpha (fst x)) (zip cs r)), m')" by simp_all
    have a: "length res = length (c # cs)" using ih(1) res by simp
    have b: "\<forall>i<length (c # cs). \<not> py_isalpha ((c # cs) ! i) \<longrightarrow> res ! i = [(c # cs) ! i]"
      using ih(2) res by (auto simp: nth_Cons split: nat.splits)
    have c: "encrypt_loop m (filter py_isalpha (c # cs)) =
           Inr (map snd (filter (\<lambda>x. py_isalpha (fst x)) (zip (c # cs) res)), m')"
      using False ih(3) res by simp
    from a b c show ?thesis by blast
  qed
qed

lemma getitem_in_set: "getitem xs i = Inr x \<Longrightarrow> x \<in> set xs"
  by (auto simp: getitem_def split: if_splits)

lemma setitem_list_all:
  "setitem xs i v = Inr ys \<Longrightarrow> list_all P xs \<Longrightarrow> P v \<Longrightarrow> list_all P ys"
  by (auto simp: setitem_def list_all_iff split: if_splits dest!: set_update_subset_insert [THEN subsetD])

lemma char_to_idx_Inr_length: "char_to_idx s = Inr k \<Longrightarrow> length (str_upper s) = 1"
  by (auto simp: char_to_idx_def andthen_eq_Inr ord_def split: list.splits)

lemma plug_pair_single:
  assumes "plug_pair p st = Inr st'" "list_all (\<lambda>w. length w = 1) (fst st)"
  shows "list_all (\<lambda>w. length w = 1) (fst st')"
proof -
  let ?a = "str_upper (fst p)" and ?b = "str_upper (snd p)"
  from assms(1) obtain i w1 j w2 where
    s: "char_to_idx ?a = Inr i" "setitem (fst st) i ?b = Inr w1"
       "char_to_idx ?b = Inr j" "setitem w1 j ?a = Inr w2" "fst st' = w2"
    by (auto simp: plug_pair_def Let_def andthen_eq_Inr split: if_splits)
  from s(1) have la: "length ?a = 1" by (rule str_upper_single [OF char_to_idx_Inr_length])
  from s(3) have lb: "length ?b = 1" by (rule str_upper_single [OF char_to_idx_Inr_length])
  from setitem_list_all [OF s(2) assms(2)] lb have "list_all (\<lambda>w. length w = 1) w1" by simp
  from setitem_list_all [OF s(4) this] la show ?thesis by (simp add: s(5))
qed

lemma plug_pairs_single:
  "plug_pairs ps st = Inr st' \<Longrightarrow> list_all (\<lambda>w. length w = 1) (fst st) \<Longrightarrow>
   list_all (\<lambda>w. length w = 1) (fst st')"
proof (induction ps arbitrary: st)
  case Nil
  then show ?case by simp
next
  case (Cons p ps)
  from Cons.prems(1) obtain st1 where
    1: "plug_pair p st = Inr st1" and 2: "plug_pairs ps st1 = Inr st'"
    by (auto split: sum.splits)
  from plug_pair_single [OF 1 Cons.prems(2)] have "list_all (\<lambda>w. length w = 1) (fst st1)" .
  with 2 show ?case by (rule Cons.IH)
qed

lemma Plugboard_init_single:
  assumes "Plugboard_init pairs = Inr pb"
  shows "list_all (\<lambda>w. length w = 1) (plug_wiring pb)"
proof -
  from assms obtain st' where
    s: "plug_pairs pairs (map (\<lambda>c. [c]) ALPHABET, {}) = Inr st'" "plug_wiring pb = fst st'"
    by (auto simp: Plugboard_init_def andthen_eq_Inr)
  have "list_all (\<lambda>w. length w = 1) (fst (map (\<lambda>c. [c]) ALPHABET, {}::pystr set))"
    by (simp add: list_all_iff)
  from plug_pairs_single [OF s(1) this] show ?thesis by (simp add: s(2))
qed

lemma EnigmaMachine_init_single:
  assumes "EnigmaMachine_init rotor_names positions ring_settings pairs reflector_name = Inr m"
  shows "list_all (\<lambda>w. length w = 1) (plug_wiring (plugboard m))"
proof -
  from assms obtain pb where pb: "Plugboard_init pairs = Inr pb" "plugboard m = pb"
    by (auto simp: EnigmaMachine_init_def andthen_eq_Inr split: if_splits)
  from pb(1) have "list_all (\<lambda>w. length w = 1) (plug_wiring pb)" by (rule Plugboard_init_single)
  then show ?thesis by (simp only: pb(2))
qed

lemma encrypt_char_out:
  "encrypt_char m c = Inr (x, m') \<Longrightarrow> x \<in> set (plug_wiring (plugboard m'))"
  by (auto simp: encrypt_char_def plug_forward_def andthen_eq_Inr dest: getitem_in_set)

lemma encrypt_loop_single:
  assumes "encrypt_loop m cs = Inr (res, m')"
    "list_all (\<lambda>w. length w = 1) (plug_wiring (plugboard m))"
  shows "list_all (\<lambda>x. length x = 1) res"
  using assms
proof (induction cs arbitrary: m res)
  case Nil
  then show ?case by auto
next
  case (Cons c cs)
  show ?case
  proof (cases "py_isalpha c")
    case True
    with Cons.prems(1) obtain x m1 r where
      1: "encrypt_char m [c] = Inr (x, m1)" and 2: "encrypt_loop m1 cs = Inr (r, m')"
      and res: "res = x # r"
      by (auto split: sum.splits)
    from 1 have sk: "same_key m m1" by (blast intro: step_rotors_same_key encrypt_char_steps)
    then have pb: "plugboard m1 = plugboard m" by (simp add: same_key_def)
    from encrypt_char_out [OF 1] Cons.prems(2) have "length x = 1"
      by (simp add: pb list_all_iff)
    moreover from Cons.IH [OF 2] Cons.prems(2) have "list_all (\<lambda>x. length x = 1) r"
      by (simp add: pb)
    ultimately show ?thesis by (simp add: res)
  next
    case False
    with Cons.prems(1) obtain r where
      2: "encrypt_loop m cs = Inr (r, m')" and res: "res = [c] # r"
      by (auto split: sum.splits)
    from Cons.IH [OF 2 Cons.prems(2)] show ?thesis by (simp add: res)
  qed
qed

lemma concat_singletons:
  "list_all (\<lambda>x. length x = 1) res \<Longrightarrow> res = map (\<lambda>c. [c]) (concat res)"
proof (induction res)
  case Nil
  show ?case by simp
next
  case (Cons x res)
  from Cons.prems obtain a where "x = [a]" by (cases x) auto
  with Cons show ?case by simp
qed

lemma concat_map_single: "concat (map (\<lambda>c. [c]) xs) = xs"
  by (induction xs) simp_all

lemma zip_map_singletons:
  "map snd (filter (\<lambda>x. P (fst x)) (zip cs (map (\<lambda>c. [c]) out)))
     = map (\<lambda>c. [c]) (map snd (filter (\<lambda>x. P (fst x)) (zip cs out)))"
proof (induction cs arbitrary: out)
  case Nil
  show ?case by simp
next
  case (Cons c cs)
  show ?case by (cases out) (simp_all add: Cons.IH)
qed

text \<open>
  C8 as stated fails where upper-casing changes the text, since \<open>encrypt\<close> loops over
  \<open>text.upper()\<close> and not over the text. On the sharp s followed by an exclamation mark
  the output is \<open>JX!\<close>: the exclamation mark, at index 1 of the input, is at index 2 of
  the output, and index 1 holds a letter. On the circled small a (code point 9424, not
  alphabetic) the output is the circled capital A (9398): a non-alphabetic character
  that does not come out unchanged.
\<close>

theorem pass_through_of_input_refuted:
  "\<exists>m m'.
     EnigmaMachine_init [str ''I'', str ''II'', str ''III''] [str ''A'', str ''A'', str ''A'']
          [str ''A'', str ''A'', str ''A''] [] (str ''B'') = Inr m \<and>
     \<not> py_isalpha 33 \<and> encrypt m [223, 33] = Inr ([74, 88, 33], m') \<and>
     \<not> py_isalpha 9424 \<and> encrypt m [9424] = Inr ([9398], m)"
proof -
  from valid_config_machine [OF valid_defaults] obtain m where
    m: "EnigmaMachine_init [str ''I'', str ''II'', str ''III''] [str ''A'', str ''A'', str ''A'']
          [str ''A'', str ''A'', str ''A''] [] (str ''B'') = Inr m" "wf_machine m" by blast
  have u: "str_upper [223, 33] = [83, 83, 33]" by (simp add: str_upper_def py_upper_def)
  have t: "letters_AZ_only [223, 33]"
    by (simp add: letters_AZ_only_def u py_isalpha_def is_AZ_def)
  have s: "list_all (\<lambda>c. py_upper c = [c]) (str_upper [223, 33])"
    by (simp add: u py_upper_def)
  from encrypt_round [OF m(2) t s] obtain out m' where
    e: "encrypt m [223, 33] = Inr (out, m')" by blast
  have "andthen (EnigmaMachine_init [str ''I'', str ''II'', str ''III'']
            [str ''A'', str ''A'', str ''A''] [str ''A'', str ''A'', str ''A''] [] (str ''B''))
          (\<lambda>m. andthen (encrypt m [223, 33]) (\<lambda>r. Inr (fst r))) = Inr [74, 88, 33]"
    by code_simp
  then have o: "out = [74, 88, 33]" unfolding m(1) by (simp add: e)
  have n: "\<not> py_isalpha 33" by (simp add: py_isalpha_def)
  have c: "\<not> py_isalpha 9424" "\<not> py_isalpha 9398"
    by (simp_all add: py_isalpha_def unicode_tables)
  have "str_upper [9424] = [9398]" by (simp add: str_upper_def py_upper_def unicode_tables)
  then have "encrypt m [9424] = Inr ([9398], m)" by (simp add: encrypt_def c)
  with m(1) e o n c show ?thesis by blast
qed

text \<open>
  C8, as amended to speak of the upper-cased text. For a machine whose plugboard entries
  are single characters, as they are in every machine that the constructor returns
  (\<open>EnigmaMachine_init_single\<close>), and a text that \<open>encrypt\<close> returns from: the output is as
  long as the upper-cased text; at the index of a non-alphabetic character of the
  upper-cased text the output has that character; the machine after the call and the
  letters of the output are those of running the loop over the alphabetic characters of
  the upper-cased text alone, so the other characters step no rotor; the loop on one
  non-alphabetic character gives that character and leaves the machine as it was; and so
  does \<open>encrypt\<close> on a non-alphabetic character that upper-casing leaves as it is.
\<close>

theorem non_alphabetic_pass_through:
  assumes "list_all (\<lambda>w. length w = 1) (plug_wiring (plugboard m))"
    and "encrypt m text = Inr (out, m')"
  shows "length out = length (str_upper text) \<and>
     (\<forall>i<length out. \<not> py_isalpha (str_upper text ! i) \<longrightarrow> out ! i = str_upper text ! i) \<and>
     encrypt_loop m (filter py_isalpha (str_upper text)) =
       Inr (map (\<lambda>c. [c])
              (map snd (filter (\<lambda>x. py_isalpha (fst x)) (zip (str_upper text) out))), m') \<and>
     (\<forall>c. \<not> py_isalpha c \<longrightarrow> encrypt_loop m [c] = Inr ([[c]], m)) \<and>
     (\<forall>c. \<not> py_isalpha c \<and> py_upper c = [c] \<longrightarrow> encrypt m [c] = Inr ([c], m))"
proof -
  let ?cs = "str_upper text"
  from assms(2) obtain res where
    r: "encrypt_loop m ?cs = Inr (res, m')" "out = concat res"
    by (auto simp: encrypt_def andthen_eq_Inr)
  from encrypt_loop_skips [OF r(1)] have
    k: "length res = length ?cs"
       "\<forall>i<length ?cs. \<not> py_isalpha (?cs ! i) \<longrightarrow> res ! i = [?cs ! i]"
       "encrypt_loop m (filter py_isalpha ?cs) =
          Inr (map snd (filter (\<lambda>x. py_isalpha (fst x)) (zip ?cs res)), m')" by simp_all
  from encrypt_loop_single [OF r(1) assms(1)] have "list_all (\<lambda>x. length x = 1) res" .
  then have res: "res = map (\<lambda>c. [c]) out" unfolding r(2) by (rule concat_singletons)
  have 1: "length out = length ?cs" using k(1) res by (metis length_map)
  have 2: "\<forall>i<length out. \<not> py_isalpha (?cs ! i) \<longrightarrow> out ! i = ?cs ! i"
  proof (intro allI impI)
    fix i assume i: "i < length out" and n: "\<not> py_isalpha (?cs ! i)"
    from i 1 k(2) n have "res ! i = [?cs ! i]" by simp
    moreover from i have "res ! i = [out ! i]" by (subst res) simp
    ultimately show "out ! i = ?cs ! i" by simp
  qed
  have "map snd (filter (\<lambda>x. py_isalpha (fst x)) (zip ?cs res))
          = map (\<lambda>c. [c]) (map snd (filter (\<lambda>x. py_isalpha (fst x)) (zip ?cs out)))"
    by (subst res) (rule zip_map_singletons)
  with k(3) have 3: "encrypt_loop m (filter py_isalpha ?cs) =
       Inr (map (\<lambda>c. [c]) (map snd (filter (\<lambda>x. py_isalpha (fst x)) (zip ?cs out))), m')"
    by (simp only:)
  have 4: "\<forall>c. \<not> py_isalpha c \<longrightarrow> encrypt_loop m [c] = Inr ([[c]], m)" by simp
  have 5: "\<forall>c. \<not> py_isalpha c \<and> py_upper c = [c] \<longrightarrow> encrypt m [c] = Inr ([c], m)"
    by (simp add: encrypt_def str_upper_def)
  from 1 2 3 4 5 show ?thesis by blast
qed

text \<open>
  An instance with an em dash (8212) and a circled small a (9424): the text has five
  characters, its upper-cased form the letters A, B, C at the indices 0, 1, 4, the dash
  at index 2 and the circled capital A (9398) at index 3.
\<close>

theorem non_alphabetic_pass_through_witness:
  "\<exists>m out m'.
     EnigmaMachine_init [str ''I'', str ''II'', str ''III''] [str ''A'', str ''A'', str ''A'']
          [str ''A'', str ''A'', str ''A''] [] (str ''B'') = Inr m \<and>
     list_all (\<lambda>w. length w = 1) (plug_wiring (plugboard m)) \<and>
     encrypt m [97, 98, 8212, 9424, 99] = Inr (out, m') \<and>
     length out = 5 \<and> out ! 2 = 8212 \<and> out ! 3 = 9398 \<and>
     encrypt_loop m (str ''ABC'') = Inr ([[out ! 0], [out ! 1], [out ! 4]], m') \<and>
     encrypt_loop m [8212] = Inr ([[8212]], m) \<and>
     encrypt m [8212] = Inr ([8212], m)"
proof -
  from valid_config_machine [OF valid_defaults] obtain m where
    m: "EnigmaMachine_init [str ''I'', str ''II'', str ''III''] [str ''A'', str ''A'', str ''A'']
          [str ''A'', str ''A'', str ''A''] [] (str ''B'') = Inr m" "wf_machine m" by blast
  have sg: "list_all (\<lambda>w. length w = 1) (plug_wiring (plugboard m))"
    using m(1) by (rule EnigmaMachine_init_single)
  have u: "str_upper [97, 98, 8212, 9424, 99] = [65, 66, 8212, 9398, 67]"
    by (simp add: str_upper_def py_upper_def unicode_tables)
  have n: "\<not> py_isalpha 8212" "\<not> py_isalpha 9398"
    by (simp_all add: py_isalpha_def unicode_tables)
  have a: "py_isalpha 65" "py_isalpha 66" "py_isalpha 67" by (simp_all add: py_isalpha_def)
  have p: "py_upper 8212 = [8212]" "py_upper 9398 = [9398]"
    by (simp_all add: py_upper_def unicode_tables)
  have t: "letters_AZ_only [97, 98, 8212, 9424, 99]"
    by (simp add: letters_AZ_only_def u n is_AZ_def)
  have s: "list_all (\<lambda>c. py_upper c = [c]) (str_upper [97, 98, 8212, 9424, 99])"
    by (simp add: u p py_upper_AZ is_AZ_def)
  from encrypt_round [OF m(2) t s] obtain out m' where
    e: "encrypt m [97, 98, 8212, 9424, 99] = Inr (out, m')" by blast
  note r = non_alphabetic_pass_through [OF sg e, unfolded u]
  from r have l5: "length out = 5" by simp
  then obtain a0 a1 a2 a3 a4 where out: "out = [a0, a1, a2, a3, a4]"
    by (auto simp: length_Suc_conv eval_nat_numeral)
  from r l5 n have o2: "out ! 2 = 8212" by simp
  from r l5 n have o3: "out ! 3 = 9398" by simp
  from r have f: "encrypt_loop m (str ''ABC'') = Inr ([[out ! 0], [out ! 1], [out ! 4]], m')"
    by (simp add: out a n)
  from r n have g: "encrypt_loop m [8212] = Inr ([[8212]], m)" by blast
  from r n p have h: "encrypt m [8212] = Inr ([8212], m)" by blast
  from m(1) sg e l5 o2 o3 f g h show ?thesis by blast
qed

text \<open>
  C9: the failing inputs. (1) Three catalog rotor names with two positions: the
  constructor returns a machine with two rotors, and the first letter encrypted raises
  ValueError, from the unpacking \<open>left, mid, right = self.rotors\<close>. (2) With two positions
  the third rotor name is never looked up: the unknown name VI is accepted.
\<close>

theorem short_positions_raise_later:
  "\<exists>m m2.
     EnigmaMachine_init [str ''I'', str ''II'', str ''III''] [str ''A'', str ''A'']
        [str ''A'', str ''A'', str ''A''] [] (str ''B'') = Inr m \<and>
     length (rotors m) = 2 \<and> encrypt m (str ''A'') = Inl ValueError \<and>
     ROTOR_WIRINGS (str ''VI'') = None \<and>
     EnigmaMachine_init [str ''I'', str ''II'', str ''VI''] [str ''A'', str ''A'']
        [str ''A'', str ''A'', str ''A''] [] (str ''B'') = Inr m2"
proof -
  have vp: "valid_pairs []" by (simp add: valid_pairs_def pair_letters_def)
  have rf: "REFLECTORS (str ''B'') \<noteq> None" by (simp add: REFLECTORS_def)
  have l3: "length [str ''I'', str ''II'', str ''III''] = 3"
           "length [str ''I'', str ''II'', str ''VI''] = 3" by simp_all
  have z1: "list_all valid_rotor_spec
     (zip [str ''I'', str ''II'', str ''III''] (zip [str ''A'', str ''A''] [str ''A'', str ''A'', str ''A'']))"
    by (simp add: valid_rotor_spec_def ROTOR_WIRINGS_def is_letter_def is_AZ_def)
  have z2: "list_all valid_rotor_spec
     (zip [str ''I'', str ''II'', str ''VI''] (zip [str ''A'', str ''A''] [str ''A'', str ''A'', str ''A'']))"
    by (simp add: valid_rotor_spec_def ROTOR_WIRINGS_def is_letter_def is_AZ_def)
  from EnigmaMachine_init_ok [OF l3(1) z1 vp rf] obtain m where
    m: "EnigmaMachine_init [str ''I'', str ''II'', str ''III''] [str ''A'', str ''A'']
        [str ''A'', str ''A'', str ''A''] [] (str ''B'') = Inr m"
       "list_all2 built_from (rotors m)
          (zip [str ''I'', str ''II'', str ''III''] (zip [str ''A'', str ''A''] [str ''A'', str ''A'', str ''A'']))"
    by blast
  from EnigmaMachine_init_ok [OF l3(2) z2 vp rf] obtain m2 where
    m2: "EnigmaMachine_init [str ''I'', str ''II'', str ''VI''] [str ''A'', str ''A'']
        [str ''A'', str ''A'', str ''A''] [] (str ''B'') = Inr m2" by blast
  from m(2) have len: "length (rotors m) = 2" by (auto dest: list_all2_lengthD)
  then have "encrypt_char m [65] = Inl ValueError" by (simp add: encrypt_char_not3)
  then have e: "encrypt m (str ''A'') = Inl ValueError"
    by (simp add: encrypt_def str_upper_def py_upper_def py_isalpha_def)
  have "ROTOR_WIRINGS (str ''VI'') = None" by (simp add: ROTOR_WIRINGS_def)
  with m(1) len e m2 show ?thesis by blast
qed

lemma reset_loop_letters:
  assumes "list_all is_letter ps"
  shows "\<exists>rs'. reset_loop rs ps = Inr rs' \<and> length rs' = length rs \<and>
     (\<forall>i<length rs.
        (i < length ps \<longrightarrow> char_to_idx (ps ! i) = Inr (position (rs' ! i)) \<and>
                            rs' ! i = (rs ! i)\<lparr>position := position (rs' ! i)\<rparr>) \<and>
        (length ps \<le> i \<longrightarrow> rs' ! i = rs ! i))"
  using assms
proof (induction rs ps rule: reset_loop.induct)
  case (1 ps)
  show ?case by simp
next
  case (2 r rs)
  show ?case by simp
next
  case (3 r rs p ps)
  from "3.prems" have lp: "is_letter p" and lps: "list_all is_letter ps" by simp_all
  from char_to_idx_letter [OF lp] obtain k where k: "char_to_idx p = Inr k" by blast
  from "3.IH" [OF k lps] obtain rs' where
    ih: "reset_loop rs ps = Inr rs'" "length rs' = length rs"
        "\<forall>i<length rs.
          (i < length ps \<longrightarrow> char_to_idx (ps ! i) = Inr (position (rs' ! i)) \<and>
                              rs' ! i = (rs ! i)\<lparr>position := position (rs' ! i)\<rparr>) \<and>
          (length ps \<le> i \<longrightarrow> rs' ! i = rs ! i)" by blast
  have 1: "reset_loop (r # rs) (p # ps) = Inr (r\<lparr>position := k\<rparr> # rs')" using k ih(1) by simp
  have 2: "\<forall>i<length (r # rs).
        (i < length (p # ps) \<longrightarrow>
           char_to_idx ((p # ps) ! i) = Inr (position ((r\<lparr>position := k\<rparr> # rs') ! i)) \<and>
           (r\<lparr>position := k\<rparr> # rs') ! i
             = ((r # rs) ! i)\<lparr>position := position ((r\<lparr>position := k\<rparr> # rs') ! i)\<rparr>) \<and>
        (length (p # ps) \<le> i \<longrightarrow> (r\<lparr>position := k\<rparr> # rs') ! i = (r # rs) ! i)"
    using ih(3) k by (auto simp: nth_Cons split: nat.splits)
  from 1 2 ih(2) show ?case by simp
qed

text \<open>
  C10: with three rotor names from the catalog and positions and ring settings that are
  letters, a valid plugboard and a catalog reflector, a positions list or a ring list
  shorter than three makes the constructor return, without an error, a machine with as
  many rotors as the shorter of the two lists has entries, fewer than three. And \<open>reset\<close>
  with a list of letters of any length returns a machine with as many rotors as before,
  the same plugboard and reflector: a rotor that has an entry in the list gets that
  letter's index as its position and is otherwise unchanged, every later rotor is as it was.
\<close>

theorem short_lists_are_accepted:
  assumes "length rotor_names = 3" "list_all (\<lambda>n. ROTOR_WIRINGS n \<noteq> None) rotor_names"
    and "list_all is_letter positions" "list_all is_letter ring_settings"
    and "valid_pairs pairs" "REFLECTORS reflector_name \<noteq> None"
    and "length positions < 3 \<or> length ring_settings < 3"
    and "list_all is_letter new_positions"
  shows "(\<exists>m. EnigmaMachine_init rotor_names positions ring_settings pairs reflector_name = Inr m \<and>
            length (rotors m) = min (length positions) (length ring_settings) \<and>
            length (rotors m) < 3) \<and>
         (\<exists>m'. reset mm new_positions = Inr m' \<and> length (rotors m') = length (rotors mm) \<and>
            plugboard m' = plugboard mm \<and> reflector m' = reflector mm \<and>
            (\<forall>i<length (rotors mm).
               (i < length new_positions \<longrightarrow>
                  char_to_idx (new_positions ! i) = Inr (position (rotors m' ! i)) \<and>
                  rotors m' ! i = (rotors mm ! i)\<lparr>position := position (rotors m' ! i)\<rparr>) \<and>
               (length new_positions \<le> i \<longrightarrow> rotors m' ! i = rotors mm ! i)))"
proof
  from EnigmaMachine_init_ok [OF assms(1) zip3_valid [OF assms(2,3,4)] assms(5,6)] obtain m where
    m: "EnigmaMachine_init rotor_names positions ring_settings pairs reflector_name = Inr m"
       "list_all2 built_from (rotors m) (zip rotor_names (zip positions ring_settings))" by blast
  from m(2) have "length (rotors m) = min 3 (min (length positions) (length ring_settings))"
    using assms(1) by (auto dest: list_all2_lengthD)
  with assms(7) have "length (rotors m) = min (length positions) (length ring_settings)"
    "length (rotors m) < 3" by auto
  with m(1) show "\<exists>m. EnigmaMachine_init rotor_names positions ring_settings pairs reflector_name = Inr m \<and>
            length (rotors m) = min (length positions) (length ring_settings) \<and>
            length (rotors m) < 3" by blast
next
  from reset_loop_letters [OF assms(8), of "rotors mm"] obtain rs' where
    r: "reset_loop (rotors mm) new_positions = Inr rs'" "length rs' = length (rotors mm)"
       "\<forall>i<length (rotors mm).
          (i < length new_positions \<longrightarrow> char_to_idx (new_positions ! i) = Inr (position (rs' ! i)) \<and>
                              rs' ! i = (rotors mm ! i)\<lparr>position := position (rs' ! i)\<rparr>) \<and>
          (length new_positions \<le> i \<longrightarrow> rs' ! i = rotors mm ! i)" by blast
  have "reset mm new_positions = Inr (mm\<lparr>rotors := rs'\<rparr>)" using r(1) by (simp add: reset_def)
  with r(2,3) show "\<exists>m'. reset mm new_positions = Inr m' \<and> length (rotors m') = length (rotors mm) \<and>
            plugboard m' = plugboard mm \<and> reflector m' = reflector mm \<and>
            (\<forall>i<length (rotors mm).
               (i < length new_positions \<longrightarrow>
                  char_to_idx (new_positions ! i) = Inr (position (rotors m' ! i)) \<and>
                  rotors m' ! i = (rotors mm ! i)\<lparr>position := position (rotors m' ! i)\<rparr>) \<and>
               (length new_positions \<le> i \<longrightarrow> rotors m' ! i = rotors mm ! i))"
    by simp
qed

theorem short_lists_are_accepted_witness:
  "\<exists>m m'.
     EnigmaMachine_init [str ''I'', str ''II'', str ''III''] [str ''A'', str ''B'']
        [str ''A'', str ''A'', str ''A''] [] (str ''B'') = Inr m \<and>
     length (rotors m) = 2 \<and>
     reset m [str ''C''] = Inr m' \<and> length (rotors m') = 2 \<and>
     char_to_idx (str ''C'') = Inr (position (rotors m' ! 0)) \<and>
     rotors m' ! 0 = (rotors m ! 0)\<lparr>position := position (rotors m' ! 0)\<rparr> \<and>
     rotors m' ! 1 = rotors m ! 1"
proof -
  have h: "length [str ''I'', str ''II'', str ''III''] = 3"
    "list_all (\<lambda>n. ROTOR_WIRINGS n \<noteq> None) [str ''I'', str ''II'', str ''III'']"
    "list_all is_letter [str ''A'', str ''B'']" "list_all is_letter [str ''A'', str ''A'', str ''A'']"
    "valid_pairs []" "REFLECTORS (str ''B'') \<noteq> None"
    "length [str ''A'', str ''B''] < 3 \<or> length [str ''A'', str ''A'', str ''A''] < 3"
    "list_all is_letter [str ''C'']"
    by (simp_all add: ROTOR_WIRINGS_def REFLECTORS_def is_letter_def is_AZ_def valid_pairs_def
          pair_letters_def)
  from short_lists_are_accepted [OF h] obtain m where
    m: "EnigmaMachine_init [str ''I'', str ''II'', str ''III''] [str ''A'', str ''B'']
        [str ''A'', str ''A'', str ''A''] [] (str ''B'') = Inr m"
       "length (rotors m) = min (length [str ''A'', str ''B'']) (length [str ''A'', str ''A'', str ''A''])"
    by blast
  from m(2) have l2: "length (rotors m) = 2" by simp
  from short_lists_are_accepted [OF h, of m] obtain m' where
    r: "reset m [str ''C''] = Inr m'" "length (rotors m') = length (rotors m)"
       "\<forall>i<length (rotors m).
          (i < length [str ''C''] \<longrightarrow>
             char_to_idx ([str ''C''] ! i) = Inr (position (rotors m' ! i)) \<and>
             rotors m' ! i = (rotors m ! i)\<lparr>position := position (rotors m' ! i)\<rparr>) \<and>
          (length [str ''C''] \<le> i \<longrightarrow> rotors m' ! i = rotors m ! i)"
    by blast
  have i0: "(0::nat) < length (rotors m)" "(0::nat) < length [str ''C'']"
    and i1: "(1::nat) < length (rotors m)" "length [str ''C''] \<le> (1::nat)"
    using l2 by simp_all
  from r(3) i0 have 0:
    "char_to_idx ([str ''C''] ! 0) = Inr (position (rotors m' ! 0)) \<and>
     rotors m' ! 0 = (rotors m ! 0)\<lparr>position := position (rotors m' ! 0)\<rparr>" by blast
  have c: "[str ''C''] ! 0 = str ''C''" by simp
  have a0: "char_to_idx (str ''C'') = Inr (position (rotors m' ! 0))"
    using 0 unfolding c by (rule conjunct1)
  have b0: "rotors m' ! 0 = (rotors m ! 0)\<lparr>position := position (rotors m' ! 0)\<rparr>"
    using 0 by (rule conjunct2)
  from r(3) i1 have 1: "rotors m' ! 1 = rotors m ! 1" by blast
  have l2': "length (rotors m') = 2" using r(2) l2 by simp
  from m(1) l2 r(1) l2' a0 b0 1 show ?thesis by blast
qed

end
